(* ===== verification/Prelude.thy ===== *)
theory Prelude
  imports Main "HOL-Library.Multiset"
begin

text \<open>
  Shared vocabulary of the development: the exception monad every thunk and
  validator of the program is written in (a JavaScript \<open>throw\<close> is an \<open>Inl\<close>
  value, normal completion an \<open>Inr\<close> value), the named collections the component
  theories put their evaluation rules into, and generic lemmas on lists and
  association lists (the model of JavaScript objects) that several components use.
\<close>

named_theorems js_simps "evaluation rules of the JavaScript value model"
named_theorems exc_simps "evaluation rules of the exception monad"

subsection \<open>The exception monad\<close>

text \<open>
  \<open>ebind m f\<close> runs \<open>m\<close>; a thrown exception is propagated unchanged, a
  returned value is passed to \<open>f\<close>. This is JavaScript's sequential composition
  of two statements where the first may throw.
\<close>

fun ebind :: "'e + 'a \<Rightarrow> ('a \<Rightarrow> 'e + 'b) \<Rightarrow> 'e + 'b" where
  "ebind (Inl e) f = Inl e"
| "ebind (Inr x) f = f x"

definition ethen :: "'e + unit \<Rightarrow> 'e + 'b \<Rightarrow> 'e + 'b" where
  "ethen m n = ebind m (\<lambda>_. n)"

lemma ebind_Inr_iff [exc_simps]:
  "ebind m f = Inr y \<longleftrightarrow> (\<exists>x. m = Inr x \<and> f x = Inr y)"
  by (cases m) auto

lemma ebind_Inl_iff [exc_simps]:
  "ebind m f = Inl e \<longleftrightarrow> m = Inl e \<or> (\<exists>x. m = Inr x \<and> f x = Inl e)"
  by (cases m) auto

lemma ethen_simps [simp, exc_simps]:
  "ethen (Inl e) n = Inl e"
  "ethen (Inr u) n = n"
  by (simp_all add: ethen_def)

lemma ebind_assoc [exc_simps]:
  "ebind (ebind m f) g = ebind m (\<lambda>x. ebind (f x) g)"
  by (cases m) auto

text \<open>\<open>Array.prototype.map\<close> with a callback that may throw: elements are
  visited left to right and the first exception aborts the whole map.\<close>

fun emap :: "('a \<Rightarrow> 'e + 'b) \<Rightarrow> 'a list \<Rightarrow> 'e + 'b list" where
  "emap f [] = Inr []"
| "emap f (x # xs) = ebind (f x) (\<lambda>y. ebind (emap f xs) (\<lambda>ys. Inr (y # ys)))"

lemma emap_Inr_iff:
  "emap f xs = Inr ys \<longleftrightarrow> list_all2 (\<lambda>x y. f x = Inr y) xs ys"
proof (induction xs arbitrary: ys)
  case Nil
  then show ?case by auto
next
  case (Cons x xs)
  then show ?case by (cases "f x"; cases ys) (auto simp: ebind_Inr_iff)
qed

lemma emap_Inl_iff:
  "(\<exists>e. emap f xs = Inl e) \<longleftrightarrow> (\<exists>x\<in>set xs. \<exists>e. f x = Inl e)"
proof (induction xs)
  case Nil
  then show ?case by simp
next
  case (Cons x xs)
  then show ?case by (cases "f x"; cases "emap f xs") auto
qed

subsection \<open>State with exceptions\<close>

text \<open>
  A computation of a thunk reads and writes a state and may throw; what it wrote
  before throwing stays written, as in JavaScript. \<open>('s, 'e, 'a) sexc\<close> is such a
  computation; \<open>stry m h\<close> is \<open>try { m } catch (e) { h(e) }\<close>.
\<close>

type_synonym ('s, 'e, 'a) sexc = "'s \<Rightarrow> ('e + 'a) \<times> 's"

definition sreturn :: "'a \<Rightarrow> ('s, 'e, 'a) sexc" where
  "sreturn x s = (Inr x, s)"

definition slift :: "'e + 'a \<Rightarrow> ('s, 'e, 'a) sexc" where
  "slift r s = (r, s)"

definition sbind :: "('s, 'e, 'a) sexc \<Rightarrow> ('a \<Rightarrow> ('s, 'e, 'b) sexc) \<Rightarrow> ('s, 'e, 'b) sexc" where
  "sbind m f s = (case m s of (Inl e, s') \<Rightarrow> (Inl e, s') | (Inr x, s') \<Rightarrow> f x s')"

definition sthen :: "('s, 'e, unit) sexc \<Rightarrow> ('s, 'e, 'b) sexc \<Rightarrow> ('s, 'e, 'b) sexc" where
  "sthen m n = sbind m (\<lambda>_. n)"

definition stry :: "('s, 'e, 'a) sexc \<Rightarrow> ('e \<Rightarrow> ('s, 'e, 'a) sexc) \<Rightarrow> ('s, 'e, 'a) sexc" where
  "stry m h s = (case m s of (Inl e, s') \<Rightarrow> h e s' | r \<Rightarrow> r)"

definition smodify :: "('s \<Rightarrow> 's) \<Rightarrow> ('s, 'e, unit) sexc" where
  "smodify f s = (Inr (), f s)"

definition sget :: "('s \<Rightarrow> 'a) \<Rightarrow> ('s, 'e, 'a) sexc" where
  "sget f s = (Inr (f s), s)"

lemma sreturn_apply [simp, exc_simps]: "sreturn x s = (Inr x, s)"
  by (simp add: sreturn_def)

lemma slift_apply [simp, exc_simps]: "slift r s = (r, s)"
  by (simp add: slift_def)

lemma smodify_apply [simp, exc_simps]: "smodify f s = (Inr (), f s)"
  by (simp add: smodify_def)

lemma sget_apply [simp, exc_simps]: "sget g s = (Inr (g s), s)"
  by (simp add: sget_def)

lemma sbind_apply [simp, exc_simps]:
  "sbind m f s = (case m s of (Inl e, s') \<Rightarrow> (Inl e, s') | (Inr x, s') \<Rightarrow> f x s')"
  by (simp add: sbind_def)

lemma sthen_apply [simp, exc_simps]:
  "sthen m n s = (case m s of (Inl e, s') \<Rightarrow> (Inl e, s') | (Inr x, s') \<Rightarrow> n s')"
  by (simp add: sthen_def)

lemma stry_apply [simp, exc_simps]:
  "stry m h s = (case m s of (Inl e, s') \<Rightarrow> h e s' | r \<Rightarrow> r)"
  by (simp add: stry_def)

subsection \<open>Association lists as objects\<close>

text \<open>
  \<open>alist_set k v kvs\<close> is the property write \<open>o[k] = v\<close> on an object whose own
  properties are \<open>kvs\<close> in insertion order: an existing key keeps its position and
  gets the new value, a new key is appended at the end (ECMAScript's ordinary
  object property order for string keys).
\<close>

fun alist_set :: "'k \<Rightarrow> 'v \<Rightarrow> ('k \<times> 'v) list \<Rightarrow> ('k \<times> 'v) list" where
  "alist_set k v [] = [(k, v)]"
| "alist_set k v ((k', v') # kvs) =
     (if k' = k then (k, v) # kvs else (k', v') # alist_set k v kvs)"

lemma map_of_alist_set [simp]:
  "map_of (alist_set k v kvs) = (map_of kvs)(k \<mapsto> v)"
  by (induction kvs) (auto simp: fun_eq_iff)

lemma map_fst_alist_set_mem:
  "k \<in> set (map fst kvs) \<Longrightarrow> map fst (alist_set k v kvs) = map fst kvs"
  by (induction kvs) (force simp: image_iff)+

lemma map_fst_alist_set_new:
  "k \<notin> set (map fst kvs) \<Longrightarrow> map fst (alist_set k v kvs) = map fst kvs @ [k]"
  by (induction kvs) auto

lemma distinct_alist_set [simp]:
  "distinct (map fst (alist_set k v kvs)) = distinct (map fst kvs)"
  by (cases "k \<in> set (map fst kvs)") (simp_all add: map_fst_alist_set_mem map_fst_alist_set_new)

lemma alist_set_same [simp]:
  "distinct (map fst kvs) \<Longrightarrow> map_of kvs k = Some v \<Longrightarrow> alist_set k v kvs = kvs"
  by (induction kvs) (auto split: if_splits)

lemma alist_set_twice [simp]:
  "alist_set k v (alist_set k w kvs) = alist_set k v kvs"
  by (induction kvs) auto

subsection \<open>Decimal strings\<close>

text \<open>The canonical decimal string of an array index, the key under which the
  object spread \<open>{...a}\<close> stores element \<open>i\<close> of an array.\<close>

definition decimal_digits :: string where
  "decimal_digits = ''0123456789''"

fun string_of_nat :: "nat \<Rightarrow> string" where
  "string_of_nat n =
     (if n < 10 then [decimal_digits ! n]
      else string_of_nat (n div 10) @ [decimal_digits ! (n mod 10)])"

declare string_of_nat.simps [simp del]

lemma string_of_nat_digits:
  "set (string_of_nat n) \<subseteq> set decimal_digits"
proof (induction n rule: string_of_nat.induct)
  case (1 n)
  have digit: "m < 10 \<Longrightarrow> decimal_digits ! m \<in> set decimal_digits" for m :: nat
    by (rule nth_mem) (simp add: decimal_digits_def)
  show ?case
  proof (cases "n < 10")
    case True
    then show ?thesis by (simp add: string_of_nat.simps [of n] digit)
  next
    case False
    with "1.IH" show ?thesis by (simp add: string_of_nat.simps [of n] digit)
  qed
qed

lemma string_of_nat_neq:
  "c \<in> set k \<Longrightarrow> c \<notin> set ''0123456789'' \<Longrightarrow> string_of_nat n \<noteq> k"
  using string_of_nat_digits [of n] unfolding decimal_digits_def by auto

subsection \<open>Lists\<close>

text \<open>\<open>Array.prototype.join(sep)\<close> on strings.\<close>

fun join_with :: "string \<Rightarrow> string list \<Rightarrow> string" where
  "join_with sep [] = []"
| "join_with sep [x] = x"
| "join_with sep (x # xs) = x @ sep @ join_with sep xs"

lemma find_append_None:
  "find P xs = None \<Longrightarrow> find P (xs @ ys) = find P ys"
  by (induction xs) (auto split: if_splits)

lemma find_Some_first:
  "find P xs = Some x \<Longrightarrow> x \<in> set xs \<and> P x"
  by (induction xs) (auto split: if_splits)

end
