(* ===== verification/JsValue.thy ===== *)
theory JsValue
  imports Prelude
begin

text \<open>
  The JavaScript values the program inspects and the primitive operations of the
  language and of lodash it applies to them. The validator of
  \<^verbatim>\<open>packages/app/src/modules/layoutValidation.js\<close> and the axis adapter of
  \<^verbatim>\<open>src/actions/index.js\<close> receive JSON from the analytics backend or from the
  editor, so they must be read over untyped values: \<open>typeof\<close>, \<open>Array.isArray\<close>,
  lodash's \<open>isObject\<close>, truthiness, property reads that throw a \<open>TypeError\<close> on
  \<open>null\<close> and \<open>undefined\<close>, and the array spread \<open>[...x]\<close> that throws on a
  value that is not iterable.

  Numbers are integers (the program only reads lengths and HTTP status codes; \<open>NaN\<close>
  and fractions are not modelled). Objects are association lists of their own
  enumerable properties in insertion order; none of the keys the program reads
  (\<open>dimension\<close>, \<open>items\<close>, \<open>id\<close>, \<open>type\<close>, \<open>columns\<close>, \<open>rows\<close>, \<open>filters\<close>,
  \<open>yearlySeries\<close>, \<open>name\<close>, \<open>description\<close>, \<open>message\<close>, \<open>details\<close>,
  \<open>httpStatusCode\<close>) is a property of \<open>Object.prototype\<close>, so own properties are
  all a read can see. Functions are not values of the model.
\<close>

datatype jsval =
    JUndef
  | JNull
  | JBool bool
  | JNum int
  | JStr string
  | JArr "jsval list"
  | JObj "(string \<times> jsval) list"

text \<open>The two kinds of exception the code can raise: \<open>new Error(message)\<close> with one
  of the validator's messages, and the runtime's \<open>TypeError\<close>.\<close>

datatype 'm js_exc = Error 'm | TypeError

subsection \<open>Operators\<close>

fun js_typeof :: "jsval \<Rightarrow> string" where
  "js_typeof JUndef = ''undefined''"
| "js_typeof JNull = ''object''"
| "js_typeof (JBool _) = ''boolean''"
| "js_typeof (JNum _) = ''number''"
| "js_typeof (JStr _) = ''string''"
| "js_typeof (JArr _) = ''object''"
| "js_typeof (JObj _) = ''object''"

text \<open>ToBoolean: what \<open>if (x)\<close>, \<open>x && y\<close> and \<open>x || y\<close> test.\<close>

fun js_truthy :: "jsval \<Rightarrow> bool" where
  "js_truthy JUndef = False"
| "js_truthy JNull = False"
| "js_truthy (JBool b) = b"
| "js_truthy (JNum n) = (n \<noteq> 0)"
| "js_truthy (JStr s) = (s \<noteq> [])"
| "js_truthy (JArr _) = True"
| "js_truthy (JObj _) = True"

text \<open>lodash \<open>isObject\<close>: \<open>typeof value == 'object'\<close> (or a function) and not \<open>null\<close>.\<close>

fun isObject :: "jsval \<Rightarrow> bool" where
  "isObject (JArr _) = True"
| "isObject (JObj _) = True"
| "isObject _ = False"

fun isArray :: "jsval \<Rightarrow> bool" where
  "isArray (JArr _) = True"
| "isArray _ = False"

abbreviation nullish :: "jsval \<Rightarrow> bool" where
  "nullish v \<equiv> v = JUndef \<or> v = JNull"

text \<open>
  \<open>get_prop v k\<close> is the value of \<open>v.k\<close> on a receiver that is not \<open>null\<close> or
  \<open>undefined\<close>: an own property of an object, the \<open>length\<close> of an array or a
  string, \<open>undefined\<close> otherwise. \<open>js_get\<close> is the full property read, which throws
  on a nullish receiver; \<open>js_get_opt\<close> is the optional chain \<open>v?.k\<close>.
\<close>

fun get_prop :: "jsval \<Rightarrow> string \<Rightarrow> jsval" where
  "get_prop (JObj kvs) k = (case map_of kvs k of Some v \<Rightarrow> v | None \<Rightarrow> JUndef)"
| "get_prop (JArr xs) k = (if k = ''length'' then JNum (int (length xs)) else JUndef)"
| "get_prop (JStr s) k = (if k = ''length'' then JNum (int (length s)) else JUndef)"
| "get_prop _ k = JUndef"

definition js_get :: "jsval \<Rightarrow> string \<Rightarrow> 'm js_exc + jsval" where
  "js_get v k = (if nullish v then Inl TypeError else Inr (get_prop v k))"

definition js_get_opt :: "jsval \<Rightarrow> string \<Rightarrow> jsval" where
  "js_get_opt v k = (if nullish v then JUndef else get_prop v k)"

text \<open>\<open>a[i]\<close> on an array; every call site of the program guards it with
  \<open>Array.isArray(a)\<close>, so other receivers do not reach it.\<close>

fun js_index :: "jsval \<Rightarrow> nat \<Rightarrow> jsval" where
  "js_index (JArr xs) i = (if i < length xs then xs ! i else JUndef)"
| "js_index _ i = JUndef"

text \<open>The spread \<open>[...v]\<close> in an array literal: arrays and strings (one element per
  character) are iterable; anything else throws \<open>TypeError: v is not iterable\<close>.\<close>

fun js_spread :: "jsval \<Rightarrow> 'm js_exc + jsval list" where
  "js_spread (JArr xs) = Inr xs"
| "js_spread (JStr s) = Inr (map (\<lambda>c. JStr [c]) s)"
| "js_spread _ = Inl TypeError"

text \<open>The object spread \<open>{...v}\<close>: own enumerable properties of an object; the
  indices of an array or a string; nothing for a primitive or a nullish value.\<close>

fun obj_spread :: "jsval \<Rightarrow> (string \<times> jsval) list" where
  "obj_spread (JObj kvs) = kvs"
| "obj_spread (JArr xs) = map (\<lambda>(i, x). (string_of_nat i, x)) (zip [0..<length xs] xs)"
| "obj_spread (JStr s) = map (\<lambda>(i, c). (string_of_nat i, JStr [c])) (zip [0..<length s] s)"
| "obj_spread _ = []"

text \<open>The property write \<open>v.k = x\<close> in strict-mode code (the sources are ES
  modules): it throws on \<open>null\<close>, \<open>undefined\<close> and the other primitives. A named
  property of an array is not representable here; the write leaves the array as it
  is, and no modelled path writes one.\<close>

fun js_set :: "jsval \<Rightarrow> string \<Rightarrow> jsval \<Rightarrow> 'm js_exc + jsval" where
  "js_set (JObj kvs) k x = Inr (JObj (alist_set k x kvs))"
| "js_set (JArr xs) k x = Inr (JArr xs)"
| "js_set _ k x = Inl TypeError"

text \<open>ToString, as a template literal \<open>`${v}`\<close> and i18next's interpolation apply
  it: arrays are joined with commas, their \<open>null\<close> and \<open>undefined\<close> elements
  becoming empty strings.\<close>

definition string_of_int :: "int \<Rightarrow> string" where
  "string_of_int n = (if n < 0 then ''-'' @ string_of_nat (nat (- n)) else string_of_nat (nat n))"

fun js_to_string :: "jsval \<Rightarrow> string" where
  "js_to_string JUndef = ''undefined''"
| "js_to_string JNull = ''null''"
| "js_to_string (JBool b) = (if b then ''true'' else ''false'')"
| "js_to_string (JNum n) = string_of_int n"
| "js_to_string (JStr s) = s"
| "js_to_string (JArr xs) =
     join_with '','' (map (\<lambda>x. if nullish x then [] else js_to_string x) xs)"
| "js_to_string (JObj _) = ''[object Object]''"

end
