(* ===== verification/Layout.thy ===== *)
theory Layout
  imports JsValue
begin

text \<open>
  The typed data model of a chart layout, as the spec's data model describes it: an
  item has an id and a name, a dimension an id and an ordered list of items, a layout
  a visualization type, three axes of dimensions (columns, rows, filters) and an
  optional list of yearly-series period ids. The functions \<open>js_of_\<dots>\<close> give the
  JSON object the editor and the backend exchange for each typed value; they are the
  abstraction that relates the untyped code to the typed specification.
\<close>

record item =
  item_id :: string
  item_name :: string

record dimension =
  dim_id :: string
  dim_items :: "item list"

type_synonym axis = "dimension list"

record layout =
  ltype :: string
  lcolumns :: axis
  lrows :: axis
  lfilters :: axis
  lyearlySeries :: "string list option"

definition js_of_item :: "item \<Rightarrow> jsval" where
  "js_of_item i = JObj [(''id'', JStr (item_id i)), (''name'', JStr (item_name i))]"

definition js_of_dimension :: "dimension \<Rightarrow> jsval" where
  "js_of_dimension d =
     JObj [(''dimension'', JStr (dim_id d)), (''items'', JArr (map js_of_item (dim_items d)))]"

definition js_of_axis :: "axis \<Rightarrow> jsval" where
  "js_of_axis ds = JArr (map js_of_dimension ds)"

definition js_of_layout :: "layout \<Rightarrow> jsval" where
  "js_of_layout L =
     JObj ([(''type'', JStr (ltype L)), (''columns'', js_of_axis (lcolumns L)),
            (''rows'', js_of_axis (lrows L)), (''filters'', js_of_axis (lfilters L))] @
           (case lyearlySeries L of None \<Rightarrow> []
            | Some ys \<Rightarrow> [(''yearlySeries'', JArr (map JStr ys))]))"

lemma get_prop_js_of_layout [simp]:
  "get_prop (js_of_layout L) ''type'' = JStr (ltype L)"
  "get_prop (js_of_layout L) ''columns'' = js_of_axis (lcolumns L)"
  "get_prop (js_of_layout L) ''rows'' = js_of_axis (lrows L)"
  "get_prop (js_of_layout L) ''filters'' = js_of_axis (lfilters L)"
  "get_prop (js_of_layout L) ''yearlySeries'' =
     (case lyearlySeries L of None \<Rightarrow> JUndef | Some ys \<Rightarrow> JArr (map JStr ys))"
  by (simp_all add: js_of_layout_def split: option.split)

lemma js_get_js_of_layout [simp]:
  "js_get (js_of_layout L) k = Inr (get_prop (js_of_layout L) k)"
  by (simp add: js_get_def js_of_layout_def)

lemma get_prop_js_of_dimension [simp]:
  "get_prop (js_of_dimension d) ''dimension'' = JStr (dim_id d)"
  "get_prop (js_of_dimension d) ''items'' = JArr (map js_of_item (dim_items d))"
  by (simp_all add: js_of_dimension_def)

lemma js_get_js_of_dimension [simp]:
  "js_get (js_of_dimension d) k = Inr (get_prop (js_of_dimension d) k)"
  by (simp add: js_get_def js_of_dimension_def)

lemma isObject_js_of [simp]:
  "isObject (js_of_item i)" "isObject (js_of_dimension d)" "isObject (js_of_layout L)"
  by (simp_all add: js_of_item_def js_of_dimension_def js_of_layout_def)

end
