(* ===== verification/LayoutValidation.thy ===== *)
theory LayoutValidation
  imports Layout
begin

text \<open>
  The layout validator of \<^verbatim>\<open>packages/app/src/modules/layoutValidation.js\<close>.
  \<open>validateLayout\<close> takes the layout the editor is about to render or save and either
  returns (\<open>Inr ()\<close>) or throws: \<open>new Error(errorLabels.\<dots>)\<close> with one of the
  pre-selected messages (\<open>Inl (Error m)\<close>), or, on malformed input, the runtime's
  \<open>TypeError\<close> (\<open>Inl TypeError\<close>). The first group of definitions follows the
  source function by function over untyped JavaScript values; the second group is
  the typed layout of the spec (dimensions with an id and a list of items) with the
  abstract validity rules, and the refinement theorem links the two.
\<close>

subsection \<open>Constants the validator imports\<close>

text \<open>The messages of \<open>errorLabels\<close>, one constructor per entry.\<close>

datatype errorLabel =
    DefaultSeries | DefaultCategory | DefaultPeriod
  | PieData | PiePeriod | PieFilter
  | YoySeriesPeriod | YoyCategoryPeriod | YoyData

definition PIE :: string where "PIE = ''PIE''"
definition YEAR_OVER_YEAR_LINE :: string where "YEAR_OVER_YEAR_LINE = ''YEAR_OVER_YEAR_LINE''"
definition YEAR_OVER_YEAR_COLUMN :: string where "YEAR_OVER_YEAR_COLUMN = ''YEAR_OVER_YEAR_COLUMN''"
definition BASE_FIELD_YEARLY_SERIES :: string where "BASE_FIELD_YEARLY_SERIES = ''yearlySeries''"
definition DIMENSION_ID_PROP_NAME :: string where "DIMENSION_ID_PROP_NAME = ''dimension''"
definition DIMENSION_ITEMS_PROP_NAME :: string where "DIMENSION_ITEMS_PROP_NAME = ''items''"
definition peId :: string where "peId = ''pe''"

lemmas layout_consts [js_simps] = PIE_def YEAR_OVER_YEAR_LINE_def YEAR_OVER_YEAR_COLUMN_def
  BASE_FIELD_YEARLY_SERIES_def DIMENSION_ID_PROP_NAME_def DIMENSION_ITEMS_PROP_NAME_def peId_def

type_synonym vresult = "errorLabel js_exc + unit"

subsection \<open>The validator over JavaScript values\<close>

definition isItemValid :: "jsval \<Rightarrow> bool" where
  "isItemValid item \<longleftrightarrow> isObject item \<and> js_typeof (get_prop item ''id'') = ''string''"

definition isDimensionValid :: "jsval \<Rightarrow> bool" where
  "isDimensionValid dim \<longleftrightarrow>
     isObject dim \<and>
     js_typeof (get_prop dim DIMENSION_ID_PROP_NAME) = ''string'' \<and>
     isArray (get_prop dim DIMENSION_ITEMS_PROP_NAME) \<and>
     isItemValid (js_index (get_prop dim DIMENSION_ITEMS_PROP_NAME) 0)"

definition isAxisValid :: "jsval \<Rightarrow> bool" where
  "isAxisValid axis \<longleftrightarrow> isArray axis \<and> isDimensionValid (js_index axis 0)"

definition validateDimension :: "jsval \<Rightarrow> errorLabel \<Rightarrow> vresult" where
  "validateDimension dimension message =
     (if \<not> (js_truthy dimension \<and> isDimensionValid dimension)
      then Inl (Error message) else Inr ())"

definition validateAxis :: "jsval \<Rightarrow> errorLabel \<Rightarrow> vresult" where
  "validateAxis axis message =
     (if \<not> isAxisValid axis then Inl (Error message) else Inr ())"

text \<open>\<open>Array.prototype.find\<close> with the callback \<open>dim => dim.dimension === dimensionId\<close>:
  the first element whose \<open>dimension\<close> is the id, \<open>undefined\<close> if there is none; the
  callback's read throws on a \<open>null\<close> or \<open>undefined\<close> element that is reached.\<close>

fun find_dimension_in :: "string \<Rightarrow> jsval list \<Rightarrow> errorLabel js_exc + jsval" where
  "find_dimension_in dimensionId [] = Inr JUndef"
| "find_dimension_in dimensionId (dim # dims) =
     ebind (js_get dim ''dimension'')
       (\<lambda>v. if v = JStr dimensionId then Inr dim else find_dimension_in dimensionId dims)"

text \<open>\<open>[...layout.columns, ...layout.rows, ...layout.filters].find(\<dots>)\<close>: the three
  spreads run left to right and each throws on a value that is not iterable.\<close>

definition findDimension :: "jsval \<Rightarrow> string \<Rightarrow> errorLabel js_exc + jsval" where
  "findDimension layout dimensionId =
     ebind (js_spread (get_prop layout ''columns'')) (\<lambda>cs.
     ebind (js_spread (get_prop layout ''rows'')) (\<lambda>rs.
     ebind (js_spread (get_prop layout ''filters'')) (\<lambda>fs.
       find_dimension_in dimensionId (cs @ rs @ fs))))"

definition validateDefaultLayout :: "jsval \<Rightarrow> vresult" where
  "validateDefaultLayout layout =
     ethen (validateAxis (get_prop layout ''columns'') DefaultSeries)
    (ethen (validateAxis (get_prop layout ''rows'') DefaultCategory)
     (ebind (findDimension layout peId) (\<lambda>d. validateDimension d DefaultPeriod)))"

definition validateYearOverYearLayout :: "jsval \<Rightarrow> vresult" where
  "validateYearOverYearLayout layout =
     (let ys = get_prop layout BASE_FIELD_YEARLY_SERIES in
      if \<not> (isArray ys \<and> js_typeof (js_index ys 0) = ''string'')
      then Inl (Error YoySeriesPeriod)
      else ethen (validateAxis (get_prop layout ''rows'') YoyCategoryPeriod)
                 (validateAxis (get_prop layout ''columns'') YoyData))"

definition validatePieLayout :: "jsval \<Rightarrow> vresult" where
  "validatePieLayout layout =
     ethen (validateAxis (get_prop layout ''rows'') DefaultCategory)
    (ethen (validateAxis (get_prop layout ''filters'') PieFilter)
     (ebind (findDimension layout peId) (\<lambda>d. validateDimension d PiePeriod)))"

text \<open>The \<open>switch (layout.type)\<close> compares with \<open>===\<close>; reading \<open>layout.type\<close>
  throws when the layout itself is \<open>null\<close> or \<open>undefined\<close>.\<close>

definition validateLayout :: "jsval \<Rightarrow> vresult" where
  "validateLayout layout =
     ebind (js_get layout ''type'') (\<lambda>t.
       if t = JStr PIE then validatePieLayout layout
       else if t = JStr YEAR_OVER_YEAR_COLUMN \<or> t = JStr YEAR_OVER_YEAR_LINE
       then validateYearOverYearLayout layout
       else validateDefaultLayout layout)"

subsection \<open>The abstract validity rules\<close>

text \<open>
  The spec's rules over the typed layout: an axis is valid when it is non-empty and
  its first dimension has at least one item; the period condition holds when the
  first dimension with id \<open>pe\<close> across columns, rows and filters has at least one
  item. \<open>validate_spec\<close> returns the message the layout is rejected with, or
  \<open>None\<close>.
\<close>

definition axis_ok :: "axis \<Rightarrow> bool" where
  "axis_ok ds \<longleftrightarrow> ds \<noteq> [] \<and> dim_items (hd ds) \<noteq> []"

definition period_ok :: "layout \<Rightarrow> bool" where
  "period_ok L \<longleftrightarrow>
     (case find (\<lambda>d. dim_id d = ''pe'') (lcolumns L @ lrows L @ lfilters L) of
        None \<Rightarrow> False | Some d \<Rightarrow> dim_items d \<noteq> [])"

definition validate_spec :: "layout \<Rightarrow> errorLabel option" where
  "validate_spec L =
     (if ltype L = ''PIE'' then
        (if \<not> axis_ok (lrows L) then Some DefaultCategory
         else if \<not> axis_ok (lfilters L) then Some PieFilter
         else if \<not> period_ok L then Some PiePeriod else None)
      else if ltype L \<in> {''YEAR_OVER_YEAR_COLUMN'', ''YEAR_OVER_YEAR_LINE''} then
        (if lyearlySeries L = None \<or> lyearlySeries L = Some [] then Some YoySeriesPeriod
         else if \<not> axis_ok (lrows L) then Some YoyCategoryPeriod
         else if \<not> axis_ok (lcolumns L) then Some YoyData else None)
      else
        (if \<not> axis_ok (lcolumns L) then Some DefaultSeries
         else if \<not> axis_ok (lrows L) then Some DefaultCategory
         else if \<not> period_ok L then Some DefaultPeriod else None))"

subsection \<open>Sample layouts\<close>

text \<open>The layout of the spec's end-to-end scenario: a data item on columns and the
  relative period \<open>LAST_12_MONTHS\<close> on rows; and the same as the editor would send it
  with its filters axis missing.\<close>

definition dim_dx :: dimension where
  "dim_dx = \<lparr>dim_id = ''dx'', dim_items = [\<lparr>item_id = ''d1'', item_name = ''ANC 1st visit''\<rparr>]\<rparr>"

definition dim_pe :: dimension where
  "dim_pe = \<lparr>dim_id = ''pe'', dim_items = [\<lparr>item_id = ''LAST_12_MONTHS'', item_name = ''Last 12 months''\<rparr>]\<rparr>"

definition sample_layout :: layout where
  "sample_layout = \<lparr>ltype = ''COLUMN'', lcolumns = [dim_dx], lrows = [dim_pe], lfilters = [],
     lyearlySeries = None\<rparr>"

definition layout_without_filters :: jsval where
  "layout_without_filters = JObj [(''type'', JStr ''COLUMN''),
     (''columns'', JArr [JObj [(''dimension'', JStr ''dx''),
                               (''items'', JArr [JObj [(''id'', JStr ''d1'')]])]]),
     (''rows'', JArr [JObj [(''dimension'', JStr ''pe''),
                            (''items'', JArr [JObj [(''id'', JStr ''LAST_12_MONTHS'')]])]])]"

subsection \<open>The validator on typed layouts\<close>

lemma isDimensionValid_JUndef [simp]: "\<not> isDimensionValid JUndef"
  by (simp add: isDimensionValid_def)

lemma isDimensionValid_js_of_dimension [simp]:
  "isDimensionValid (js_of_dimension d) \<longleftrightarrow> dim_items d \<noteq> []"
  by (cases "dim_items d")
     (simp_all add: isDimensionValid_def isItemValid_def js_of_item_def layout_consts)

lemma isAxisValid_js_of_axis [simp]:
  "isAxisValid (js_of_axis ds) \<longleftrightarrow> axis_ok ds"
  by (cases ds) (simp_all add: isAxisValid_def axis_ok_def js_of_axis_def)

lemma find_dimension_in_js_of:
  "find_dimension_in i (map js_of_dimension ds) =
     Inr (case find (\<lambda>d. dim_id d = i) ds of None \<Rightarrow> JUndef | Some d \<Rightarrow> js_of_dimension d)"
  by (induction ds) simp_all

lemma findDimension_js_of_layout:
  "findDimension (js_of_layout L) i =
     Inr (case find (\<lambda>d. dim_id d = i) (lcolumns L @ lrows L @ lfilters L) of
            None \<Rightarrow> JUndef | Some d \<Rightarrow> js_of_dimension d)"
  by (simp add: findDimension_def js_of_axis_def find_dimension_in_js_of flip: map_append)

lemma validate_period_js_of:
  "ebind (findDimension (js_of_layout L) peId) (\<lambda>d. validateDimension d m) =
     (if period_ok L then Inr () else Inl (Error m))"
  by (simp add: findDimension_js_of_layout period_ok_def validateDimension_def peId_def
           split: option.split) (simp add: js_of_dimension_def)

lemma yearly_series_check_js_of:
  "(isArray (get_prop (js_of_layout L) BASE_FIELD_YEARLY_SERIES) \<and>
    js_typeof (js_index (get_prop (js_of_layout L) BASE_FIELD_YEARLY_SERIES) 0) = ''string'')
   \<longleftrightarrow> \<not> (lyearlySeries L = None \<or> lyearlySeries L = Some [])"
  by (cases "lyearlySeries L" rule: option.exhaust; cases "the (lyearlySeries L)")
     (simp_all add: BASE_FIELD_YEARLY_SERIES_def)

lemma validateYearOverYearLayout_js_of:
  "validateYearOverYearLayout (js_of_layout L) =
    (if lyearlySeries L = None \<or> lyearlySeries L = Some [] then Inl (Error YoySeriesPeriod)
     else if \<not> axis_ok (lrows L) then Inl (Error YoyCategoryPeriod)
     else if \<not> axis_ok (lcolumns L) then Inl (Error YoyData) else Inr ())"
  unfolding validateYearOverYearLayout_def Let_def yearly_series_check_js_of
  by (simp add: validateAxis_def)

lemma validateLayout_js_of_layout:
  "validateLayout (js_of_layout L) =
     (case validate_spec L of None \<Rightarrow> Inr () | Some m \<Rightarrow> Inl (Error m))"
  unfolding validateLayout_def js_get_js_of_layout
  by (simp add: validatePieLayout_def validateDefaultLayout_def validateYearOverYearLayout_js_of
       validateAxis_def validate_period_js_of validate_spec_def
       PIE_def YEAR_OVER_YEAR_LINE_def YEAR_OVER_YEAR_COLUMN_def)

lemma axis_ok_Nil [simp]: "\<not> axis_ok []"
  by (simp add: axis_ok_def)

subsection \<open>Where the validator throws a TypeError\<close>

lemma find_dimension_in_no_throw:
  "\<forall>x\<in>set xs. \<not> nullish x \<Longrightarrow> find_dimension_in i xs \<noteq> Inl TypeError"
  by (induction xs) (auto simp: js_get_def)

lemma findDimension_arrays_no_throw:
  assumes "get_prop L ''columns'' = JArr cs" "get_prop L ''rows'' = JArr rs"
    "get_prop L ''filters'' = JArr fs"
    and "\<forall>x\<in>set (cs @ rs @ fs). \<not> nullish x"
  shows "findDimension L i \<noteq> Inl TypeError"
  using assms find_dimension_in_no_throw [of "cs @ rs @ fs" i]
  by (simp add: findDimension_def)

lemma validate_checks_no_throw [simp]:
  "validateDimension d m \<noteq> Inl TypeError" "validateAxis a m \<noteq> Inl TypeError"
  by (simp_all add: validateDimension_def validateAxis_def)

lemma ethen_no_throw:
  "m \<noteq> Inl TypeError \<Longrightarrow> n \<noteq> Inl TypeError \<Longrightarrow> ethen m n \<noteq> Inl TypeError"
  by (cases m) auto

lemma ebind_no_throw:
  "m \<noteq> Inl TypeError \<Longrightarrow> (\<And>x. f x \<noteq> Inl TypeError) \<Longrightarrow> ebind m f \<noteq> Inl TypeError"
  by (cases m) auto

lemma validateYearOverYearLayout_no_throw: "validateYearOverYearLayout L \<noteq> Inl TypeError"
  by (simp add: validateYearOverYearLayout_def Let_def ethen_no_throw)

subsection \<open>Properties of the validator\<close>

text \<open>C1. Refinement: on every well-typed layout (the JSON image of a typed layout)
  the validator computes exactly the spec's rules: it returns when they accept the
  layout and throws the message they select otherwise; it never throws a TypeError.\<close>

theorem validateLayout_refines_spec:
  "validateLayout (js_of_layout L) =
     (case validate_spec L of None \<Rightarrow> Inr () | Some m \<Rightarrow> Inl (Error m))"
  by (rule validateLayout_js_of_layout)

theorem validateLayout_refines_spec_witness:
  "validateLayout (js_of_layout (sample_layout\<lparr>lfilters := [dim_pe], lrows := [dim_dx]\<rparr>)) = Inr ()"
  using validateLayout_refines_spec [of "sample_layout\<lparr>lfilters := [dim_pe], lrows := [dim_dx]\<rparr>"]
  by (simp add: validate_spec_def sample_layout_def dim_dx_def dim_pe_def axis_ok_def period_ok_def)

text \<open>C2. For a layout of a type other than pie and year-over-year: empty columns
  give the series error; valid columns and empty rows the category error; valid
  columns and rows and no period dimension on any axis the period error; valid
  columns and rows with a valid period dimension pass.\<close>

theorem validate_default_layout_order:
  assumes "ltype L \<notin> {''PIE'', ''YEAR_OVER_YEAR_COLUMN'', ''YEAR_OVER_YEAR_LINE''}"
  shows "(lcolumns L = [] \<longrightarrow> validateLayout (js_of_layout L) = Inl (Error DefaultSeries)) \<and>
         (axis_ok (lcolumns L) \<and> lrows L = [] \<longrightarrow>
            validateLayout (js_of_layout L) = Inl (Error DefaultCategory)) \<and>
         (axis_ok (lcolumns L) \<and> axis_ok (lrows L) \<and>
          (\<forall>d\<in>set (lcolumns L @ lrows L @ lfilters L). dim_id d \<noteq> ''pe'') \<longrightarrow>
            validateLayout (js_of_layout L) = Inl (Error DefaultPeriod)) \<and>
         (axis_ok (lcolumns L) \<and> axis_ok (lrows L) \<and> period_ok L \<longrightarrow>
            validateLayout (js_of_layout L) = Inr ())"
  using assms
  by (auto simp: validateLayout_js_of_layout validate_spec_def period_ok_def find_None_iff
      split: option.splits dest!: find_Some_first)

theorem validate_default_layout_order_witness:
  "validateLayout (js_of_layout sample_layout) = Inr () \<and>
   validateLayout (js_of_layout (sample_layout\<lparr>lcolumns := []\<rparr>)) = Inl (Error DefaultSeries) \<and>
   validateLayout (js_of_layout (sample_layout\<lparr>lrows := []\<rparr>)) = Inl (Error DefaultCategory) \<and>
   validateLayout (js_of_layout (sample_layout\<lparr>lrows := [dim_dx]\<rparr>)) = Inl (Error DefaultPeriod)"
proof -
  note t = validate_default_layout_order [of sample_layout]
    validate_default_layout_order [of "sample_layout\<lparr>lcolumns := []\<rparr>"]
    validate_default_layout_order [of "sample_layout\<lparr>lrows := []\<rparr>"]
    validate_default_layout_order [of "sample_layout\<lparr>lrows := [dim_dx]\<rparr>"]
  show ?thesis
    using t by (simp add: sample_layout_def dim_dx_def dim_pe_def axis_ok_def period_ok_def)
qed

text \<open>C3. An axis is valid exactly when it is a non-empty array whose first element
  is a valid dimension, whatever the elements after the first.\<close>

theorem isAxisValid_first_dimension_only:
  "isAxisValid axis \<longleftrightarrow> (\<exists>d ds. axis = JArr (d # ds) \<and> isDimensionValid d)"
proof (cases axis)
  case (JArr xs)
  then show ?thesis by (cases xs) (simp_all add: isAxisValid_def)
qed (simp_all add: isAxisValid_def)

theorem isAxisValid_first_dimension_only_witness:
  "isAxisValid (JArr [js_of_dimension dim_dx, JNull])"
  using isAxisValid_first_dimension_only [of "JArr [js_of_dimension dim_dx, JNull]"]
  by (simp add: dim_dx_def)

text \<open>C4. On a layout whose three axes are arrays without \<open>null\<close> or \<open>undefined\<close>
  elements the validator never throws a TypeError: its only failures are the
  messages.\<close>

theorem validateLayout_no_TypeError:
  assumes "\<not> nullish L"
    and "get_prop L ''columns'' = JArr cs" "get_prop L ''rows'' = JArr rs"
    "get_prop L ''filters'' = JArr fs"
    and "\<forall>x\<in>set (cs @ rs @ fs). \<not> nullish x"
  shows "validateLayout L \<noteq> Inl TypeError"
proof -
  have "findDimension L peId \<noteq> Inl TypeError"
    using assms(2-5) by (rule findDimension_arrays_no_throw)
  then have "validatePieLayout L \<noteq> Inl TypeError" "validateDefaultLayout L \<noteq> Inl TypeError"
    by (simp_all add: validatePieLayout_def validateDefaultLayout_def ethen_no_throw ebind_no_throw)
  with assms(1) show ?thesis
    by (simp add: validateLayout_def js_get_def validateYearOverYearLayout_no_throw)
qed

theorem validateLayout_no_TypeError_witness:
  "validateLayout (js_of_layout sample_layout) \<noteq> Inl TypeError"
  using validateLayout_no_TypeError [of "js_of_layout sample_layout"
      "map js_of_dimension [dim_dx]" "map js_of_dimension [dim_pe]" "[]"]
  by (simp add: sample_layout_def js_of_layout_def js_of_axis_def js_of_dimension_def)

text \<open>C5. A layout of the default type whose columns and rows are valid but whose
  filters are missing (or any value that is neither an array nor a string) makes the
  validator throw a TypeError from the spread in \<open>findDimension\<close>, not one of its
  messages, even when the period dimension is present.\<close>

theorem validateLayout_filters_not_iterable:
  assumes "\<not> nullish L"
    and "get_prop L ''type'' \<notin> {JStr PIE, JStr YEAR_OVER_YEAR_COLUMN, JStr YEAR_OVER_YEAR_LINE}"
    and "isAxisValid (get_prop L ''columns'')" "isAxisValid (get_prop L ''rows'')"
    and "\<not> isArray (get_prop L ''filters'')" "js_typeof (get_prop L ''filters'') \<noteq> ''string''"
  shows "validateLayout L = Inl TypeError"
proof -
  obtain cs where "get_prop L ''columns'' = JArr cs"
    using assms(3) by (cases "get_prop L ''columns''") (simp_all add: isAxisValid_def)
  moreover obtain rs where "get_prop L ''rows'' = JArr rs"
    using assms(4) by (cases "get_prop L ''rows''") (simp_all add: isAxisValid_def)
  moreover have "js_spread (get_prop L ''filters'') = (Inl TypeError :: errorLabel js_exc + jsval list)"
    using assms(5,6) by (cases "get_prop L ''filters''") simp_all
  ultimately have "findDimension L peId = Inl TypeError"
    by (simp add: findDimension_def)
  with assms show ?thesis
    by (auto simp: validateLayout_def js_get_def validateDefaultLayout_def validateAxis_def)
qed

theorem validateLayout_filters_not_iterable_witness:
  "\<not> nullish layout_without_filters \<and> validateLayout layout_without_filters = Inl TypeError"
  using validateLayout_filters_not_iterable [of layout_without_filters]
  by (simp add: layout_without_filters_def isAxisValid_def isDimensionValid_def isItemValid_def
      layout_consts)

text \<open>C6. For a year-over-year chart with a yearly series and valid rows, empty
  columns are rejected with the \<open>yearOverYear.data\<close> message, even when the data
  dimension sits on the filters axis that this message asks for.\<close>

theorem validate_yoy_data_on_columns:
  assumes "ltype L \<in> {''YEAR_OVER_YEAR_COLUMN'', ''YEAR_OVER_YEAR_LINE''}"
    and "lyearlySeries L = Some (y # ys)" and "axis_ok (lrows L)" and "lcolumns L = []"
  shows "validateLayout (js_of_layout L) = Inl (Error YoyData)"
  using assms by (auto simp: validateLayout_js_of_layout validate_spec_def)

theorem validate_yoy_data_on_columns_witness:
  "validateLayout (js_of_layout \<lparr>ltype = ''YEAR_OVER_YEAR_LINE'', lcolumns = [], lrows = [dim_pe],
       lfilters = [dim_dx], lyearlySeries = Some [''2023'']\<rparr>) = Inl (Error YoyData)"
  using validate_yoy_data_on_columns [of "\<lparr>ltype = ''YEAR_OVER_YEAR_LINE'', lcolumns = [],
      lrows = [dim_pe], lfilters = [dim_dx], lyearlySeries = Some [''2023'']\<rparr>" "''2023''" "[]"]
  by (simp add: dim_pe_def axis_ok_def)

end
