(* ===== verification/AxisAdapter.thy ===== *)
theory AxisAdapter
  imports Layout
begin

text \<open>
  The axis item adapter \<open>adaptAxisItems\<close> of \<^verbatim>\<open>src/actions/index.js\<close>, which
  \<open>tDoLoadVisualization\<close> applies to the columns, rows and filters of a visualization
  fetched from the backend. Each dimension of the axis is copied with its \<open>items\<close>
  replaced: non-empty items are kept; a dimension without items gets the
  placeholder item ``All items'' unless its id is one of the four fixed dimensions
  (data, period, organisation unit, assigned categories), which get \<open>null\<close>.
\<close>

definition DIMENSION_ID_DATA :: string where "DIMENSION_ID_DATA = ''dx''"
definition DIMENSION_ID_PERIOD :: string where "DIMENSION_ID_PERIOD = ''pe''"
definition DIMENSION_ID_ORGUNIT :: string where "DIMENSION_ID_ORGUNIT = ''ou''"
definition DIMENSION_ID_ASSIGNED_CATEGORIES :: string where
  "DIMENSION_ID_ASSIGNED_CATEGORIES = ''co''"
definition ALL_DYNAMIC_DIMENSION_ITEMS :: string where
  "ALL_DYNAMIC_DIMENSION_ITEMS = ''ALL_ITEMS''"

text \<open>The array literal whose \<open>includes\<close> the adapter tests, and the placeholder
  item \<open>{id: ALL_DYNAMIC_DIMENSION_ITEMS, name: i18n.t('All items')}\<close>.\<close>

definition fixed_dimension_ids :: "jsval list" where
  "fixed_dimension_ids = [JStr DIMENSION_ID_DATA, JStr DIMENSION_ID_PERIOD,
     JStr DIMENSION_ID_ORGUNIT, JStr DIMENSION_ID_ASSIGNED_CATEGORIES]"

definition all_items_placeholder :: jsval where
  "all_items_placeholder = JObj [(''id'', JStr ALL_DYNAMIC_DIMENSION_ITEMS), (''name'', JStr ''All items'')]"

text \<open>The callback \<open>(ai) => ({...ai, items: ai?.items?.length ? ai.items : \<dots>})\<close>.
  The optional chains make \<open>ai?.items?.length\<close> safe on a \<open>null\<close> element, but
  the fallback then reads \<open>ai.dimension\<close> without one.\<close>

definition adaptAxisItem :: "jsval \<Rightarrow> 'm js_exc + jsval" where
  "adaptAxisItem ai =
     (if js_truthy (js_get_opt (js_get_opt ai ''items'') ''length'')
      then Inr (JObj (alist_set ''items'' (get_prop ai ''items'') (obj_spread ai)))
      else ebind (js_get ai ''dimension'') (\<lambda>d.
             Inr (JObj (alist_set ''items''
               (if d \<notin> set fixed_dimension_ids then JArr [all_items_placeholder] else JNull)
               (obj_spread ai)))))"

text \<open>\<open>(axis || []).map(\<dots>)\<close>: a falsy axis is read as the empty array; a truthy
  value that is not an array has no \<open>map\<close> method, and calling it throws.\<close>

definition adaptAxisItems :: "jsval \<Rightarrow> 'm js_exc + jsval" where
  "adaptAxisItems axis =
     (case (if js_truthy axis then axis else JArr []) of
        JArr ais \<Rightarrow> ebind (emap adaptAxisItem ais) (\<lambda>rs. Inr (JArr rs))
      | _ \<Rightarrow> Inl TypeError)"

text \<open>An axis as the backend sends it: an organisation-unit dimension with an empty
  item list, a dynamic dimension without items, and a data dimension with one item.\<close>

definition sample_dims :: "jsval list" where
  "sample_dims = [JObj [(''dimension'', JStr ''ou''), (''items'', JArr [])],
     JObj [(''dimension'', JStr ''J5jldMd8OHv'')],
     JObj [(''dimension'', JStr ''dx''), (''items'', JArr [JObj [(''id'', JStr ''d1'')]])]]"

definition sample_dims_adapted :: "jsval list" where
  "sample_dims_adapted = [JObj [(''dimension'', JStr ''ou''), (''items'', JNull)],
     JObj [(''dimension'', JStr ''J5jldMd8OHv''), (''items'', JArr [all_items_placeholder])],
     JObj [(''dimension'', JStr ''dx''), (''items'', JArr [JObj [(''id'', JStr ''d1'')]])]]"

lemmas adapter_consts = DIMENSION_ID_DATA_def DIMENSION_ID_PERIOD_def DIMENSION_ID_ORGUNIT_def
  DIMENSION_ID_ASSIGNED_CATEGORIES_def ALL_DYNAMIC_DIMENSION_ITEMS_def

lemma get_prop_obj_alist_set [simp]:
  "get_prop (JObj (alist_set k v kvs)) k' = (if k' = k then v else get_prop (JObj kvs) k')"
  by simp

lemma js_get_opt_JObj [simp]: "js_get_opt (JObj kvs) k = get_prop (JObj kvs) k"
  by (simp add: js_get_opt_def)

lemma js_get_JObj [simp]: "js_get (JObj kvs) k = Inr (get_prop (JObj kvs) k)"
  by (simp add: js_get_def)

lemma fixed_dimension_is_string:
  "d \<in> set fixed_dimension_ids \<Longrightarrow> \<exists>s. d = JStr s"
  by (auto simp: fixed_dimension_ids_def)

lemma get_prop_dimension_not_object:
  "(\<forall>kvs. ai \<noteq> JObj kvs) \<Longrightarrow> get_prop ai ''dimension'' = JUndef"
  by (cases ai) auto

lemma placeholder_truthy [simp]:
  "js_truthy (js_get_opt (JArr [all_items_placeholder]) ''length'')"
  by (simp add: js_get_opt_def)

lemma adaptAxisItem_fixpoint:
  assumes "adaptAxisItem ai = Inr r"
  shows "adaptAxisItem r = Inr r"
proof (cases "js_truthy (js_get_opt (js_get_opt ai ''items'') ''length'')")
  case True
  then have r: "r = JObj (alist_set ''items'' (get_prop ai ''items'') (obj_spread ai))"
    using assms by (simp add: adaptAxisItem_def)
  have "js_get_opt ai ''items'' = get_prop ai ''items''"
    using True by (auto simp: js_get_opt_def)
  with True r show ?thesis by (simp add: adaptAxisItem_def)
next
  case False
  then obtain d where d: "js_get ai ''dimension'' = (Inr d :: 'a js_exc + jsval)"
    and r: "r = JObj (alist_set ''items''
               (if d \<notin> set fixed_dimension_ids then JArr [all_items_placeholder] else JNull)
               (obj_spread ai))"
    using assms by (auto simp: adaptAxisItem_def ebind_Inr_iff)
  show ?thesis
  proof (cases "d \<in> set fixed_dimension_ids")
    case False
    with r show ?thesis by (simp add: adaptAxisItem_def)
  next
    case True
    have "d = get_prop ai ''dimension''"
      using d by (auto simp: js_get_def split: if_splits)
    with True obtain kvs where ai: "ai = JObj kvs"
      using get_prop_dimension_not_object fixed_dimension_is_string by fastforce
    have "get_prop (JObj kvs) ''dimension'' = d"
      using \<open>d = get_prop ai ''dimension''\<close> ai by simp
    with True r ai show ?thesis by (simp add: adaptAxisItem_def js_get_opt_def)
  qed
qed

lemma adaptAxisItems_sample_dims:
  "adaptAxisItems (JArr sample_dims) = Inr (JArr sample_dims_adapted)"
  by (simp add: adaptAxisItems_def adaptAxisItem_def sample_dims_def sample_dims_adapted_def
      fixed_dimension_ids_def adapter_consts js_get_opt_def)

text \<open>C7. The adapter is idempotent: applying it to its own result changes nothing.\<close>

theorem adaptAxisItems_idempotent:
  assumes "(adaptAxisItems axis :: 'm js_exc + jsval) = Inr r"
  shows "(adaptAxisItems r :: 'm js_exc + jsval) = Inr r"
proof -
  obtain ais where ais: "(if js_truthy axis then axis else JArr []) = JArr ais"
    using assms by (auto simp: adaptAxisItems_def split: jsval.splits)
  with assms obtain rs where "(emap adaptAxisItem ais :: 'm js_exc + jsval list) = Inr rs"
    and "r = JArr rs"
    by (auto simp: adaptAxisItems_def ebind_Inr_iff)
  then have "list_all2 (\<lambda>x y. (adaptAxisItem x :: 'm js_exc + jsval) = Inr y) ais rs"
    by (simp add: emap_Inr_iff)
  then have "list_all2 (\<lambda>x y. (adaptAxisItem x :: 'm js_exc + jsval) = Inr y) rs rs"
    by (auto simp: list_all2_conv_all_nth intro: adaptAxisItem_fixpoint)
  then have "(emap adaptAxisItem rs :: 'm js_exc + jsval list) = Inr rs"
    by (simp add: emap_Inr_iff)
  with \<open>r = JArr rs\<close> show ?thesis
    by (simp add: adaptAxisItems_def)
qed

theorem adaptAxisItems_idempotent_witness:
  "adaptAxisItems (JArr sample_dims_adapted) = Inr (JArr sample_dims_adapted)"
  using adaptAxisItems_idempotent [OF adaptAxisItems_sample_dims] .

lemma adaptAxisItems_JArr_Inr:
  assumes "(adaptAxisItems (JArr ais) :: 'm js_exc + jsval) = Inr (JArr rs)"
  shows "list_all2 (\<lambda>x y. (adaptAxisItem x :: 'm js_exc + jsval) = Inr y) ais rs"
proof -
  from assms obtain rs' where "(emap adaptAxisItem ais :: 'm js_exc + jsval list) = Inr rs'"
    and "JArr rs = JArr rs'"
    by (auto simp: adaptAxisItems_def ebind_Inr_iff)
  then show ?thesis by (simp add: emap_Inr_iff)
qed

lemma adaptAxisItem_Inl: "adaptAxisItem ai = Inl e \<Longrightarrow> e = TypeError"
  by (auto simp: adaptAxisItem_def js_get_def split: if_splits)

lemma adaptAxisItem_nullish: "nullish ai \<Longrightarrow> adaptAxisItem ai = Inl TypeError"
  by (auto simp: adaptAxisItem_def js_get_def js_get_opt_def)

text \<open>C8. A dimension whose id is one of the four fixed ids (data, period,
  organisation unit, assigned categories) and whose items are missing or empty gets
  \<open>null\<close> items, never the ``All items'' placeholder.\<close>

theorem adaptAxisItems_fixed_dimensions_null:
  assumes "(adaptAxisItems (JArr ais) :: 'm js_exc + jsval) = Inr (JArr rs)"
    and "i < length ais"
    and "get_prop (ais ! i) ''dimension'' \<in> set fixed_dimension_ids"
    and "\<not> js_truthy (js_get_opt (js_get_opt (ais ! i) ''items'') ''length'')"
  shows "get_prop (rs ! i) ''items'' = JNull"
proof -
  have "(adaptAxisItem (ais ! i) :: 'm js_exc + jsval) = Inr (rs ! i)"
    using list_all2_nthD [OF adaptAxisItems_JArr_Inr [OF assms(1)] assms(2)] by simp
  moreover have "\<not> nullish (ais ! i)"
    using assms(3) by (auto simp: fixed_dimension_ids_def)
  ultimately have "rs ! i = JObj (alist_set ''items'' JNull (obj_spread (ais ! i)))"
    using assms(3,4) by (auto simp: adaptAxisItem_def js_get_def)
  then show ?thesis by simp
qed

theorem adaptAxisItems_fixed_dimensions_null_witness:
  "get_prop (sample_dims ! 0) ''dimension'' \<in> set fixed_dimension_ids \<and>
   get_prop (sample_dims_adapted ! 0) ''items'' = JNull"
  using adaptAxisItems_fixed_dimensions_null [OF adaptAxisItems_sample_dims, of 0]
  by (simp add: sample_dims_def sample_dims_adapted_def fixed_dimension_ids_def adapter_consts
      js_get_opt_def)

lemma adaptAxisItem_JObj_keeps:
  "adaptAxisItem (JObj kvs) = Inr r \<Longrightarrow> k \<noteq> ''items'' \<Longrightarrow> get_prop r k = get_prop (JObj kvs) k"
  by (auto simp: adaptAxisItem_def split: if_splits)

lemma emap_adaptAxisItem_Inl: "emap adaptAxisItem xs = Inl e \<Longrightarrow> e = TypeError"
  by (induction xs) (auto simp: ebind_Inl_iff dest: adaptAxisItem_Inl)

text \<open>C9. The adapter changes only the \<open>items\<close> property of an object
  dimension: every other property reads the same before and after.\<close>

theorem adaptAxisItems_keeps_other_properties:
  assumes "(adaptAxisItems (JArr ais) :: 'm js_exc + jsval) = Inr (JArr rs)"
    and "i < length ais" and "ais ! i = JObj kvs" and "k \<noteq> ''items''"
  shows "get_prop (rs ! i) k = get_prop (ais ! i) k"
proof -
  have "(adaptAxisItem (JObj kvs) :: 'm js_exc + jsval) = Inr (rs ! i)"
    using list_all2_nthD [OF adaptAxisItems_JArr_Inr [OF assms(1)] assms(2)] assms(3) by simp
  then show ?thesis
    using assms(3,4) by (simp add: adaptAxisItem_JObj_keeps)
qed

theorem adaptAxisItems_keeps_other_properties_witness:
  "get_prop (sample_dims_adapted ! 1) ''dimension'' = get_prop (sample_dims ! 1) ''dimension''"
  by (rule adaptAxisItems_keeps_other_properties [OF adaptAxisItems_sample_dims, of 1])
     (simp_all add: sample_dims_def)

text \<open>C10. An axis with a \<open>null\<close> or \<open>undefined\<close> entry makes the adapter throw a
  TypeError: the optional chain \<open>ai?.items?.length\<close> tolerates the entry, but the
  fallback branch reads \<open>ai.dimension\<close>.\<close>

theorem adaptAxisItems_nullish_element_throws:
  assumes "x \<in> set ais" and "nullish x"
  shows "(adaptAxisItems (JArr ais) :: 'm js_exc + jsval) = Inl TypeError"
proof -
  have "\<exists>e. (emap adaptAxisItem ais :: 'm js_exc + jsval list) = Inl e"
    using assms emap_Inl_iff [of adaptAxisItem ais] adaptAxisItem_nullish by blast
  then have "(emap adaptAxisItem ais :: 'm js_exc + jsval list) = Inl TypeError"
    using emap_adaptAxisItem_Inl by blast
  then show ?thesis by (simp add: adaptAxisItems_def)
qed

theorem adaptAxisItems_nullish_element_throws_witness:
  "(adaptAxisItems (JArr [js_of_dimension \<lparr>dim_id = ''dx'', dim_items = []\<rparr>, JNull])
     :: unit js_exc + jsval) = Inl TypeError"
  by (rule adaptAxisItems_nullish_element_throws [of JNull]) simp_all

end
