(* ===== verification/Store.thy ===== *)
theory Store
  imports JsValue
begin

text \<open>
  The Redux store of \<^verbatim>\<open>packages/app/src/reducers/index.js\<close>: \<open>combineReducers\<close>
  over eleven slices, each with its own reducer, so that one dispatched action is one
  step of every slice reducer. The visualization and the working copy (\<open>current\<close>)
  are stored by reference: their slices hold an address of the object heap of
  \<^theory_text>\<open>Thunks\<close> (or \<open>null\<close>), because the editor compares them with \<open>===\<close>.
  The user reducer is \<^verbatim>\<open>reducers/user.js\<close>; the metadata reducer is modelled from
  its test \<^verbatim>\<open>reducers/__tests__/metadata.js\<close> and the spec (shallow merge, later
  keys win); the visualization, current, ui, loader and snackbar reducers are not in
  the sources and follow the spec's description of them. The dimensions,
  recommendedIds, settings and chart slices are carried unchanged: none of the
  modelled actions is handled by their reducers.
\<close>

type_synonym exc = "string js_exc"

datatype vslot = VNull | VRef nat

record settings =
  rootOrganisationUnits :: jsval
  relativePeriod :: jsval
  digitGroupSeparator :: jsval

datatype ui_state =
    UiCleared settings
  | UiFromVisualization jsval

datatype load_error = VisualizationNotFoundError | GenericServerError | LoadErrorValue jsval

record loader =
  isPluginLoading :: bool
  loadError :: "load_error option"

datatype variant = VARIANT_SUCCESS | VARIANT_ERROR | VARIANT_WARNING

record snack =
  sn_variant :: variant
  sn_message :: string
  sn_duration :: "nat option"

record user =
  u_id :: jsval
  u_username :: jsval
  u_uiLocale :: jsval
  u_isSuperuser :: bool

text \<open>The user object of the d2 library that \<open>RECEIVED_USER\<close> carries, as an
  untyped value: \<open>d2_object\<close> is the object itself (its \<open>id\<close>, \<open>username\<close> and
  \<open>settings\<close> properties); its \<open>authorities\<close> property is a JavaScript \<open>Set\<close>
  of authority names, \<open>Some S\<close>, or a value without a \<open>has\<close> method (missing,
  \<open>null\<close>, a plain object or array), \<open>None\<close>.\<close>

record d2user =
  d2_object :: jsval
  d2_authorities :: "string set option"

record store =
  s_visualization :: vslot
  s_current :: vslot
  s_dimensions :: jsval
  s_recommendedIds :: jsval
  s_ui :: ui_state
  s_metadata :: "string \<rightharpoonup> jsval"
  s_settings :: settings
  s_user :: user
  s_snackbar :: "snack option"
  s_loader :: loader
  s_chart :: jsval

datatype action =
    SET_VISUALIZATION vslot
  | CLEAR_VISUALIZATION
  | SET_CURRENT vslot
  | CLEAR_CURRENT
  | SET_UI_FROM_VISUALIZATION jsval
  | CLEAR_UI settings
  | SET_PLUGIN_LOADING bool
  | SET_LOAD_ERROR load_error
  | CLEAR_LOAD_ERROR
  | RECEIVED_SNACKBAR_MESSAGE snack
  | ADD_METADATA "string \<rightharpoonup> jsval"
  | RECEIVED_USER d2user
  | NO_MATCH

subsection \<open>The user reducer\<close>

definition DEFAULT_USER :: user where
  "DEFAULT_USER = \<lparr>u_id = JStr [], u_username = JStr [], u_uiLocale = JStr [], u_isSuperuser = False\<rparr>"

text \<open>\<open>fromD2ToUserObj\<close>: the object literal reads \<open>d2Object.id\<close>,
  \<open>d2Object.username\<close>, \<open>d2Object.settings.keyUiLocale\<close> and calls
  \<open>d2Object.authorities.has('ALL')\<close> in turn; each read throws a \<open>TypeError\<close> on a
  nullish value, and the call throws when \<open>authorities\<close> is not a \<open>Set\<close>.\<close>

definition fromD2ToUserObj :: "d2user \<Rightarrow> exc + user" where
  "fromD2ToUserObj d2 =
     ebind (js_get (d2_object d2) ''id'') (\<lambda>uid.
     ebind (js_get (d2_object d2) ''username'') (\<lambda>username.
     ebind (js_get (d2_object d2) ''settings'') (\<lambda>settings.
     ebind (js_get settings ''keyUiLocale'') (\<lambda>loc.
     ebind (case d2_authorities d2 of None \<Rightarrow> Inl TypeError | Some auth \<Rightarrow> Inr (''ALL'' \<in> auth)) (\<lambda>su.
       Inr \<lparr>u_id = uid, u_username = username, u_uiLocale = loc, u_isSuperuser = su\<rparr>)))))"

fun user_reducer :: "user \<Rightarrow> action \<Rightarrow> exc + user" where
  "user_reducer state (RECEIVED_USER v) = fromD2ToUserObj v"
| "user_reducer state _ = Inr state"

subsection \<open>The metadata reducer\<close>

definition DEFAULT_METADATA :: "string \<rightharpoonup> jsval" where
  "DEFAULT_METADATA = Map.empty"

fun metadata_reducer :: "(string \<rightharpoonup> jsval) \<Rightarrow> action \<Rightarrow> (string \<rightharpoonup> jsval)" where
  "metadata_reducer state (ADD_METADATA value) = state ++ value"
| "metadata_reducer state _ = state"

subsection \<open>The slices the thunks write\<close>

fun visualization_reducer :: "vslot \<Rightarrow> action \<Rightarrow> vslot" where
  "visualization_reducer state (SET_VISUALIZATION v) = v"
| "visualization_reducer state CLEAR_VISUALIZATION = VNull"
| "visualization_reducer state _ = state"

fun current_reducer :: "vslot \<Rightarrow> action \<Rightarrow> vslot" where
  "current_reducer state (SET_CURRENT v) = v"
| "current_reducer state CLEAR_CURRENT = VNull"
| "current_reducer state _ = state"

fun ui_reducer :: "ui_state \<Rightarrow> action \<Rightarrow> ui_state" where
  "ui_reducer state (SET_UI_FROM_VISUALIZATION v) = UiFromVisualization v"
| "ui_reducer state (CLEAR_UI defaults) = UiCleared defaults"
| "ui_reducer state _ = state"

fun loader_reducer :: "loader \<Rightarrow> action \<Rightarrow> loader" where
  "loader_reducer state (SET_PLUGIN_LOADING b) = state\<lparr>isPluginLoading := b\<rparr>"
| "loader_reducer state (SET_LOAD_ERROR e) = state\<lparr>loadError := Some e\<rparr>"
| "loader_reducer state CLEAR_LOAD_ERROR = state\<lparr>loadError := None\<rparr>"
| "loader_reducer state _ = state"

fun snackbar_reducer :: "snack option \<Rightarrow> action \<Rightarrow> snack option" where
  "snackbar_reducer state (RECEIVED_SNACKBAR_MESSAGE m) = Some m"
| "snackbar_reducer state _ = state"

subsection \<open>The root reducer\<close>

text \<open>\<open>combineReducers\<close> calls every slice reducer with its slice, in the order of
  the keys; a reducer that throws makes the dispatch throw and leaves the state as it
  was.\<close>

definition rootReducer :: "store \<Rightarrow> action \<Rightarrow> exc + store" where
  "rootReducer s a =
     ebind (user_reducer (s_user s) a) (\<lambda>u.
       Inr \<lparr>s_visualization = visualization_reducer (s_visualization s) a,
            s_current = current_reducer (s_current s) a,
            s_dimensions = s_dimensions s,
            s_recommendedIds = s_recommendedIds s,
            s_ui = ui_reducer (s_ui s) a,
            s_metadata = metadata_reducer (s_metadata s) a,
            s_settings = s_settings s,
            s_user = u,
            s_snackbar = snackbar_reducer (s_snackbar s) a,
            s_loader = loader_reducer (s_loader s) a,
            s_chart = s_chart s\<rparr>)"

subsection \<open>Selectors\<close>

text \<open>\<open>sGetSeriesSetupItems\<close>: one entry per item of the ui's axis setup, named
  from the metadata cache (\<open>metadata[item.id]?.name\<close>).\<close>

record series_setup_item =
  dimensionItem :: string
  ssi_axis :: jsval
  ssi_name :: jsval

definition sGetSeriesSetupItems ::
  "(string \<rightharpoonup> jsval) \<Rightarrow> (string \<times> jsval) list \<Rightarrow> series_setup_item list" where
  "sGetSeriesSetupItems metadata axisSetup =
     map (\<lambda>(iid, ax). \<lparr>dimensionItem = iid, ssi_axis = ax,
            ssi_name = (case metadata iid of None \<Rightarrow> JUndef | Some v \<Rightarrow> js_get_opt v ''name'')\<rparr>)
       axisSetup"

subsection \<open>Samples\<close>

text \<open>A store as the app holds it before anything is loaded: every slice at its
  reducer's default.\<close>

definition initial_store :: store where
  "initial_store = \<lparr>s_visualization = VNull, s_current = VNull, s_dimensions = JObj [],
     s_recommendedIds = JArr [],
     s_ui = UiCleared \<lparr>rootOrganisationUnits = JArr [], relativePeriod = JStr ''LAST_12_MONTHS'',
                        digitGroupSeparator = JStr ''SPACE''\<rparr>,
     s_metadata = DEFAULT_METADATA,
     s_settings = \<lparr>rootOrganisationUnits = JArr [], relativePeriod = JStr ''LAST_12_MONTHS'',
                   digitGroupSeparator = JStr ''SPACE''\<rparr>,
     s_user = DEFAULT_USER, s_snackbar = None,
     s_loader = \<lparr>isPluginLoading = False, loadError = None\<rparr>, s_chart = JNull\<rparr>"

definition sample_d2user :: d2user where
  "sample_d2user = \<lparr>d2_object = JObj [(''id'', JStr ''xE7jOejl9FI''), (''username'', JStr ''admin''),
     (''settings'', JObj [(''keyUiLocale'', JStr ''fr'')])], d2_authorities = Some {''ALL'', ''F_VIEW''}\<rparr>"

subsection \<open>Properties of the reducers\<close>

lemma rootReducer_not_user [simp]:
  "(\<And>v. a \<noteq> RECEIVED_USER v) \<Longrightarrow>
   rootReducer s a = Inr (s\<lparr>s_visualization := visualization_reducer (s_visualization s) a,
     s_current := current_reducer (s_current s) a, s_ui := ui_reducer (s_ui s) a,
     s_metadata := metadata_reducer (s_metadata s) a,
     s_snackbar := snackbar_reducer (s_snackbar s) a, s_loader := loader_reducer (s_loader s) a\<rparr>)"
  by (cases a) (fastforce simp: rootReducer_def)+

lemma fromD2ToUserObj_eq:
  "fromD2ToUserObj d2 =
     (if nullish (d2_object d2) \<or> nullish (get_prop (d2_object d2) ''settings'') \<or> d2_authorities d2 = None
      then Inl TypeError
      else Inr \<lparr>u_id = get_prop (d2_object d2) ''id'', u_username = get_prop (d2_object d2) ''username'',
                u_uiLocale = get_prop (get_prop (d2_object d2) ''settings'') ''keyUiLocale'',
                u_isSuperuser = (''ALL'' \<in> the (d2_authorities d2))\<rparr>)"
  by (auto simp: fromD2ToUserObj_def js_get_def split: option.split)

text \<open>C11. A \<open>RECEIVED_USER\<close> dispatch either replaces only the user slice, with the
  d2 user's id, username, the \<open>keyUiLocale\<close> of its settings and superuser exactly
  when its authorities contain \<open>ALL\<close>; or, when the d2 object or its settings is
  \<open>null\<close>/\<open>undefined\<close> or its authorities is not a \<open>Set\<close>, the user reducer throws
  and the whole dispatch fails: no slice of the store is updated.\<close>

theorem received_user_dispatch:
  "rootReducer s (RECEIVED_USER d) =
     (if nullish (d2_object d) \<or> nullish (get_prop (d2_object d) ''settings'') \<or> d2_authorities d = None
      then Inl TypeError
      else Inr (s\<lparr>s_user := \<lparr>u_id = get_prop (d2_object d) ''id'',
                  u_username = get_prop (d2_object d) ''username'',
                  u_uiLocale = get_prop (get_prop (d2_object d) ''settings'') ''keyUiLocale'',
                  u_isSuperuser = (''ALL'' \<in> the (d2_authorities d))\<rparr>\<rparr>))"
  by (simp add: rootReducer_def fromD2ToUserObj_eq)

theorem received_user_dispatch_witness:
  "rootReducer initial_store (RECEIVED_USER sample_d2user) =
     Inr (initial_store\<lparr>s_user := \<lparr>u_id = JStr ''xE7jOejl9FI'', u_username = JStr ''admin'',
        u_uiLocale = JStr ''fr'', u_isSuperuser = True\<rparr>\<rparr>) \<and>
   rootReducer initial_store (RECEIVED_USER (sample_d2user\<lparr>d2_authorities := None\<rparr>)) = Inl TypeError"
  using received_user_dispatch [of initial_store sample_d2user]
    received_user_dispatch [of initial_store "sample_d2user\<lparr>d2_authorities := None\<rparr>"]
  by (simp add: sample_d2user_def)

text \<open>C12. After \<open>ADD_METADATA\<close>, the series setup lists every axis-setup item
  with the name its metadata entry of the new batch gives: later keys win.\<close>

theorem series_setup_names_after_add_metadata:
  assumes "rootReducer s (ADD_METADATA batch) = Inr s'"
    and "batch iid = Some v" and "(iid, ax) \<in> set axisSetup"
  shows "\<exists>item\<in>set (sGetSeriesSetupItems (s_metadata s') axisSetup).
           dimensionItem item = iid \<and> ssi_axis item = ax \<and> ssi_name item = js_get_opt v ''name''"
  using assms by (force simp: sGetSeriesSetupItems_def)

theorem series_setup_names_after_add_metadata_witness:
  "sGetSeriesSetupItems (s_metadata initial_store ++ [''uid2'' \<mapsto> JObj [(''name'', JStr ''Tarquin'')]])
      [(''uid2'', JStr ''RANGE_0'')] =
   [\<lparr>dimensionItem = ''uid2'', ssi_axis = JStr ''RANGE_0'', ssi_name = JStr ''Tarquin''\<rparr>]"
proof -
  have "\<exists>item\<in>set (sGetSeriesSetupItems (s_metadata initial_store ++ [''uid2'' \<mapsto> JObj [(''name'', JStr ''Tarquin'')]])
      [(''uid2'', JStr ''RANGE_0'')]).
      dimensionItem item = ''uid2'' \<and> ssi_axis item = JStr ''RANGE_0'' \<and> ssi_name item = JStr ''Tarquin''"
    using series_setup_names_after_add_metadata [of initial_store "[''uid2'' \<mapsto> JObj [(''name'', JStr ''Tarquin'')]]"
        "initial_store\<lparr>s_metadata := s_metadata initial_store ++ [''uid2'' \<mapsto> JObj [(''name'', JStr ''Tarquin'')]]\<rparr>"
        "''uid2''" "JObj [(''name'', JStr ''Tarquin'')]" "JStr ''RANGE_0''" "[(''uid2'', JStr ''RANGE_0'')]"]
    by (simp add: js_get_opt_def)
  then show ?thesis by (simp add: sGetSeriesSetupItems_def initial_store_def DEFAULT_METADATA_def)
qed

end
