(* ===== verification/Thunks.thy ===== *)
theory Thunks
  imports Store AxisAdapter
begin

text \<open>
  The action thunks of \<^verbatim>\<open>src/actions/index.js\<close>. A thunk runs against a world:
  the Redux store, the heap of JavaScript objects the store's visualization and
  current slices point into, the browser history, and the log of calls made to the
  external collaborators (the API wrappers and \<open>console.log\<close>). A thunk is a
  computation in the state-and-exception monad of \<^theory_text>\<open>Prelude\<close>: what it
  dispatched before an exception stays dispatched. An \<open>async\<close> thunk is split at its
  \<open>await\<close> into a start, which runs up to the API call, and a resume, which runs
  when the call settles; the JavaScript event loop may run other thunks in between.
  The library functions the thunks call and that are not in the sources are the
  fields of an environment record.
\<close>

record hist_entry =
  pathname :: string
  hist_state :: jsval

datatype effect =
    FetchVisualization jsval
  | PostDataStatistics jsval
  | SaveVisualizationCall jsval
  | LogError string

record world =
  w_store :: store
  w_heap :: "jsval list"
  w_history :: "hist_entry list"
  w_effects :: "effect list"

text \<open>How an awaited API promise settles.\<close>

datatype 'a settled = Resolved 'a | Rejected jsval

record env =
  convertOuLevelsToUids :: "jsval \<Rightarrow> jsval \<Rightarrow> jsval"
  getVisualizationFromCurrent :: "jsval \<Rightarrow> jsval"
  getDisplayNameByVisType :: "jsval \<Rightarrow> string"
  localeDate :: string

type_synonym 'a thunk = "(world, exc, 'a) sexc"

subsection \<open>Primitive effects\<close>

definition deref :: "world \<Rightarrow> vslot \<Rightarrow> jsval" where
  "deref w p = (case p of VNull \<Rightarrow> JNull
     | VRef a \<Rightarrow> (if a < length (w_heap w) then w_heap w ! a else JUndef))"

text \<open>A new object (an object literal or spread) gets a fresh address.\<close>

definition alloc :: "jsval \<Rightarrow> nat thunk" where
  "alloc v w = (Inr (length (w_heap w)), w\<lparr>w_heap := w_heap w @ [v]\<rparr>)"

definition dispatch :: "action \<Rightarrow> unit thunk" where
  "dispatch a w = (case rootReducer (w_store w) a of
       Inl e \<Rightarrow> (Inl e, w)
     | Inr s \<Rightarrow> (Inr (), w\<lparr>w_store := s\<rparr>))"

definition emit :: "effect \<Rightarrow> unit thunk" where
  "emit e = smodify (\<lambda>w. w\<lparr>w_effects := w_effects w @ [e]\<rparr>)"

definition history_push :: "hist_entry \<Rightarrow> unit thunk" where
  "history_push h = smodify (\<lambda>w. w\<lparr>w_history := h # w_history w\<rparr>)"

definition history_replace :: "hist_entry \<Rightarrow> unit thunk" where
  "history_replace h = smodify (\<lambda>w. w\<lparr>w_history := h # tl (w_history w)\<rparr>)"

definition logError :: "string \<Rightarrow> unit thunk" where
  "logError name = emit (LogError name)"

subsection \<open>clearAll\<close>

definition clearAll :: "load_error option \<Rightarrow> unit thunk" where
  "clearAll error =
     sthen (dispatch (case error of Some e \<Rightarrow> SET_LOAD_ERROR e | None \<Rightarrow> CLEAR_LOAD_ERROR))
    (sthen (dispatch CLEAR_VISUALIZATION)
    (sthen (dispatch CLEAR_CURRENT)
    (sbind (sget (\<lambda>w. s_settings (w_store w))) (\<lambda>st.
       dispatch (CLEAR_UI st)))))"

subsection \<open>tDoLoadVisualization\<close>

text \<open>\<open>visualization.k = adaptAxisItems(visualization.k)\<close> for one axis.\<close>

definition adaptAxisProp :: "string \<Rightarrow> jsval \<Rightarrow> exc + jsval" where
  "adaptAxisProp k v = ebind (js_get v k) (\<lambda>a. ebind (adaptAxisItems a) (\<lambda>a'. js_set v k a'))"

definition adaptVisualizationAxes :: "jsval \<Rightarrow> exc + jsval" where
  "adaptVisualizationAxes v =
     ebind (adaptAxisProp ''columns'' v) (\<lambda>v1.
     ebind (adaptAxisProp ''rows'' v1) (adaptAxisProp ''filters''))"

text \<open>The \<open>async\<close> \<open>onSuccess\<close> callback; the object \<open>convertOuLevelsToUids\<close>
  returns is referenced by no one until it is dispatched, so it is put on the heap
  after its axes are adapted.\<close>

definition load_onSuccess :: "env \<Rightarrow> jsval \<Rightarrow> jsval \<Rightarrow> unit thunk" where
  "load_onSuccess E ouLevels response =
     sthen (dispatch (SET_PLUGIN_LOADING True))
    (sbind (slift (js_get response ''visualization'')) (\<lambda>rv.
     sbind (slift (adaptVisualizationAxes (convertOuLevelsToUids E ouLevels rv))) (\<lambda>vis.
     sthen (emit (PostDataStatistics (get_prop vis ''id'')))
    (sbind (alloc vis) (\<lambda>a.
     sthen (dispatch (SET_VISUALIZATION (VRef a)))
    (sthen (dispatch (SET_CURRENT (VRef a)))
    (sthen (dispatch (SET_UI_FROM_VISUALIZATION vis))
     (dispatch CLEAR_LOAD_ERROR))))))))"

definition load_error_of :: "jsval \<Rightarrow> load_error" where
  "load_error_of errorResponse =
     (if js_get_opt (js_get_opt errorResponse ''details'') ''httpStatusCode'' = JNum 404
      then VisualizationNotFoundError
      else if js_truthy (js_get_opt errorResponse ''message'')
      then LoadErrorValue (js_get_opt errorResponse ''message'')
      else GenericServerError)"

definition tDoLoadVisualization_start :: "jsval \<Rightarrow> unit thunk" where
  "tDoLoadVisualization_start vid = emit (FetchVisualization vid)"

text \<open>\<open>return onSuccess(await \<dots>)\<close> returns the promise of the \<open>async\<close> callback
  without awaiting it, so an exception inside \<open>onSuccess\<close> rejects the thunk's
  promise and is not caught by the thunk's \<open>catch\<close>; only a rejected fetch is.\<close>

definition tDoLoadVisualization_resume :: "env \<Rightarrow> jsval \<Rightarrow> jsval settled \<Rightarrow> unit thunk" where
  "tDoLoadVisualization_resume E ouLevels outcome =
     (case outcome of
        Resolved response \<Rightarrow> load_onSuccess E ouLevels response
      | Rejected errorResponse \<Rightarrow>
          sthen (clearAll (Some (load_error_of errorResponse)))
                (logError ''tDoLoadVisualization''))"

subsection \<open>tDoRenameVisualization\<close>

definition set_if_truthy :: "string \<Rightarrow> jsval \<Rightarrow> (string \<times> jsval) list \<Rightarrow> (string \<times> jsval) list" where
  "set_if_truthy k v kvs = (if js_truthy v then alist_set k v kvs else kvs)"

definition renamed :: "jsval \<Rightarrow> jsval \<Rightarrow> jsval \<Rightarrow> jsval" where
  "renamed name description v =
     JObj (set_if_truthy ''description'' description (set_if_truthy ''name'' name (obj_spread v)))"

definition tDoRenameVisualization :: "jsval \<Rightarrow> jsval \<Rightarrow> unit thunk" where
  "tDoRenameVisualization name description =
     sbind (sget id) (\<lambda>w.
       let visualization = s_visualization (w_store w);
           current = s_current (w_store w)
       in sbind (alloc (renamed name description (deref w visualization))) (\<lambda>uv.
          sbind (alloc (renamed name description (deref w current))) (\<lambda>uc.
          sthen (dispatch (SET_VISUALIZATION (VRef uv)))
         (sthen (dispatch (SET_CURRENT (if visualization = current then VRef uv else VRef uc)))
          (dispatch (RECEIVED_SNACKBAR_MESSAGE
             \<lparr>sn_variant = VARIANT_SUCCESS, sn_message = ''Rename successful'',
              sn_duration = Some 2000\<rparr>))))))"

subsection \<open>tDoSaveVisualization\<close>

definition preparePayloadForSaveAs :: "jsval \<Rightarrow> jsval" where
  "preparePayloadForSaveAs v =
     (case v of JObj kvs \<Rightarrow> JObj (filter (\<lambda>(k, _). k \<noteq> ''id'') kvs) | _ \<Rightarrow> v)"

definition untitled_name :: "env \<Rightarrow> jsval \<Rightarrow> string" where
  "untitled_name E v =
     ''Untitled '' @ getDisplayNameByVisType E (get_prop v ''type'') @ '' visualization, '' @
     localeDate E"

text \<open>The payload: \<open>name || visualization.name || i18n.t('Untitled \<dots>')\<close> and the
  description when one is given.\<close>

definition save_payload :: "env \<Rightarrow> jsval \<Rightarrow> jsval \<Rightarrow> bool \<Rightarrow> jsval \<Rightarrow> exc + jsval" where
  "save_payload E name description copy current =
     (let v0 = getVisualizationFromCurrent E current;
          v = (if copy then preparePayloadForSaveAs v0 else v0)
      in ebind (if js_truthy name then Inr name
                else ebind (js_get v ''name'') (\<lambda>n.
                       Inr (if js_truthy n then n else JStr (untitled_name E v)))) (\<lambda>nm.
         ebind (js_set v ''name'' nm) (\<lambda>v'.
           if js_truthy description then js_set v' ''description'' description else Inr v')))"

definition save_catch :: "unit thunk" where
  "save_catch =
     sthen (dispatch (SET_PLUGIN_LOADING False))
    (sthen (logError ''tDoSaveVisualization'')
     (dispatch (SET_LOAD_ERROR GenericServerError)))"

text \<open>The start returns whether the save request is in flight (\<open>False\<close>: an
  exception before the call was caught).\<close>

definition tDoSaveVisualization_start :: "env \<Rightarrow> jsval \<Rightarrow> jsval \<Rightarrow> bool \<Rightarrow> bool thunk" where
  "tDoSaveVisualization_start E name description copy =
     stry (sthen (dispatch (SET_PLUGIN_LOADING True))
          (sbind (sget (\<lambda>w. deref w (s_current (w_store w)))) (\<lambda>current.
           sbind (slift (save_payload E name description copy current)) (\<lambda>payload.
           sthen (emit (SaveVisualizationCall payload)) (sreturn True)))))
       (\<lambda>_. sthen save_catch (sreturn False))"

definition save_onSuccess :: "bool \<Rightarrow> jsval \<Rightarrow> unit thunk" where
  "save_onSuccess copy res =
     sbind (slift (js_get res ''status'')) (\<lambda>status.
       if status = JStr ''OK'' then
         sbind (slift (ebind (js_get res ''response'') (\<lambda>r. js_get r ''uid''))) (\<lambda>uid.
           if js_truthy uid then
             (if copy then history_push else history_replace)
               \<lparr>pathname = ''/'' @ js_to_string uid, hist_state = JObj [(''isSaving'', JBool True)]\<rparr>
           else sreturn ())
       else sreturn ())"

definition tDoSaveVisualization_resume :: "bool \<Rightarrow> jsval settled \<Rightarrow> unit thunk" where
  "tDoSaveVisualization_resume copy outcome =
     (case outcome of
        Resolved res \<Rightarrow> stry (save_onSuccess copy res) (\<lambda>_. save_catch)
      | Rejected _ \<Rightarrow> save_catch)"

subsection \<open>tDoDeleteVisualization\<close>

definition tDoDeleteVisualization :: "unit thunk" where
  "tDoDeleteVisualization =
     sbind (sget (\<lambda>w. deref w (s_current (w_store w)))) (\<lambda>current.
     sbind (slift (js_get current ''name'')) (\<lambda>nm.
     sthen (dispatch (RECEIVED_SNACKBAR_MESSAGE
        \<lparr>sn_variant = VARIANT_SUCCESS,
         sn_message = ''\"'' @ js_to_string nm @ ''\" successfully deleted.'',
         sn_duration = Some 2000\<rparr>))
     (history_push \<lparr>pathname = ''/'', hist_state = JUndef\<rparr>)))"

subsection \<open>Interleavings\<close>

text \<open>The steps the event loop can run: each thunk, or one half of an \<open>async\<close>
  thunk. A session is any sequence of them; two loads may be started before either
  response arrives, and their responses may arrive in either order.\<close>

datatype step =
    LoadStart jsval
  | LoadResume jsval "jsval settled"
  | Rename jsval jsval
  | SaveStart jsval jsval bool
  | SaveResume bool "jsval settled"
  | Delete
  | ClearAll "load_error option"

fun run_step :: "env \<Rightarrow> world \<Rightarrow> step \<Rightarrow> world" where
  "run_step E w (LoadStart vid) = snd (tDoLoadVisualization_start vid w)"
| "run_step E w (LoadResume ou outcome) = snd (tDoLoadVisualization_resume E ou outcome w)"
| "run_step E w (Rename n d) = snd (tDoRenameVisualization n d w)"
| "run_step E w (SaveStart n d copy) = snd (tDoSaveVisualization_start E n d copy w)"
| "run_step E w (SaveResume copy outcome) = snd (tDoSaveVisualization_resume copy outcome w)"
| "run_step E w Delete = snd (tDoDeleteVisualization w)"
| "run_step E w (ClearAll e) = snd (clearAll e w)"

definition run_steps :: "env \<Rightarrow> world \<Rightarrow> step list \<Rightarrow> world" where
  "run_steps E w steps = foldl (run_step E) w steps"

subsection \<open>Samples\<close>

text \<open>An environment whose library functions leave the visualization as it is, a
  fresh session at \<open>/\<close>, the visualization of the spec's scenario as the backend
  returns it, and the responses of the scenarios.\<close>

definition sample_env :: env where
  "sample_env = \<lparr>convertOuLevelsToUids = (\<lambda>_ v. v), getVisualizationFromCurrent = (\<lambda>v. v),
     getDisplayNameByVisType = (\<lambda>_. ''Column''), localeDate = ''Nov 09, 2026''\<rparr>"

definition initial_world :: world where
  "initial_world = \<lparr>w_store = initial_store, w_heap = [],
     w_history = [\<lparr>pathname = ''/'', hist_state = JUndef\<rparr>], w_effects = []\<rparr>"

definition sample_visualization :: jsval where
  "sample_visualization = JObj [(''id'', JStr ''v1''), (''name'', JStr ''ANC visits''),
     (''type'', JStr ''COLUMN''),
     (''columns'', JArr [JObj [(''dimension'', JStr ''dx''), (''items'', JArr [JObj [(''id'', JStr ''d1'')]])]]),
     (''rows'', JArr [JObj [(''dimension'', JStr ''pe''),
                            (''items'', JArr [JObj [(''id'', JStr ''LAST_12_MONTHS'')]])]]),
     (''filters'', JArr [])]"

definition sample_response :: jsval where
  "sample_response = JObj [(''visualization'', sample_visualization)]"

definition not_found_response :: jsval where
  "not_found_response = JObj [(''details'', JObj [(''httpStatusCode'', JNum 404)])]"

definition save_ok_response :: jsval where
  "save_ok_response = JObj [(''status'', JStr ''OK''), (''response'', JObj [(''uid'', JStr ''nEw1d'')])]"

definition loaded_world :: world where
  "loaded_world = run_steps sample_env initial_world
     [LoadStart (JStr ''v1''), LoadResume JNull (Resolved sample_response)]"

definition other_visualization :: jsval where
  "other_visualization = JObj [(''id'', JStr ''v2''), (''name'', JStr ''Malaria cases''),
     (''type'', JStr ''PIE''), (''columns'', JArr []),
     (''rows'', JArr [JObj [(''dimension'', JStr ''pe''),
                            (''items'', JArr [JObj [(''id'', JStr ''THIS_YEAR'')]])]]),
     (''filters'', JArr [JObj [(''dimension'', JStr ''dx''), (''items'', JArr [JObj [(''id'', JStr ''d2'')]])]])]"

definition malformed_response :: jsval where
  "malformed_response = JObj [(''visualization'', JObj [(''id'', JStr ''v3''), (''columns'', JArr [JNull])])]"

definition save_error_response :: jsval where
  "save_error_response = JObj [(''status'', JStr ''ERROR'')]"

subsection \<open>Evaluation rules\<close>

lemma dispatch_not_user [simp]:
  "(\<And>v. a \<noteq> RECEIVED_USER v) \<Longrightarrow>
   dispatch a w = (Inr (), w\<lparr>w_store := (w_store w)\<lparr>
     s_visualization := visualization_reducer (s_visualization (w_store w)) a,
     s_current := current_reducer (s_current (w_store w)) a, s_ui := ui_reducer (s_ui (w_store w)) a,
     s_metadata := metadata_reducer (s_metadata (w_store w)) a,
     s_snackbar := snackbar_reducer (s_snackbar (w_store w)) a,
     s_loader := loader_reducer (s_loader (w_store w)) a\<rparr>\<rparr>)"
  by (simp add: dispatch_def)

lemma alloc_apply [simp]:
  "alloc v w = (Inr (length (w_heap w)), w\<lparr>w_heap := w_heap w @ [v]\<rparr>)"
  by (simp add: alloc_def)

lemmas effect_defs [simp] = emit_def history_push_def history_replace_def logError_def

lemmas adapt_eval = adaptVisualizationAxes_def adaptAxisProp_def adaptAxisItems_def adaptAxisItem_def
  fixed_dimension_ids_def adapter_consts js_get_opt_def js_get_def

lemma load_resume_resolved:
  assumes "\<not> nullish response"
    and "adaptVisualizationAxes (convertOuLevelsToUids E ouLevels (get_prop response ''visualization'')) = Inr vis"
  shows "tDoLoadVisualization_resume E ouLevels (Resolved response) w =
    (Inr (), w\<lparr>w_heap := w_heap w @ [vis],
       w_effects := w_effects w @ [PostDataStatistics (get_prop vis ''id'')],
       w_store := (w_store w)\<lparr>s_visualization := VRef (length (w_heap w)),
          s_current := VRef (length (w_heap w)), s_ui := UiFromVisualization vis,
          s_loader := (s_loader (w_store w))\<lparr>isPluginLoading := True, loadError := None\<rparr>\<rparr>\<rparr>)"
  using assms by (simp add: tDoLoadVisualization_resume_def load_onSuccess_def js_get_def)

lemma loaded_world_eval:
  "loaded_world = initial_world\<lparr>w_heap := [sample_visualization],
     w_effects := [FetchVisualization (JStr ''v1''), PostDataStatistics (JStr ''v1'')],
     w_store := initial_store\<lparr>s_visualization := VRef 0, s_current := VRef 0,
        s_ui := UiFromVisualization sample_visualization,
        s_loader := \<lparr>isPluginLoading = True, loadError = None\<rparr>\<rparr>\<rparr>"
  by (simp add: loaded_world_def run_steps_def tDoLoadVisualization_start_def
      tDoLoadVisualization_resume_def load_onSuccess_def sample_response_def sample_env_def
      sample_visualization_def adapt_eval initial_world_def initial_store_def)

lemma map_of_filter_key:
  "map_of (filter (\<lambda>(k, _). k \<noteq> key) kvs) key = None"
  by (induction kvs) auto

lemma js_set_keeps_other:
  "js_set v k x = Inr v' \<Longrightarrow> k' \<noteq> k \<Longrightarrow> get_prop v' k' = get_prop v k'"
  by (cases v) auto

lemma save_payload_copy_no_id:
  assumes "save_payload E name description True current = Inr p"
  shows "get_prop p ''id'' = JUndef"
proof -
  let ?v = "preparePayloadForSaveAs (getVisualizationFromCurrent E current)"
  have v: "get_prop ?v ''id'' = JUndef"
    by (cases "getVisualizationFromCurrent E current")
       (simp_all add: preparePayloadForSaveAs_def map_of_filter_key)
  from assms obtain nm v' where "(js_set ?v ''name'' nm :: exc + jsval) = Inr v'"
    and p: "p = v' \<or> (js_set v' ''description'' description :: exc + jsval) = Inr p"
    by (auto simp: save_payload_def Let_def ebind_Inr_iff split: if_splits)
  then have "get_prop v' ''id'' = JUndef"
    using v js_set_keeps_other by fastforce
  with p show ?thesis
    using js_set_keeps_other by fastforce
qed

lemma save_start_awaiting:
  assumes "tDoSaveVisualization_start E name description copy w = (Inr True, w1)"
  shows "\<exists>p. save_payload E name description copy (deref w (s_current (w_store w))) = Inr p \<and>
    w_effects w1 = w_effects w @ [SaveVisualizationCall p] \<and>
    w_history w1 = w_history w \<and> isPluginLoading (s_loader (w_store w1)) \<and>
    loadError (s_loader (w_store w1)) = loadError (s_loader (w_store w))"
  using assms
  by (auto simp: tDoSaveVisualization_start_def save_catch_def deref_def
      split: sum.splits if_splits vslot.splits)

subsection \<open>Properties of the thunks\<close>

text \<open>C13. Renaming keeps the visualization and the working copy the same object
  exactly when they were the same object before: a rename alone does not make a saved
  visualization dirty, nor an edited one clean.\<close>

theorem rename_keeps_reference_equality:
  assumes "tDoRenameVisualization name description w = (r, w')"
  shows "r = Inr () \<and>
    (s_visualization (w_store w') = s_current (w_store w') \<longleftrightarrow>
     s_visualization (w_store w) = s_current (w_store w))"
  using assms by (auto simp: tDoRenameVisualization_def Let_def split: if_splits)

theorem rename_keeps_reference_equality_witness:
  "s_visualization (w_store (snd (tDoRenameVisualization (JStr ''ANC 2026'') JUndef loaded_world))) =
   s_current (w_store (snd (tDoRenameVisualization (JStr ''ANC 2026'') JUndef loaded_world)))"
  using rename_keeps_reference_equality [of "JStr ''ANC 2026''" JUndef loaded_world
      "fst (tDoRenameVisualization (JStr ''ANC 2026'') JUndef loaded_world)"
      "snd (tDoRenameVisualization (JStr ''ANC 2026'') JUndef loaded_world)"]
  by (simp add: loaded_world_eval)

text \<open>A rename with a non-empty name gives both the visualization and the
  working copy that name.\<close>

theorem rename_sets_name:
  assumes "tDoRenameVisualization name description w = (r, w')" and "js_truthy name"
  shows "get_prop (deref w' (s_visualization (w_store w'))) ''name'' = name \<and>
         get_prop (deref w' (s_current (w_store w'))) ''name'' = name"
  using assms
  by (auto simp: tDoRenameVisualization_def Let_def deref_def nth_append renamed_def set_if_truthy_def)

theorem rename_sets_name_witness:
  "get_prop (deref (snd (tDoRenameVisualization (JStr ''ANC 2026'') JUndef loaded_world))
     (s_visualization (w_store (snd (tDoRenameVisualization (JStr ''ANC 2026'') JUndef loaded_world)))))
     ''name'' = JStr ''ANC 2026''"
  using rename_sets_name [of "JStr ''ANC 2026''" JUndef loaded_world
      "fst (tDoRenameVisualization (JStr ''ANC 2026'') JUndef loaded_world)"
      "snd (tDoRenameVisualization (JStr ''ANC 2026'') JUndef loaded_world)"]
  by simp

text \<open>C14. A load whose fetch fails with HTTP 404 records the not-found error and
  clears the visualization, the working copy and the ui to the settings' defaults.\<close>

theorem load_not_found_resets:
  assumes "js_get_opt (js_get_opt er ''details'') ''httpStatusCode'' = JNum 404"
    and "tDoLoadVisualization_resume E ouLevels (Rejected er) w = (r, w')"
  shows "r = Inr () \<and> loadError (s_loader (w_store w')) = Some VisualizationNotFoundError \<and>
    s_visualization (w_store w') = VNull \<and> s_current (w_store w') = VNull \<and>
    s_ui (w_store w') = UiCleared (s_settings (w_store w))"
  using assms by (auto simp: tDoLoadVisualization_resume_def clearAll_def load_error_of_def)

theorem load_not_found_resets_witness:
  "s_visualization (w_store (snd (tDoLoadVisualization_resume sample_env JNull
      (Rejected not_found_response) loaded_world))) = VNull \<and>
   loadError (s_loader (w_store (snd (tDoLoadVisualization_resume sample_env JNull
      (Rejected not_found_response) loaded_world)))) = Some VisualizationNotFoundError"
  using load_not_found_resets [of not_found_response sample_env JNull loaded_world
      "fst (tDoLoadVisualization_resume sample_env JNull (Rejected not_found_response) loaded_world)"
      "snd (tDoLoadVisualization_resume sample_env JNull (Rejected not_found_response) loaded_world)"]
  by (simp add: not_found_response_def js_get_opt_def)

text \<open>C15. A successful load publishes one new object as both the visualization and
  the working copy (so it is not dirty), derives the ui from it, clears the load
  error and records one data-statistics call for its id.\<close>

theorem load_success_publishes:
  assumes "\<not> nullish response"
    and "adaptVisualizationAxes (convertOuLevelsToUids E ouLevels (get_prop response ''visualization'')) = Inr vis"
    and "tDoLoadVisualization_resume E ouLevels (Resolved response) w = (r, w')"
  shows "r = Inr () \<and> s_visualization (w_store w') = VRef (length (w_heap w)) \<and>
    s_current (w_store w') = s_visualization (w_store w') \<and>
    deref w' (s_visualization (w_store w')) = vis \<and>
    loadError (s_loader (w_store w')) = None \<and> s_ui (w_store w') = UiFromVisualization vis \<and>
    w_effects w' = w_effects w @ [PostDataStatistics (get_prop vis ''id'')]"
  using assms
  by (auto simp: tDoLoadVisualization_resume_def load_onSuccess_def js_get_def deref_def)

theorem load_success_publishes_witness:
  "deref loaded_world (s_visualization (w_store loaded_world)) = sample_visualization \<and>
   s_current (w_store loaded_world) = s_visualization (w_store loaded_world)"
proof -
  let ?w0 = "snd (tDoLoadVisualization_start (JStr ''v1'') initial_world)"
  have adapt: "adaptVisualizationAxes (convertOuLevelsToUids sample_env JNull
      (get_prop sample_response ''visualization'')) = Inr sample_visualization"
    by (simp add: sample_response_def sample_env_def sample_visualization_def adapt_eval)
  let ?R = "tDoLoadVisualization_resume sample_env JNull (Resolved sample_response) ?w0"
  have eq: "loaded_world = snd ?R"
    by (simp add: loaded_world_def run_steps_def)
  have nn: "\<not> nullish sample_response" by (simp add: sample_response_def)
  have "deref (snd ?R) (s_visualization (w_store (snd ?R))) = sample_visualization \<and>
        s_current (w_store (snd ?R)) = s_visualization (w_store (snd ?R))"
    using load_success_publishes [OF nn adapt surjective_pairing] by blast
  then show ?thesis by (simp only: eq)
qed

text \<open>C16. An exception inside the \<open>onSuccess\<close> callback of a load (here from
  adapting a malformed axis) is not caught by the thunk: it rejects the thunk's
  promise, the plugin-loading flag stays set, no load error is recorded and the
  previous visualization stays.\<close>

theorem load_onSuccess_error_escapes:
  assumes "\<not> nullish response"
    and "adaptVisualizationAxes (convertOuLevelsToUids E ouLevels (get_prop response ''visualization'')) = Inl e"
    and "tDoLoadVisualization_resume E ouLevels (Resolved response) w = (r, w')"
  shows "r = Inl e \<and> isPluginLoading (s_loader (w_store w')) \<and>
    loadError (s_loader (w_store w')) = loadError (s_loader (w_store w)) \<and>
    s_visualization (w_store w') = s_visualization (w_store w) \<and>
    s_current (w_store w') = s_current (w_store w)"
  using assms
  by (auto simp: tDoLoadVisualization_resume_def load_onSuccess_def js_get_def)

theorem load_onSuccess_error_escapes_witness:
  "fst (tDoLoadVisualization_resume sample_env JNull (Resolved malformed_response) initial_world)
     = Inl TypeError \<and>
   isPluginLoading (s_loader (w_store (snd (tDoLoadVisualization_resume sample_env JNull
     (Resolved malformed_response) initial_world))))"
  using load_onSuccess_error_escapes [of malformed_response sample_env JNull TypeError initial_world
      "fst (tDoLoadVisualization_resume sample_env JNull (Resolved malformed_response) initial_world)"
      "snd (tDoLoadVisualization_resume sample_env JNull (Resolved malformed_response) initial_world)"]
  by (simp add: malformed_response_def sample_env_def adapt_eval)

text \<open>C17. Save-as sends a payload without an \<open>id\<close> and, when the backend answers
  OK with a uid, pushes (not replaces) the history entry \<open>/uid\<close>.\<close>

theorem save_as_strips_id_and_pushes:
  assumes "tDoSaveVisualization_start E name description True w = (Inr True, w1)"
    and "\<not> nullish res" and "get_prop res ''status'' = JStr ''OK''"
    and "\<not> nullish (get_prop res ''response'')"
    and "get_prop (get_prop res ''response'') ''uid'' = JStr u" and "u \<noteq> []"
    and "tDoSaveVisualization_resume True (Resolved res) w1 = (r, w2)"
  shows "(\<exists>p. w_effects w1 = w_effects w @ [SaveVisualizationCall p] \<and> get_prop p ''id'' = JUndef) \<and>
    r = Inr () \<and>
    w_history w2 = \<lparr>pathname = ''/'' @ u, hist_state = JObj [(''isSaving'', JBool True)]\<rparr> # w_history w"
proof -
  obtain p where p: "save_payload E name description True (deref w (s_current (w_store w))) = Inr p"
    and eff: "w_effects w1 = w_effects w @ [SaveVisualizationCall p]"
    and hist: "w_history w1 = w_history w"
    using save_start_awaiting [OF assms(1)] by blast
  have "get_prop p ''id'' = JUndef" using p by (rule save_payload_copy_no_id)
  moreover have "r = Inr () \<and>
    w_history w2 = \<lparr>pathname = ''/'' @ u, hist_state = JObj [(''isSaving'', JBool True)]\<rparr> # w_history w1"
    using assms(2-7)
    by (auto simp: tDoSaveVisualization_resume_def save_onSuccess_def js_get_def)
  ultimately show ?thesis using eff hist by auto
qed

lemma save_as_sample_start:
  "tDoSaveVisualization_start sample_env (JStr ''ANC copy'') JUndef True loaded_world =
     (Inr True, snd (tDoSaveVisualization_start sample_env (JStr ''ANC copy'') JUndef True loaded_world))"
  by (simp add: tDoSaveVisualization_start_def loaded_world_eval deref_def save_payload_def
      sample_env_def sample_visualization_def preparePayloadForSaveAs_def)

theorem save_as_strips_id_and_pushes_witness:
  "hd (w_history (snd (tDoSaveVisualization_resume True (Resolved save_ok_response)
      (snd (tDoSaveVisualization_start sample_env (JStr ''ANC copy'') JUndef True loaded_world)))))
   = \<lparr>pathname = ''/nEw1d'', hist_state = JObj [(''isSaving'', JBool True)]\<rparr>"
  using save_as_strips_id_and_pushes [OF save_as_sample_start, of save_ok_response "''nEw1d''"
      "fst (tDoSaveVisualization_resume True (Resolved save_ok_response)
        (snd (tDoSaveVisualization_start sample_env (JStr ''ANC copy'') JUndef True loaded_world)))"
      "snd (tDoSaveVisualization_resume True (Resolved save_ok_response)
        (snd (tDoSaveVisualization_start sample_env (JStr ''ANC copy'') JUndef True loaded_world)))"]
  by (simp add: save_ok_response_def)

text \<open>C18. When the save request resolves with a status other than OK, nothing
  happens: the plugin-loading flag set by the start stays set, no error is
  recorded and the history is unchanged.\<close>

theorem save_non_ok_status_keeps_loading:
  assumes "tDoSaveVisualization_start E name description copy w = (Inr True, w1)"
    and "\<not> nullish res" and "get_prop res ''status'' \<noteq> JStr ''OK''"
    and "tDoSaveVisualization_resume copy (Resolved res) w1 = (r, w2)"
  shows "r = Inr () \<and> isPluginLoading (s_loader (w_store w2)) \<and>
    loadError (s_loader (w_store w2)) = loadError (s_loader (w_store w)) \<and>
    w_history w2 = w_history w"
  using save_start_awaiting [OF assms(1)] assms(2-4)
  by (auto simp: tDoSaveVisualization_resume_def save_onSuccess_def js_get_def)

theorem save_non_ok_status_keeps_loading_witness:
  "isPluginLoading (s_loader (w_store (snd (tDoSaveVisualization_resume True (Resolved save_error_response)
      (snd (tDoSaveVisualization_start sample_env (JStr ''ANC copy'') JUndef True loaded_world))))))"
  using save_non_ok_status_keeps_loading [OF save_as_sample_start, of save_error_response
      "fst (tDoSaveVisualization_resume True (Resolved save_error_response)
        (snd (tDoSaveVisualization_start sample_env (JStr ''ANC copy'') JUndef True loaded_world)))"
      "snd (tDoSaveVisualization_resume True (Resolved save_error_response)
        (snd (tDoSaveVisualization_start sample_env (JStr ''ANC copy'') JUndef True loaded_world)))"]
  by (simp add: save_error_response_def)

text \<open>C19. A rejected save request clears the plugin-loading flag and records the
  generic server error, without navigating.\<close>

theorem save_rejected_reports_error:
  assumes "tDoSaveVisualization_resume copy (Rejected e) w = (r, w')"
  shows "r = Inr () \<and> \<not> isPluginLoading (s_loader (w_store w')) \<and>
    loadError (s_loader (w_store w')) = Some GenericServerError \<and>
    w_history w' = w_history w"
  using assms by (auto simp: tDoSaveVisualization_resume_def save_catch_def)

theorem save_rejected_reports_error_witness:
  "loadError (s_loader (w_store (snd (tDoSaveVisualization_resume False (Rejected JNull) loaded_world))))
     = Some GenericServerError"
  using save_rejected_reports_error [of False JNull loaded_world
      "fst (tDoSaveVisualization_resume False (Rejected JNull) loaded_world)"
      "snd (tDoSaveVisualization_resume False (Rejected JNull) loaded_world)"]
  by simp

text \<open>C20. Deleting reads the working copy's name without a guard: after a load
  that failed with 404 (which clears the working copy) a delete throws a
  \<open>TypeError\<close> before it notifies or navigates, and changes nothing; with a working
  copy it shows the success notification naming it and navigates to \<open>/\<close>.\<close>

theorem delete_after_not_found_throws:
  assumes "js_get_opt (js_get_opt er ''details'') ''httpStatusCode'' = JNum 404"
    and "s_current (w_store w) = VRef a" "a < length (w_heap w)" "\<not> nullish (w_heap w ! a)"
  shows "tDoDeleteVisualization (snd (tDoLoadVisualization_resume E ou (Rejected er) w')) =
           (Inl TypeError, snd (tDoLoadVisualization_resume E ou (Rejected er) w')) \<and>
    (let (r, w2) = tDoDeleteVisualization w
     in r = Inr () \<and>
        s_snackbar (w_store w2) = Some \<lparr>sn_variant = VARIANT_SUCCESS,
          sn_message = ''\"'' @ js_to_string (get_prop (w_heap w ! a) ''name'') @ ''\" successfully deleted.'',
          sn_duration = Some 2000\<rparr> \<and>
        w_history w2 = \<lparr>pathname = ''/'', hist_state = JUndef\<rparr> # w_history w)"
  using assms
  by (simp add: tDoDeleteVisualization_def tDoLoadVisualization_resume_def clearAll_def
      load_error_of_def deref_def js_get_def)

theorem delete_after_not_found_throws_witness:
  "tDoDeleteVisualization (snd (tDoLoadVisualization_resume sample_env JNull (Rejected not_found_response)
      loaded_world)) =
     (Inl TypeError, snd (tDoLoadVisualization_resume sample_env JNull (Rejected not_found_response)
      loaded_world)) \<and>
   w_history (snd (tDoDeleteVisualization loaded_world)) =
     \<lparr>pathname = ''/'', hist_state = JUndef\<rparr> # w_history loaded_world"
  using delete_after_not_found_throws [of not_found_response loaded_world 0 sample_env JNull loaded_world]
  by (simp add: not_found_response_def js_get_opt_def loaded_world_eval sample_visualization_def
      split: prod.splits)

text \<open>C21. Two loads started one after the other are not ordered: whichever response
  is processed last is the visualization shown, whatever the order of the starts.\<close>

theorem load_last_resume_wins:
  assumes "\<not> nullish ra" "\<not> nullish rb"
    and "adaptVisualizationAxes (convertOuLevelsToUids E ou (get_prop ra ''visualization'')) = Inr va"
    and "adaptVisualizationAxes (convertOuLevelsToUids E ou (get_prop rb ''visualization'')) = Inr vb"
  shows "let w' = run_steps E w [LoadStart ida, LoadStart idb,
                   LoadResume ou (Resolved rb), LoadResume ou (Resolved ra)]
         in deref w' (s_visualization (w_store w')) = va \<and>
            s_current (w_store w') = s_visualization (w_store w')"
  using assms
  by (simp add: run_steps_def tDoLoadVisualization_start_def load_resume_resolved deref_def nth_append)

theorem load_last_resume_wins_witness:
  "let w' = run_steps sample_env initial_world [LoadStart (JStr ''v1''), LoadStart (JStr ''v2''),
                   LoadResume JNull (Resolved (JObj [(''visualization'', other_visualization)])),
                   LoadResume JNull (Resolved sample_response)]
   in deref w' (s_visualization (w_store w')) = sample_visualization"
  using load_last_resume_wins [of sample_response "JObj [(''visualization'', other_visualization)]"
      sample_env JNull sample_visualization other_visualization initial_world "JStr ''v1''" "JStr ''v2''"]
  by (simp add: Let_def sample_response_def sample_env_def sample_visualization_def
      other_visualization_def adapt_eval)

end
