(* ===== verification/MenuBar.thy ===== *)
theory MenuBar
  imports Thunks
begin

text \<open>
  The menu bar of \<^verbatim>\<open>src/src/components/MenuBar/MenuBar.js\<close>: the handlers it
  passes to the file menu of \<open>@dhis2/analytics\<close> (\<open>onOpen\<close>, \<open>onNew\<close>, the rename,
  save, save-as and delete callbacks that dispatch the thunks of
  \<^theory_text>\<open>Thunks\<close>, and \<open>onError\<close>), and the condition under which it offers
  \<open>onSave\<close> at all. \<open>getVisualizationState\<close> (\<^verbatim>\<open>modules/visualization.js\<close>, not
  in the sources) compares the visualization and current slices by reference, as
  the spec's data model describes; \<open>getErrorVariantByStatusCode\<close>
  (\<^verbatim>\<open>modules/error.js\<close>) is a parameter.
\<close>

datatype vis_state = STATE_EMPTY | STATE_SAVED | STATE_UNSAVED | STATE_DIRTY

text \<open>The default current and visualization are \<open>null\<close>.\<close>

definition getVisualizationState :: "vslot \<Rightarrow> vslot \<Rightarrow> vis_state" where
  "getVisualizationState visualization current =
     (if current = VNull then STATE_EMPTY
      else if visualization = VNull then STATE_UNSAVED
      else if current = visualization then STATE_SAVED
      else STATE_DIRTY)"

text \<open>\<open>[STATE_UNSAVED, STATE_DIRTY].includes(getVisualizationState(\<dots>))\<close>: when it is
  false the menu gets \<open>onSave = undefined\<close> and offers no save.\<close>

definition onSave_offered :: "world \<Rightarrow> bool" where
  "onSave_offered w =
     (getVisualizationState (s_visualization (w_store w)) (s_current (w_store w))
        \<in> set [STATE_UNSAVED, STATE_DIRTY])"

text \<open>\<open>history.location.pathname\<close>: the path of the top history entry (the
  history always holds one).\<close>

definition location_pathname :: "world \<Rightarrow> string" where
  "location_pathname w = (case w_history w of [] \<Rightarrow> ''/'' | h # _ \<Rightarrow> pathname h)"

definition onOpen :: "string \<Rightarrow> unit thunk" where
  "onOpen vid w =
     (let path = ''/'' @ vid
      in if location_pathname w = path
         then history_replace \<lparr>pathname = path, hist_state = JObj [(''isOpening'', JBool True)]\<rparr> w
         else history_push \<lparr>pathname = path, hist_state = JUndef\<rparr> w)"

definition onNew :: "unit thunk" where
  "onNew w =
     (if location_pathname w = ''/''
      then history_replace \<lparr>pathname = ''/'', hist_state = JObj [(''isResetting'', JBool True)]\<rparr> w
      else history_push \<lparr>pathname = ''/'', hist_state = JUndef\<rparr> w)"

definition E4030_message :: string where
  "E4030_message =
     ''This visualization can't be deleted because it is used on one or more dashboards''"

text \<open>\<open>onError\<close> of \<open>mapDispatchToProps\<close>. The message goes into the snackbar as
  the text it is rendered as.\<close>

definition onError :: "(jsval \<Rightarrow> variant) \<Rightarrow> jsval \<Rightarrow> unit thunk" where
  "onError getErrorVariantByStatusCode error =
     sbind (slift (js_get error ''errorCode'')) (\<lambda>errorCode.
     sbind (if errorCode = JStr ''E4030'' then sreturn (JStr E4030_message)
            else slift (js_get error ''message'')) (\<lambda>message.
     sbind (slift (js_get error ''httpStatusCode'')) (\<lambda>httpStatusCode.
       dispatch (RECEIVED_SNACKBAR_MESSAGE
         \<lparr>sn_variant = getErrorVariantByStatusCode httpStatusCode,
          sn_message = js_to_string message, sn_duration = None\<rparr>))))"

text \<open>The file menu's callbacks, as \<open>UnconnectedMenuBar\<close> wires them; the rename
  and save details carry the name and description the thunks destructure. A save
  from a menu that got no \<open>onSave\<close> does nothing.\<close>

datatype menu_event =
    MenuOpen string
  | MenuNew
  | MenuRename jsval jsval
  | MenuSave jsval jsval
  | MenuSaveAs jsval jsval
  | MenuDelete
  | MenuError jsval

fun onMenu :: "env \<Rightarrow> (jsval \<Rightarrow> variant) \<Rightarrow> world \<Rightarrow> menu_event \<Rightarrow> world" where
  "onMenu E V w (MenuOpen vid) = snd (onOpen vid w)"
| "onMenu E V w MenuNew = snd (onNew w)"
| "onMenu E V w (MenuRename name description) = snd (tDoRenameVisualization name description w)"
| "onMenu E V w (MenuSave name description) =
     (if onSave_offered w then snd (tDoSaveVisualization_start E name description False w) else w)"
| "onMenu E V w (MenuSaveAs name description) = snd (tDoSaveVisualization_start E name description True w)"
| "onMenu E V w MenuDelete = snd (tDoDeleteVisualization w)"
| "onMenu E V w (MenuError error) = snd (onError V error w)"

definition sample_variant :: "jsval \<Rightarrow> variant" where
  "sample_variant st = (if st = JNum 409 then VARIANT_WARNING else VARIANT_ERROR)"

definition delete_conflict_error :: jsval where
  "delete_conflict_error = JObj [(''errorCode'', JStr ''E4030''), (''httpStatusCode'', JNum 409),
     (''message'', JStr ''Object referenced by dashboards'')]"

subsection \<open>Properties\<close>

lemma onSave_offered_iff:
  "onSave_offered w \<longleftrightarrow>
     s_current (w_store w) \<noteq> VNull \<and> s_current (w_store w) \<noteq> s_visualization (w_store w)"
  by (auto simp: onSave_offered_def getVisualizationState_def)

lemma rename_slots:
  "s_visualization (w_store (snd (tDoRenameVisualization name description w))) = VRef (length (w_heap w))"
  "s_current (w_store (snd (tDoRenameVisualization name description w))) =
     (if s_visualization (w_store w) = s_current (w_store w) then VRef (length (w_heap w))
      else VRef (Suc (length (w_heap w))))"
  by (simp_all add: tDoRenameVisualization_def Let_def)


text \<open>C33. The menu offers Save exactly when the working copy is a different object
  from the saved visualization (or nothing is saved yet), and a rename never changes
  whether Save is offered: renaming a saved visualization does not make it dirty.\<close>

theorem save_offer_kept_by_rename:
  assumes "s_current (w_store w) \<noteq> VNull"
  shows "(onSave_offered w \<longleftrightarrow> s_current (w_store w) \<noteq> s_visualization (w_store w)) \<and>
    (onSave_offered (onMenu E V w (MenuRename name description)) \<longleftrightarrow> onSave_offered w)"
  using assms by (auto simp: onSave_offered_iff rename_slots)

theorem save_offer_kept_by_rename_witness:
  "\<not> onSave_offered loaded_world \<and>
   \<not> onSave_offered (onMenu sample_env sample_variant loaded_world (MenuRename (JStr ''ANC 2026'') JUndef))"
  using save_offer_kept_by_rename [of loaded_world sample_env sample_variant "JStr ''ANC 2026''" JUndef]
  by (simp add: loaded_world_eval)

text \<open>C34. Opening a visualization, or a new one, puts its path on top of the
  history: when it is already the current path the top entry is replaced (with the
  isOpening or isResetting state, so the app reloads it), otherwise a new entry is
  pushed.\<close>

theorem open_and_new_navigate:
  assumes "w_history w \<noteq> []"
  shows "pathname (hd (w_history (snd (onOpen vid w)))) = ''/'' @ vid \<and>
    length (w_history (snd (onOpen vid w))) =
      (if location_pathname w = ''/'' @ vid then length (w_history w) else Suc (length (w_history w))) \<and>
    pathname (hd (w_history (snd (onNew w)))) = ''/'' \<and>
    length (w_history (snd (onNew w))) =
      (if location_pathname w = ''/'' then length (w_history w) else Suc (length (w_history w)))"
  using assms by (simp add: onOpen_def onNew_def Let_def)

theorem open_and_new_navigate_witness:
  "hist_state (hd (w_history (snd (onNew initial_world)))) = JObj [(''isResetting'', JBool True)] \<and>
   length (w_history (snd (onOpen ''v1'' initial_world))) = 2"
  using open_and_new_navigate [of initial_world "''v1''"]
  by (simp add: initial_world_def onNew_def location_pathname_def)

text \<open>C35. A file-menu error is reported in the snackbar and changes nothing else: an
  error with code E4030 gets the fixed dashboard message whatever its own message
  is, any other error its \<open>message\<close>; the variant is the one of its
  \<open>httpStatusCode\<close>. A \<open>null\<close> or \<open>undefined\<close> error throws a \<open>TypeError\<close> on the
  first read and leaves the world unchanged.\<close>

theorem menu_error_reported:
  "onError V error w =
     (if nullish error then (Inl TypeError, w)
      else (Inr (), w\<lparr>w_store := (w_store w)\<lparr>s_snackbar := Some
        \<lparr>sn_variant = V (get_prop error ''httpStatusCode''),
         sn_message = (if get_prop error ''errorCode'' = JStr ''E4030'' then E4030_message
                       else js_to_string (get_prop error ''message'')),
         sn_duration = None\<rparr>\<rparr>\<rparr>)) \<and>
   onMenu E V w (MenuError error) = snd (onError V error w)"
  by (simp add: onError_def js_get_def)

theorem menu_error_reported_witness:
  "s_snackbar (w_store (onMenu sample_env sample_variant loaded_world (MenuError delete_conflict_error))) =
     Some \<lparr>sn_variant = VARIANT_WARNING, sn_message = E4030_message, sn_duration = None\<rparr> \<and>
   onError sample_variant JNull loaded_world = (Inl TypeError, loaded_world)"
  using menu_error_reported [of sample_variant delete_conflict_error loaded_world sample_env]
    menu_error_reported [of sample_variant JNull loaded_world sample_env]
  by (simp add: delete_conflict_error_def sample_variant_def)

end
