(* ===== verification/SelectedItems.thy ===== *)
theory SelectedItems
  imports JsValue
begin

text \<open>
  The selected-items list of the dimension dialogs,
  \<^verbatim>\<open>src/packages/app/src/components/Dimensions/Dialogs/SelectedItems.js\<close>: its
  component state (the highlighted ids, the last clicked index, the id being
  dragged) and its event handlers. A handler returns the new state and the calls
  it makes to the parent's callbacks \<open>onDeselect\<close> and \<open>onReorder\<close>. The reorder
  on drop uses JavaScript's \<open>Array.prototype.splice\<close> and \<open>indexOf\<close>, modelled
  here at integer indices with their clamping and their \<open>-1\<close>.
\<close>

record sel_state =
  highlighted :: "string list"
  lastClickedIndex :: int
  draggingId :: "string option"

definition initial_sel_state :: sel_state where
  "initial_sel_state = \<lparr>highlighted = [], lastClickedIndex = 0, draggingId = None\<rparr>"

datatype callback = OnDeselect "string list" | OnReorder "string list"

text \<open>The locations and the drop result react-beautiful-dnd passes to the
  handlers; a location has a droppable id and an index and no \<open>draggableId\<close>
  property, so reading one gives \<open>undefined\<close>.\<close>

record drag_location =
  loc_droppableId :: string
  loc_index :: int

record drop_result =
  r_destination :: "drag_location option"
  r_source :: drag_location
  r_draggableId :: string

definition location_draggableId :: "drag_location \<Rightarrow> jsval" where
  "location_draggableId l = JUndef"

subsection \<open>Array primitives\<close>

fun js_indexOf :: "'a list \<Rightarrow> 'a \<Rightarrow> int" where
  "js_indexOf [] a = -1"
| "js_indexOf (x # xs) a =
     (if x = a then 0 else (let i = js_indexOf xs a in if i < 0 then -1 else i + 1))"

text \<open>\<open>xs.splice(start, deleteCount, ...items)\<close>: a negative start counts from the
  end, both bounds are clamped to the array.\<close>

definition splice :: "'a list \<Rightarrow> int \<Rightarrow> int \<Rightarrow> 'a list \<Rightarrow> 'a list" where
  "splice xs start deleteCount items =
     (let len = int (length xs);
          s = (if start < 0 then max (len + start) 0 else min start len);
          dc = min (max deleteCount 0) (len - s)
      in take (nat s) xs @ items @ drop (nat (s + dc)) xs)"

subsection \<open>onDragEnd\<close>

text \<open>The multi-item move (lines 151--178). The moved items are the highlighted
  ids paired with their index in \<open>items\<close> and sorted by it (lodash \<open>sortBy\<close> is
  stable, as \<open>sort_key\<close> is). The destination is adjusted, only when it is strictly
  between 1 and the last index, by a decrement for each moved item whose index is
  below the destination as it stands after the previous decrements.\<close>

definition indexedItemsToMove :: "string list \<Rightarrow> string list \<Rightarrow> (string \<times> int) list" where
  "indexedItemsToMove items hl = sort_key snd (map (\<lambda>item. (item, js_indexOf items item)) hl)"

definition adjust_destination :: "int \<Rightarrow> int \<Rightarrow> (string \<times> int) list \<Rightarrow> int" where
  "adjust_destination len destinationIndex ims =
     (if destinationIndex < len - 1 \<and> destinationIndex > 1
      then foldl (\<lambda>d (item, idx). if idx < d then d - 1 else d) destinationIndex ims
      else destinationIndex)"

definition remove_moved :: "string list \<Rightarrow> (string \<times> int) list \<Rightarrow> string list" where
  "remove_moved newList ims =
     foldl (\<lambda>l (item, _). splice l (js_indexOf l item) 1 []) newList ims"

text \<open>\<open>forEach((indexed, i) => newList.splice(destinationIndex + i, 0, indexed.item))\<close>:
  the \<open>i\<close>-th moved item goes to \<open>destinationIndex + i\<close>.\<close>

primrec insert_moved :: "string list \<Rightarrow> int \<Rightarrow> (string \<times> int) list \<Rightarrow> string list" where
  "insert_moved l d [] = l"
| "insert_moved l d (im # ims) = insert_moved (splice l d 0 [fst im]) (d + 1) ims"

definition multi_move :: "string list \<Rightarrow> string list \<Rightarrow> int \<Rightarrow> string list" where
  "multi_move items hl destIndex =
     (let ims = indexedItemsToMove items hl;
          d = adjust_destination (int (length items)) destIndex ims
      in insert_moved (remove_moved items ims) d ims)"

definition single_move :: "string list \<Rightarrow> int \<Rightarrow> int \<Rightarrow> string \<Rightarrow> string list" where
  "single_move items sourceIndex destIndex draggableId =
     splice (splice items sourceIndex 1 []) destIndex 0 [draggableId]"

definition onDragEnd :: "string list \<Rightarrow> sel_state \<Rightarrow> drop_result \<Rightarrow> sel_state \<times> callback list" where
  "onDragEnd items st result =
     (let st' = st\<lparr>draggingId := None\<rparr>; source = r_source result; draggableId = r_draggableId result
      in case r_destination result of
           None \<Rightarrow> (st', [])
         | Some destination \<Rightarrow>
             if location_draggableId destination = location_draggableId source \<and>
                loc_index destination = loc_index source then (st', [])
             else (st', [OnReorder
               (if draggableId \<in> set (highlighted st) \<and> length (highlighted st) > 1
                then multi_move items (highlighted st) (loc_index destination)
                else single_move items (loc_index source) (loc_index destination) draggableId)]))"

subsection \<open>The other handlers\<close>

definition onDeselectClick :: "sel_state \<Rightarrow> sel_state \<times> callback list" where
  "onDeselectClick st = (st\<lparr>highlighted := []\<rparr>, [OnDeselect (highlighted st)])"

definition onRemoveSelected :: "string \<Rightarrow> sel_state \<Rightarrow> sel_state \<times> callback list" where
  "onRemoveSelected itemId st =
     (st\<lparr>highlighted := filter (\<lambda>dataDimId. dataDimId \<noteq> itemId) (highlighted st)\<rparr>, [OnDeselect [itemId]])"

definition onDeselectAllClick :: "string list \<Rightarrow> sel_state \<Rightarrow> sel_state \<times> callback list" where
  "onDeselectAllClick items st = (st\<lparr>highlighted := []\<rparr>, [OnDeselect items])"

text \<open>\<open>toggler\<close> (\<^verbatim>\<open>modules/toggler.js\<close>, not in the sources) is a parameter: from
  the clicked id, the modifier keys, the clicked index, the last clicked index, the
  highlighted ids and the items it returns the new highlighted ids and last index.\<close>

type_synonym toggler = "string \<Rightarrow> bool \<Rightarrow> bool \<Rightarrow> int \<Rightarrow> int \<Rightarrow> string list \<Rightarrow> string list \<Rightarrow> string list \<times> int"

definition toggleHighlight ::
  "toggler \<Rightarrow> string list \<Rightarrow> bool \<Rightarrow> bool \<Rightarrow> int \<Rightarrow> string \<Rightarrow> sel_state \<Rightarrow> sel_state" where
  "toggleHighlight T items isCtrlPressed isShiftPressed index itemId st =
     (case T itemId isCtrlPressed isShiftPressed index (lastClickedIndex st) (highlighted st) items of
        (ids, lci) \<Rightarrow> st\<lparr>highlighted := ids, lastClickedIndex := lci\<rparr>)"

text \<open>\<open>onDragStart\<close>: \<open>find\<close> returns the id itself or \<open>undefined\<close>; \<open>!selected\<close> also
  holds for the empty id. The two \<open>setState\<close> calls are merged.\<close>

definition onDragStart :: "string \<Rightarrow> sel_state \<Rightarrow> sel_state" where
  "onDragStart itemId st =
     (let selected = find (\<lambda>hId. hId = itemId) (highlighted st);
          st1 = (if selected = None \<or> selected = Some [] then st\<lparr>highlighted := []\<rparr> else st)
      in st1\<lparr>draggingId := Some itemId\<rparr>)"

text \<open>\<open>isGhosting\<close> of \<open>renderListItem\<close>: a highlighted item other than the dragged
  one is drawn as a ghost while a drag is in progress (\<open>Boolean(draggingId)\<close>).\<close>

definition isGhosting :: "sel_state \<Rightarrow> string \<Rightarrow> bool" where
  "isGhosting st itemId =
     (itemId \<in> set (highlighted st) \<and>
      (case draggingId st of None \<Rightarrow> False | Some d \<Rightarrow> d \<noteq> [] \<and> d \<noteq> itemId))"

text \<open>The text of a list item (\<open>renderListItem\<close>): while a multi-selection that
  contains the dragged item is being dragged, the dragged item shows the count;
  otherwise it shows \<open>this.props.metadata[id].name\<close>, which throws when the id has
  no metadata.\<close>

definition showCount :: "bool \<Rightarrow> sel_state \<Rightarrow> bool" where
  "showCount isDragging st =
     (isDragging \<and> length (highlighted st) > 1 \<and>
      (case draggingId st of None \<Rightarrow> False | Some d \<Rightarrow> d \<in> set (highlighted st)))"

definition itemText :: "(string \<rightharpoonup> jsval) \<Rightarrow> bool \<Rightarrow> sel_state \<Rightarrow> string \<Rightarrow> string js_exc + jsval" where
  "itemText metadata isDragging st itemId =
     (if showCount isDragging st then Inr (JStr (string_of_nat (length (highlighted st)) @ '' items''))
      else js_get (case metadata itemId of None \<Rightarrow> JUndef | Some v \<Rightarrow> v) ''name'')"

subsection \<open>The component with its parent\<close>

text \<open>The parent dialog (not in the sources) owns \<open>items\<close>: it removes the ids
  passed to \<open>onDeselect\<close> and replaces the list by the one passed to \<open>onReorder\<close>.
  A session is a sequence of user events on the component.\<close>

definition apply_callback :: "string list \<Rightarrow> callback \<Rightarrow> string list" where
  "apply_callback items cb = (case cb of
       OnDeselect ids \<Rightarrow> filter (\<lambda>x. x \<notin> set ids) items
     | OnReorder l \<Rightarrow> l)"

datatype sel_event =
    DeselectClick
  | RemoveSelected string
  | DeselectAllClick
  | ToggleHighlight bool bool int string
  | DragStart string
  | DragEnd drop_result

definition handle :: "sel_state \<times> callback list \<Rightarrow> string list \<Rightarrow> string list \<times> sel_state" where
  "handle r items = (foldl apply_callback items (snd r), fst r)"

fun sel_step :: "toggler \<Rightarrow> string list \<times> sel_state \<Rightarrow> sel_event \<Rightarrow> string list \<times> sel_state" where
  "sel_step T (items, st) DeselectClick = handle (onDeselectClick st) items"
| "sel_step T (items, st) (RemoveSelected itemId) = handle (onRemoveSelected itemId st) items"
| "sel_step T (items, st) DeselectAllClick = handle (onDeselectAllClick items st) items"
| "sel_step T (items, st) (ToggleHighlight c sh i itemId) = (items, toggleHighlight T items c sh i itemId st)"
| "sel_step T (items, st) (DragStart itemId) = (items, onDragStart itemId st)"
| "sel_step T (items, st) (DragEnd r) = handle (onDragEnd items st r) items"

definition sel_run :: "toggler \<Rightarrow> string list \<times> sel_state \<Rightarrow> sel_event list \<Rightarrow> string list \<times> sel_state" where
  "sel_run T = foldl (sel_step T)"

text \<open>The well-formedness of the component with its parent: the items are
  distinct, and the highlighted ids are distinct items. The drop results
  react-beautiful-dnd produces: the source index is the dragged item's index and
  the destination index is not negative.\<close>

definition sel_wf :: "string list \<times> sel_state \<Rightarrow> bool" where
  "sel_wf c = (case c of (items, st) \<Rightarrow>
     distinct items \<and> distinct (highlighted st) \<and> set (highlighted st) \<subseteq> set items)"

definition drop_ok :: "string list \<Rightarrow> drop_result \<Rightarrow> bool" where
  "drop_ok items r =
     (0 \<le> loc_index (r_source r) \<and> nat (loc_index (r_source r)) < length items \<and>
      items ! nat (loc_index (r_source r)) = r_draggableId r \<and>
      (case r_destination r of None \<Rightarrow> True | Some dest \<Rightarrow> 0 \<le> loc_index dest))"

definition event_ok :: "string list \<Rightarrow> sel_event \<Rightarrow> bool" where
  "event_ok items ev = (case ev of DragEnd r \<Rightarrow> drop_ok items r | _ \<Rightarrow> True)"

fun session_ok :: "toggler \<Rightarrow> string list \<times> sel_state \<Rightarrow> sel_event list \<Rightarrow> bool" where
  "session_ok T c [] = True"
| "session_ok T c (ev # evs) = (event_ok (fst c) ev \<and> session_ok T (sel_step T c ev) evs)"

subsection \<open>Samples\<close>

definition sample_items :: "string list" where
  "sample_items = [''a'', ''b'', ''c'', ''d'', ''e'']"

definition drop_at :: "string \<Rightarrow> int \<Rightarrow> int \<Rightarrow> drop_result" where
  "drop_at x s d = \<lparr>r_destination = Some \<lparr>loc_droppableId = ''selected-items-droppable'', loc_index = d\<rparr>,
     r_source = \<lparr>loc_droppableId = ''selected-items-droppable'', loc_index = s\<rparr>, r_draggableId = x\<rparr>"

definition sample_sel_state :: sel_state where
  "sample_sel_state = initial_sel_state\<lparr>highlighted := [''a'', ''d'']\<rparr>"

definition drop_outside :: drop_result where
  "drop_outside = \<lparr>r_destination = None,
     r_source = \<lparr>loc_droppableId = ''selected-items-droppable'', loc_index = 3\<rparr>, r_draggableId = ''d''\<rparr>"

text \<open>A toggler that highlights the clicked id alone when it is an item.\<close>

definition sample_toggler :: toggler where
  "sample_toggler itemId isCtrlPressed isShiftPressed index lastIndex hl items =
     (if itemId \<in> set items then [itemId] else [], index)"

definition sample_session :: "sel_event list" where
  "sample_session = [ToggleHighlight False False 0 ''a'', DragStart ''a'', DragEnd (drop_at ''a'' 0 2),
     RemoveSelected ''c'', DragStart ''e'', DragEnd (drop_at ''e'' 3 0), DeselectAllClick]"

subsection \<open>Array lemmas\<close>

lemma js_indexOf_absent: "a \<notin> set xs \<Longrightarrow> js_indexOf xs a = -1"
  by (induction xs) auto

lemma js_indexOf_present:
  "a \<in> set xs \<Longrightarrow> \<exists>k. js_indexOf xs a = int k \<and> k < length xs \<and>
     remove1 a xs = take k xs @ drop (Suc k) xs \<and> xs ! k = a"
proof (induction xs)
  case (Cons x xs)
  show ?case
  proof (cases "x = a")
    case False
    with Cons obtain k where "js_indexOf xs a = int k" "k < length xs"
      "remove1 a xs = take k xs @ drop (Suc k) xs" "xs ! k = a" by auto
    with False show ?thesis by (intro exI [of _ "Suc k"]) (simp add: Let_def)
  qed simp
qed simp

lemma splice_delete_one:
  "k < length xs \<Longrightarrow> splice xs (int k) 1 [] = take k xs @ drop (Suc k) xs"
  by (simp add: splice_def Let_def nat_add_distrib)

lemma splice_indexOf_remove1:
  "a \<in> set xs \<Longrightarrow> splice xs (js_indexOf xs a) 1 [] = remove1 a xs"
  using js_indexOf_present [of a xs] by (auto simp: splice_delete_one)

lemma splice_insert_one:
  "0 \<le> d \<Longrightarrow> splice l d 0 [x] = take (min (nat d) (length l)) l @ x # drop (min (nat d) (length l)) l"
  by (auto simp: splice_def Let_def min_def nat_le_iff)

lemma insert_moved_eq:
  "0 \<le> d \<Longrightarrow> insert_moved l d ims =
     take (min (nat d) (length l)) l @ map fst ims @ drop (min (nat d) (length l)) l"
proof (induction ims arbitrary: l d)
  case (Cons im ims)
  let ?k = "min (nat d) (length l)"
  have "min (nat (d + 1)) (length (take ?k l @ fst im # drop ?k l)) = Suc ?k"
    using Cons.prems by (simp add: min_def nat_add_distrib)
  then show ?case using Cons by (simp add: splice_insert_one)
qed simp

lemma foldl_remove1_distinct:
  "distinct l \<Longrightarrow> foldl (\<lambda>l x. remove1 x l) l xs = filter (\<lambda>y. y \<notin> set xs) l"
  by (induction xs arbitrary: l)
     (auto simp: distinct_remove1_removeAll removeAll_filter_not_eq filter_filter intro!: filter_cong)

lemma remove_moved_remove1:
  "mset (map fst ims) \<subseteq># mset l \<Longrightarrow> remove_moved l ims = foldl (\<lambda>l x. remove1 x l) l (map fst ims)"
proof (induction ims arbitrary: l)
  case (Cons im ims)
  obtain a i where im: "im = (a, i)" by (cases im)
  with Cons.prems have a: "a \<in> set l" and rest: "mset (map fst ims) \<subseteq># mset (remove1 a l)"
    by (auto simp: insert_subset_eq_iff)
  from Cons.IH [OF rest] a show ?case
    by (simp add: remove_moved_def im splice_indexOf_remove1)
qed (simp add: remove_moved_def)

lemma js_indexOf_nth:
  "distinct xs \<Longrightarrow> k < length xs \<Longrightarrow> js_indexOf xs (xs ! k) = int k"
proof (induction xs arbitrary: k)
  case (Cons x xs)
  then show ?case
    by (cases k) (auto simp: Let_def dest: nth_mem)
qed simp

lemma js_indexOf_distinct:
  "distinct xs \<Longrightarrow> map (js_indexOf xs) xs = map int [0..<length xs]"
  by (rule nth_equalityI) (simp_all add: js_indexOf_nth)

lemma js_indexOf_inj: "inj_on (js_indexOf xs) (set xs)"
proof (rule inj_onI)
  fix a b assume "a \<in> set xs" "b \<in> set xs" "js_indexOf xs a = js_indexOf xs b"
  then show "a = b" using js_indexOf_present [of a xs] js_indexOf_present [of b xs] by auto
qed

lemma indexedItemsToMove_eq:
  assumes "distinct items" "distinct hl" "set hl \<subseteq> set items"
  shows "indexedItemsToMove items hl =
    map (\<lambda>x. (x, js_indexOf items x)) (filter (\<lambda>x. x \<in> set hl) items)"
  unfolding indexedItemsToMove_def
proof (rule sort_key_inj_key_eq)
  let ?F = "filter (\<lambda>x. x \<in> set hl) items"
  have "mset hl = mset ?F"
    using assms by (subst set_eq_iff_mset_eq_distinct [symmetric]) auto
  then show "mset (map (\<lambda>x. (x, js_indexOf items x)) hl) = mset (map (\<lambda>x. (x, js_indexOf items x)) ?F)"
    by simp
  show "inj_on snd (set (map (\<lambda>x. (x, js_indexOf items x)) hl))"
    using inj_on_subset [OF js_indexOf_inj assms(3)] by (auto simp: inj_on_def)
  show "sorted (map snd (map (\<lambda>x. (x, js_indexOf items x)) ?F))"
    using sorted_filter [of "js_indexOf items" items] js_indexOf_distinct [OF assms(1)]
    by (simp add: comp_def sorted_map)
qed

lemma adjust_destination_nonneg:
  "(\<forall>p\<in>set ims. 0 \<le> snd p) \<Longrightarrow> 0 \<le> d \<Longrightarrow> 0 \<le> adjust_destination len d ims"
proof -
  have "(\<forall>p\<in>set ims. 0 \<le> snd p) \<Longrightarrow> 0 \<le> d \<Longrightarrow>
    0 \<le> foldl (\<lambda>d (item, idx). if idx < d then d - 1 else d) d ims" for d
    by (induction ims arbitrary: d) auto
  then show "(\<forall>p\<in>set ims. 0 \<le> snd p) \<Longrightarrow> 0 \<le> d \<Longrightarrow> 0 \<le> adjust_destination len d ims"
    by (simp add: adjust_destination_def)
qed

lemma adjust_destination_le: "adjust_destination len d ims \<le> d"
proof -
  have "foldl (\<lambda>d (item, idx). if idx < d then d - 1 else d) d ims \<le> d" for d :: int
  proof (induction ims arbitrary: d)
    case (Cons p ims)
    have "foldl (\<lambda>d (item, idx). if idx < d then d - 1 else d) (if snd p < d then d - 1 else d) ims
        \<le> (if snd p < d then d - 1 else d)" by (rule Cons.IH)
    then show ?case by (cases p) (simp split: if_splits)
  qed simp
  then show ?thesis by (simp add: adjust_destination_def)
qed

lemma mset_take_insert_drop [simp]:
  "mset (take k l @ xs @ drop k l) = mset l + mset xs"
  by (metis append_take_drop_id mset_append union_commute union_lcomm)

text \<open>The multi-item move, in closed form: the highlighted ids leave their places
  and come back as one block, in their order in \<open>items\<close>, at the adjusted
  destination clamped to the rest of the list.\<close>

lemma multi_move_eq:
  assumes "distinct items" "distinct hl" "set hl \<subseteq> set items" "0 \<le> destIndex"
  shows "multi_move items hl destIndex =
    (let rest = filter (\<lambda>x. x \<notin> set hl) items;
         k = min (nat (adjust_destination (int (length items)) destIndex (indexedItemsToMove items hl)))
                 (length rest)
     in take k rest @ filter (\<lambda>x. x \<in> set hl) items @ drop k rest)"
proof -
  let ?moved = "filter (\<lambda>x. x \<in> set hl) items"
  let ?ims = "indexedItemsToMove items hl"
  have ims: "?ims = map (\<lambda>x. (x, js_indexOf items x)) ?moved"
    using assms(1-3) by (rule indexedItemsToMove_eq)
  have sub: "mset (map fst ?ims) \<subseteq># mset items"
    by (simp add: ims comp_def mset_filter multiset_filter_subset)
  have "set ?moved = set hl" using assms(3) by auto
  then have rest: "remove_moved items ?ims = filter (\<lambda>x. x \<notin> set hl) items"
    using remove_moved_remove1 [OF sub] foldl_remove1_distinct [OF assms(1)]
    by (simp add: ims comp_def)
  have "\<forall>p\<in>set ?ims. 0 \<le> snd p"
    using ims js_indexOf_present by fastforce
  then have "0 \<le> adjust_destination (int (length items)) destIndex ?ims"
    using assms(4) by (rule adjust_destination_nonneg)
  then show ?thesis
    by (simp add: multi_move_def Let_def rest insert_moved_eq) (simp add: ims comp_def)
qed

lemma single_move_eq:
  assumes "0 \<le> s" "nat s < length items" "0 \<le> d"
  shows "single_move items s d x =
    (let rest = take (nat s) items @ drop (Suc (nat s)) items; k = min (nat d) (length rest)
     in take k rest @ x # drop k rest)"
proof -
  have "splice items s 1 [] = take (nat s) items @ drop (Suc (nat s)) items"
    using splice_delete_one [OF assms(2)] assms(1) by simp
  then show ?thesis using assms(3) by (simp add: single_move_def splice_insert_one Let_def)
qed

lemma single_move_mset:
  assumes "0 \<le> s" "nat s < length items" "0 \<le> d" "items ! nat s = x"
  shows "mset (single_move items s d x) = mset items"
proof -
  have "mset items = mset (take (nat s) items @ drop (Suc (nat s)) items) + {#x#}"
    using id_take_nth_drop [OF assms(2)] assms(4) by (metis add_mset_add_single mset.simps(2) mset_append union_mset_add_mset_right)
  then show ?thesis
    using mset_take_insert_drop [of _ "take (nat s) items @ drop (Suc (nat s)) items" "[x]"]
    by (simp add: single_move_eq [OF assms(1-3)] Let_def)
qed

lemma multi_move_mset:
  assumes "distinct items" "distinct hl" "set hl \<subseteq> set items" "0 \<le> destIndex"
  shows "mset (multi_move items hl destIndex) = mset items"
proof -
  have "mset (multi_move items hl destIndex) =
      mset (filter (\<lambda>x. x \<notin> set hl) items) + mset (filter (\<lambda>x. x \<in> set hl) items)"
    by (simp only: multi_move_eq [OF assms] Let_def mset_take_insert_drop)
  then show ?thesis
    using multiset_partition [of "mset items" "\<lambda>x. x \<in> set hl"] by (simp add: mset_filter add.commute)
qed

lemma set_splice_insert: "set (splice l s 0 xs) = set l \<union> set xs"
proof -
  have "set (take n l) \<union> set (drop n l) = set l" for n
    by (metis append_take_drop_id set_append)
  then show ?thesis by (auto simp: splice_def Let_def)
qed

lemma set_insert_moved: "set (insert_moved l d ims) = set l \<union> fst ` set ims"
  by (induction ims arbitrary: l d) (auto simp: set_splice_insert)

lemma reorder_mset:
  assumes "distinct items" "distinct hl" "set hl \<subseteq> set items"
    and "0 \<le> s" "nat s < length items" "items ! nat s = x" "0 \<le> d"
  shows "mset (if x \<in> set hl \<and> length hl > 1 then multi_move items hl d
                else single_move items s d x) = mset items"
  using multi_move_mset [OF assms(1-3,7)] single_move_mset [OF assms(4,5,7,6)] by simp

lemma onDragEnd_Some:
  "r_destination r = Some dest \<Longrightarrow> loc_index dest \<noteq> loc_index (r_source r) \<Longrightarrow>
   onDragEnd items st r = (st\<lparr>draggingId := None\<rparr>, [OnReorder
     (if r_draggableId r \<in> set (highlighted st) \<and> length (highlighted st) > 1
      then multi_move items (highlighted st) (loc_index dest)
      else single_move items (loc_index (r_source r)) (loc_index dest) (r_draggableId r))])"
  by (simp add: onDragEnd_def Let_def)

lemma take_drop_around:
  "length xs = k \<Longrightarrow> take k (xs @ x # ys) @ drop (Suc k) (xs @ x # ys) = xs @ ys"
  by simp

text \<open>C23. Every reorder the drop handler reports is a permutation of the items, when
  the items and the highlighted ids are distinct, the highlighted ids are items, and
  the drop result is one react-beautiful-dnd produces.\<close>
theorem onDragEnd_reorder_permutation:
  assumes "distinct items" "distinct (highlighted st)" "set (highlighted st) \<subseteq> set items"
    and "0 \<le> loc_index (r_source r)" "nat (loc_index (r_source r)) < length items"
    and "items ! nat (loc_index (r_source r)) = r_draggableId r"
    and "r_destination r = Some dest" "0 \<le> loc_index dest"
    and "onDragEnd items st r = (st', cbs)" "OnReorder l \<in> set cbs"
  shows "mset l = mset items"
proof (cases "loc_index dest = loc_index (r_source r)")
  case True
  then show ?thesis using assms(7,9,10) by (simp add: onDragEnd_def location_draggableId_def)
next
  case False
  then show ?thesis
    using assms(9,10) onDragEnd_Some [OF assms(7) False] reorder_mset [OF assms(1-6,8)] by auto
qed

lemma sample_multi_drop:
  "onDragEnd sample_items sample_sel_state (drop_at ''d'' 3 1) =
     (sample_sel_state\<lparr>draggingId := None\<rparr>, [OnReorder [''b'', ''a'', ''d'', ''c'', ''e'']])"
  by code_simp

theorem onDragEnd_reorder_permutation_witness:
  "mset [''b'', ''a'', ''d'', ''c'', ''e''] = mset sample_items"
  using onDragEnd_reorder_permutation [of sample_items sample_sel_state "drop_at ''d'' 3 1"
      "\<lparr>loc_droppableId = ''selected-items-droppable'', loc_index = 1\<rparr>"
      "sample_sel_state\<lparr>draggingId := None\<rparr>" "[OnReorder [''b'', ''a'', ''d'', ''c'', ''e'']]"
      "[''b'', ''a'', ''d'', ''c'', ''e'']", OF _ _ _ _ _ _ _ _ sample_multi_drop]
  by (simp add: sample_items_def sample_sel_state_def initial_sel_state_def drop_at_def)

text \<open>C24. Dropping a highlighted item of a multi-selection moves the whole selection as
  one block, in its order in the list, into the list of the other items.\<close>
theorem onDragEnd_moves_highlighted_block:
  assumes "distinct items" "distinct (highlighted st)" "set (highlighted st) \<subseteq> set items"
    and "r_draggableId r \<in> set (highlighted st)" "1 < length (highlighted st)"
    and "r_destination r = Some dest" "0 \<le> loc_index dest" "loc_index dest \<noteq> loc_index (r_source r)"
  shows "\<exists>k \<le> length (filter (\<lambda>x. x \<notin> set (highlighted st)) items).
    snd (onDragEnd items st r) =
      [OnReorder (take k (filter (\<lambda>x. x \<notin> set (highlighted st)) items) @
                  filter (\<lambda>x. x \<in> set (highlighted st)) items @
                  drop k (filter (\<lambda>x. x \<notin> set (highlighted st)) items))]"
proof -
  have "snd (onDragEnd items st r) = [OnReorder (multi_move items (highlighted st) (loc_index dest))]"
    using assms(4,5) by (simp only: onDragEnd_Some [OF assms(6,8)] snd_conv if_True simp_thms)
  then show ?thesis
    unfolding multi_move_eq [OF assms(1-3,7)] Let_def by (blast intro: min.cobounded2)
qed

theorem onDragEnd_moves_highlighted_block_witness:
  "\<exists>k \<le> length [''b'', ''c'', ''e'']. snd (onDragEnd sample_items sample_sel_state (drop_at ''d'' 3 1)) =
     [OnReorder (take k [''b'', ''c'', ''e''] @ [''a'', ''d''] @ drop k [''b'', ''c'', ''e''])]"
  using onDragEnd_moves_highlighted_block [of sample_items sample_sel_state "drop_at ''d'' 3 1"
      "\<lparr>loc_droppableId = ''selected-items-droppable'', loc_index = 1\<rparr>"]
  by (simp add: sample_items_def sample_sel_state_def initial_sel_state_def drop_at_def)

text \<open>C25. Dropping a single item puts it at the destination index and keeps the other
  items in their order.\<close>
theorem onDragEnd_single_lands_at_destination:
  assumes "r_draggableId r \<notin> set (highlighted st) \<or> length (highlighted st) \<le> 1"
    and "0 \<le> loc_index (r_source r)" "nat (loc_index (r_source r)) < length items"
    and "r_destination r = Some dest" "0 \<le> loc_index dest" "nat (loc_index dest) < length items"
    and "loc_index dest \<noteq> loc_index (r_source r)"
  shows "\<exists>l. snd (onDragEnd items st r) = [OnReorder l] \<and>
    l ! nat (loc_index dest) = r_draggableId r \<and>
    take (nat (loc_index dest)) l @ drop (Suc (nat (loc_index dest))) l =
    take (nat (loc_index (r_source r))) items @ drop (Suc (nat (loc_index (r_source r)))) items"
proof -
  let ?s = "loc_index (r_source r)" and ?d = "nat (loc_index dest)"
  let ?rest = "take (nat ?s) items @ drop (Suc (nat ?s)) items"
  have k: "min ?d (length ?rest) = ?d" using assms(3,6) by simp
  have "single_move items ?s (loc_index dest) (r_draggableId r) =
      take ?d ?rest @ r_draggableId r # drop ?d ?rest"
    using single_move_eq [OF assms(2,3,5)] k by (simp add: Let_def)
  moreover have "\<not> (r_draggableId r \<in> set (highlighted st) \<and> 1 < length (highlighted st))"
    using assms(1) by auto
  ultimately have eq: "snd (onDragEnd items st r) =
      [OnReorder (take ?d ?rest @ r_draggableId r # drop ?d ?rest)]"
    by (simp only: onDragEnd_Some [OF assms(4,7)] snd_conv if_False)
  have len: "length (take ?d ?rest) = ?d" using assms(3,6) by simp
  show ?thesis
  proof (intro exI conjI)
    show "(take ?d ?rest @ r_draggableId r # drop ?d ?rest) ! ?d = r_draggableId r"
      by (metis len nth_append_length)
    show "take ?d (take ?d ?rest @ r_draggableId r # drop ?d ?rest) @
          drop (Suc ?d) (take ?d ?rest @ r_draggableId r # drop ?d ?rest) = ?rest"
      using take_drop_around [OF len] by (simp only: append_take_drop_id)
  qed (rule eq)
qed

theorem onDragEnd_single_lands_at_destination_witness:
  "\<exists>l. snd (onDragEnd sample_items initial_sel_state (drop_at ''b'' 1 3)) = [OnReorder l] \<and>
     l ! 3 = ''b'' \<and> take 3 l @ drop 4 l = [''a'', ''c'', ''d'', ''e'']"
  using onDragEnd_single_lands_at_destination [of "drop_at ''b'' 1 3" initial_sel_state sample_items
      "\<lparr>loc_droppableId = ''selected-items-droppable'', loc_index = 3\<rparr>"]
  by (simp add: sample_items_def initial_sel_state_def drop_at_def numeral_eq_Suc)

text \<open>C26. A drop outside the list, or at the index it started from, reports no
  reorder; every drop ends the drag.\<close>
theorem onDragEnd_noop:
  assumes "r_destination r = None \<or> (\<exists>dest. r_destination r = Some dest \<and> loc_index dest = loc_index (r_source r))"
  shows "onDragEnd items st r = (st\<lparr>draggingId := None\<rparr>, [])"
  using assms by (auto simp: onDragEnd_def location_draggableId_def)

theorem onDragEnd_noop_witness:
  "onDragEnd sample_items sample_sel_state drop_outside = (sample_sel_state\<lparr>draggingId := None\<rparr>, [])"
  using onDragEnd_noop [of drop_outside sample_items sample_sel_state] by (simp add: drop_outside_def)

lemma multi_move_set: "set hl \<subseteq> set (multi_move items hl d)"
  by (auto simp: multi_move_def Let_def set_insert_moved indexedItemsToMove_def image_iff)

text \<open>C27. If a highlighted id is no longer an item, a multi-item drop reports a list that
  contains it and is not a permutation of the items: \<open>indexOf\<close> gives -1 and
  \<open>splice(-1, 1)\<close> deletes the last item instead.\<close>
theorem onDragEnd_stale_highlight_corrupts:
  assumes "y \<in> set (highlighted st)" "y \<notin> set items"
    and "r_draggableId r \<in> set (highlighted st)" "1 < length (highlighted st)"
    and "r_destination r = Some dest" "loc_index dest \<noteq> loc_index (r_source r)"
  shows "\<exists>l. snd (onDragEnd items st r) = [OnReorder l] \<and> y \<in> set l \<and> mset l \<noteq> mset items"
proof -
  have "y \<in> set (multi_move items (highlighted st) (loc_index dest))"
    using assms(1) multi_move_set by blast
  moreover have "snd (onDragEnd items st r) = [OnReorder (multi_move items (highlighted st) (loc_index dest))]"
    using assms(3,4) by (simp only: onDragEnd_Some [OF assms(5,6)] snd_conv if_True simp_thms)
  ultimately show ?thesis using assms(2) by (metis set_mset_mset)
qed

theorem onDragEnd_stale_highlight_corrupts_witness:
  "\<exists>l. snd (onDragEnd [''a'', ''b'', ''c''] (initial_sel_state\<lparr>highlighted := [''a'', ''z'']\<rparr>)
      (drop_at ''a'' 0 2)) = [OnReorder l] \<and> ''z'' \<in> set l \<and> mset l \<noteq> mset [''a'', ''b'', ''c'']"
  using onDragEnd_stale_highlight_corrupts [of "''z''" "initial_sel_state\<lparr>highlighted := [''a'', ''z'']\<rparr>"
      "[''a'', ''b'', ''c'']" "drop_at ''a'' 0 2" "\<lparr>loc_droppableId = ''selected-items-droppable'', loc_index = 2\<rparr>"]
  by (simp add: drop_at_def)

lemma adjust_fold_fix:
  "\<forall>p\<in>set ims. (d::int) \<le> snd p \<Longrightarrow> foldl (\<lambda>d (item, idx). if idx < d then d - 1 else d) d ims = d"
  by (induction ims) (auto simp: split_beta)

lemma multi_move_one_two:
  assumes "distinct items" "distinct hl" "set hl \<subseteq> set items" "items \<noteq> []" "hd items \<in> set hl"
    "3 < length items"
  shows "multi_move items hl 2 = multi_move items hl 1"
proof -
  obtain a rest where items: "items = a # rest" using assms(4) by (cases items) auto
  let ?ims = "indexedItemsToMove items hl"
  have ims: "?ims = (a, 0) # map (\<lambda>x. (x, js_indexOf items x)) (filter (\<lambda>x. x \<in> set hl) rest)"
    using indexedItemsToMove_eq [OF assms(1-3)] assms(5) by (simp add: items)
  have "\<forall>p\<in>set (map (\<lambda>x. (x, js_indexOf items x)) (filter (\<lambda>x. x \<in> set hl) rest)). 1 \<le> snd p"
  proof
    fix p assume "p \<in> set (map (\<lambda>x. (x, js_indexOf items x)) (filter (\<lambda>x. x \<in> set hl) rest))"
    then obtain x where x: "x \<in> set rest" "p = (x, js_indexOf items x)" by auto
    with assms(1) have "x \<noteq> a" by (auto simp: items)
    moreover obtain k where "js_indexOf rest x = int k" using js_indexOf_present [OF x(1)] by blast
    ultimately show "1 \<le> snd p" by (simp add: x(2) items Let_def)
  qed
  then have "adjust_destination (int (length items)) 2 ?ims = 1"
    using assms(6) by (simp add: adjust_destination_def ims adjust_fold_fix)
  moreover have "adjust_destination (int (length items)) 1 ?ims = 1"
    by (simp add: adjust_destination_def)
  ultimately show ?thesis by (simp add: multi_move_def Let_def)
qed

text \<open>C28. The destination adjustment is skipped at index 1: when the first item
  is part of a multi-selection of at least four items, dropping the selection at
  index 1 and at index 2 reports the same list (at 2 the move of the first item
  decrements the destination to 1, at 1 the adjustment is not applied).\<close>

theorem onDragEnd_destination_one_and_two_agree:
  assumes "distinct items" "distinct (highlighted st)" "set (highlighted st) \<subseteq> set items"
    "items \<noteq> []" "hd items \<in> set (highlighted st)" "3 < length items"
    "x \<in> set (highlighted st)" "1 < length (highlighted st)" "s \<noteq> 1" "s \<noteq> 2"
  shows "snd (onDragEnd items st (drop_at x s 1)) = snd (onDragEnd items st (drop_at x s 2))"
  using assms multi_move_one_two [OF assms(1-6)]
  by (simp add: onDragEnd_def drop_at_def location_draggableId_def)

theorem onDragEnd_destination_one_and_two_agree_witness:
  "snd (onDragEnd sample_items sample_sel_state (drop_at ''d'' 3 1)) =
     snd (onDragEnd sample_items sample_sel_state (drop_at ''d'' 3 2)) \<and>
   snd (onDragEnd sample_items sample_sel_state (drop_at ''d'' 3 2)) = [OnReorder [''b'', ''a'', ''d'', ''c'', ''e'']]"
proof -
  have "snd (onDragEnd sample_items sample_sel_state (drop_at ''d'' 3 1)) =
     snd (onDragEnd sample_items sample_sel_state (drop_at ''d'' 3 2))"
    by (rule onDragEnd_destination_one_and_two_agree)
       (simp_all add: sample_items_def sample_sel_state_def initial_sel_state_def)
  moreover have "snd (onDragEnd sample_items sample_sel_state (drop_at ''d'' 3 2)) =
     [OnReorder [''b'', ''a'', ''d'', ''c'', ''e'']]"
    by code_simp
  ultimately show ?thesis by simp
qed

lemma find_eq_member: "x \<in> set xs \<Longrightarrow> find (\<lambda>y. y = x) xs = Some x"
  by (induction xs) auto

text \<open>C29. Starting to drag an item that is not highlighted clears the highlight, so no
  item is drawn as a ghost.\<close>
theorem onDragStart_unhighlighted_clears:
  assumes "itemId \<notin> set (highlighted st)"
  shows "highlighted (onDragStart itemId st) = [] \<and> draggingId (onDragStart itemId st) = Some itemId \<and>
    (\<forall>x. \<not> isGhosting (onDragStart itemId st) x)"
  using assms by (simp add: onDragStart_def isGhosting_def find_None_iff)

theorem onDragStart_unhighlighted_clears_witness:
  "highlighted (onDragStart ''b'' sample_sel_state) = [] \<and> \<not> isGhosting (onDragStart ''b'' sample_sel_state) ''a''"
  using onDragStart_unhighlighted_clears [of "''b''" sample_sel_state]
  by (simp add: sample_sel_state_def)

text \<open>Starting to drag a highlighted item keeps the highlight, and exactly the other
  highlighted items are drawn as ghosts.\<close>
theorem onDragStart_highlighted_ghosts_others:
  assumes "itemId \<in> set (highlighted st)" "itemId \<noteq> []"
  shows "highlighted (onDragStart itemId st) = highlighted st \<and>
    (\<forall>x. isGhosting (onDragStart itemId st) x \<longleftrightarrow> x \<in> set (highlighted st) \<and> x \<noteq> itemId)"
proof -
  have "find (\<lambda>hId. hId = itemId) (highlighted st) = Some itemId"
    using assms(1) by (rule find_eq_member)
  then show ?thesis using assms(2) by (auto simp: onDragStart_def isGhosting_def)
qed


lemma onDragEnd_shape:
  assumes "distinct items" "distinct (highlighted st)" "set (highlighted st) \<subseteq> set items"
    and "drop_ok items r"
  shows "fst (onDragEnd items st r) = st\<lparr>draggingId := None\<rparr> \<and>
    (snd (onDragEnd items st r) = [] \<or> (\<exists>l. snd (onDragEnd items st r) = [OnReorder l] \<and> mset l = mset items))"
proof (cases "r_destination r")
  case (Some dest)
  show ?thesis
  proof (cases "loc_index dest = loc_index (r_source r)")
    case False
    have "0 \<le> loc_index (r_source r)" "nat (loc_index (r_source r)) < length items"
      "items ! nat (loc_index (r_source r)) = r_draggableId r" "0 \<le> loc_index dest"
      using assms(4) Some by (simp_all add: drop_ok_def)
    from reorder_mset [OF assms(1-3) this] show ?thesis
      by (simp add: onDragEnd_Some [OF Some False])
  qed (simp add: onDragEnd_def Some location_draggableId_def)
qed (simp add: onDragEnd_def)

lemma sel_step_wf:
  assumes "sel_wf c" "event_ok (fst c) ev"
    and "\<forall>i cp sp n l h its. distinct (fst (T i cp sp n l h its)) \<and> set (fst (T i cp sp n l h its)) \<subseteq> set its"
  shows "sel_wf (sel_step T c ev)"
proof -
  obtain items st where c: "c = (items, st)" by (cases c)
  show ?thesis
  proof (cases ev)
    case (DragEnd r)
    with assms(1,2) c have dr: "drop_ok items r" and wf: "distinct items" "distinct (highlighted st)"
      "set (highlighted st) \<subseteq> set items" by (simp_all add: sel_wf_def event_ok_def)
    from onDragEnd_shape [OF wf dr] show ?thesis
    proof (elim conjE disjE exE)
      fix l assume l: "snd (onDragEnd items st r) = [OnReorder l]" "mset l = mset items"
        and st: "fst (onDragEnd items st r) = st\<lparr>draggingId := None\<rparr>"
      have "set l = set items" "distinct l" using l(2) wf(1)
        by (metis set_mset_mset, metis mset_eq_imp_distinct_iff)
      then show ?thesis using wf l(1) st by (simp add: c DragEnd handle_def sel_wf_def apply_callback_def)
    qed (use wf in \<open>simp add: c DragEnd handle_def sel_wf_def\<close>)
  next
    case (ToggleHighlight cp sp n i)
    with assms(1,3) c show ?thesis
      by (auto simp: sel_wf_def toggleHighlight_def split: prod.split) (metis fst_conv subsetD)+
  qed (use assms(1) c in \<open>auto simp: sel_wf_def handle_def apply_callback_def onDeselectClick_def
       onRemoveSelected_def onDeselectAllClick_def onDragStart_def Let_def\<close>)
qed

theorem onDragStart_highlighted_ghosts_others_witness:
  "isGhosting (onDragStart ''d'' sample_sel_state) ''a'' \<and> \<not> isGhosting (onDragStart ''d'' sample_sel_state) ''d''"
  using onDragStart_highlighted_ghosts_others [of "''d''" sample_sel_state]
  by (simp add: sample_sel_state_def)

text \<open>C30. In every session of the list with its parent whose drops are well formed and
  whose toggler highlights only items, the items stay distinct and the highlighted
  ids stay distinct items.\<close>
theorem sel_run_wf:
  assumes "sel_wf c" "session_ok T c evs"
    and "\<forall>i cp sp n l h its. distinct (fst (T i cp sp n l h its)) \<and> set (fst (T i cp sp n l h its)) \<subseteq> set its"
  shows "sel_wf (sel_run T c evs)"
  using assms(1,2) unfolding sel_run_def
proof (induction evs arbitrary: c)
  case (Cons ev evs)
  then have "sel_wf (sel_step T c ev)" using sel_step_wf [OF _ _ assms(3)] by simp
  with Cons show ?case by simp
qed simp



theorem sel_run_wf_witness:
  "sel_wf (sel_run sample_toggler (sample_items, initial_sel_state) sample_session)"
proof -
  have "sel_wf (sample_items, initial_sel_state)" by code_simp
  moreover have "session_ok sample_toggler (sample_items, initial_sel_state) sample_session" by code_simp
  moreover have "\<forall>i cp sp n l h its. distinct (fst (sample_toggler i cp sp n l h its)) \<and>
      set (fst (sample_toggler i cp sp n l h its)) \<subseteq> set its"
    by (simp add: sample_toggler_def)
  ultimately show ?thesis by (rule sel_run_wf)
qed


lemma itemText_missing_metadata:
  "\<not> showCount isDragging st \<Longrightarrow> metadata itemId = None \<Longrightarrow>
   itemText metadata isDragging st itemId = Inl TypeError"
  by (simp add: itemText_def js_get_def)

lemma itemText_count:
  "highlighted st = [''a'', ''d''] \<Longrightarrow> draggingId st = Some ''d'' \<Longrightarrow>
   itemText metadata True st ''d'' = Inr (JStr ''2 items'')"
  by (simp add: itemText_def showCount_def string_of_nat.simps decimal_digits_def)

text \<open>C37. The indices the multi-item move works with stay in range: each moved
  item's index lies in the list, and the adjusted destination lies between 0 and
  the destination react-beautiful-dnd reported.\<close>

theorem multi_drag_indices_bounded:
  assumes "set hl \<subseteq> set items" "0 \<le> d"
  shows "(\<forall>p\<in>set (indexedItemsToMove items hl). 0 \<le> snd p \<and> snd p < int (length items)) \<and>
    0 \<le> adjust_destination (int (length items)) d (indexedItemsToMove items hl) \<and>
    adjust_destination (int (length items)) d (indexedItemsToMove items hl) \<le> d"
proof -
  have idx: "\<forall>p\<in>set (indexedItemsToMove items hl). 0 \<le> snd p \<and> snd p < int (length items)"
    using assms(1) js_indexOf_present by (fastforce simp: indexedItemsToMove_def)
  then have "0 \<le> adjust_destination (int (length items)) d (indexedItemsToMove items hl)"
    using assms(2) by (blast intro: adjust_destination_nonneg)
  with idx show ?thesis by (simp add: adjust_destination_le)
qed

theorem multi_drag_indices_bounded_witness:
  "0 \<le> adjust_destination 5 3 (indexedItemsToMove sample_items [''a'', ''d'']) \<and>
   adjust_destination 5 3 (indexedItemsToMove sample_items [''a'', ''d'']) \<le> 3"
  using multi_drag_indices_bounded [of "[''a'', ''d'']" sample_items 3] by (simp add: sample_items_def)

end
