(* ===== verification/DimensionItem.thy ===== *)
theory DimensionItem
  imports AxisAdapter
begin

text \<open>
  The dimension list entry of
  \<^verbatim>\<open>src/packages/app/src/components/Dimensions/DimensionItem.js\<close>: its hover
  state (\<open>mouseOver\<close>, \<open>optionButtonClicked\<close>), the handlers that change it, and what
  it renders from it (the options button, the recommended icon, the dimension
  icon). The options button is the \<open>DimensionOptions\<close> component (not in the
  sources); it calls \<open>toggleHoverListener\<close>, and can do so only while it is
  rendered. The browser delivers \<open>mouseover\<close> and \<open>mouseleave\<close> events as the pointer
  moves, and the parent may change the \<open>isSelected\<close> prop at any time; the step
  relation \<open>hover_step\<close> of a world of these three parts orders them as the event
  loop may.
\<close>

record hov_state =
  mouseOver :: bool
  optionButtonClicked :: bool

definition initial_hov_state :: hov_state where
  "initial_hov_state = \<lparr>mouseOver = False, optionButtonClicked = False\<rparr>"

definition onMouseOver :: "hov_state \<Rightarrow> hov_state" where
  "onMouseOver st = st\<lparr>mouseOver := True\<rparr>"

definition onMouseExit :: "hov_state \<Rightarrow> hov_state" where
  "onMouseExit st = (if \<not> optionButtonClicked st then st\<lparr>mouseOver := False\<rparr> else st)"

text \<open>\<open>setState(update, callback)\<close>: the callback runs on the updated state.\<close>

definition toggleHoverListener :: "hov_state \<Rightarrow> hov_state" where
  "toggleHoverListener st = onMouseExit (st\<lparr>optionButtonClicked := \<not> optionButtonClicked st\<rparr>)"

definition renderOptionsOnHover :: "bool \<Rightarrow> hov_state \<Rightarrow> bool" where
  "renderOptionsOnHover isSelected st = (\<not> isSelected \<and> mouseOver st)"

definition checkIfRecommended :: "bool \<Rightarrow> bool \<Rightarrow> bool" where
  "checkIfRecommended isRecommended isSelected = (isRecommended \<and> \<not> isSelected)"

datatype icon = DataIcon | PeriodIcon | OrgUnitIcon | GenericDimension

text \<open>\<open>fixedDimensionIcons[this.props.id] || <GenericDimension />\<close>.\<close>

definition fixedDimensionIcons :: "string \<rightharpoonup> icon" where
  "fixedDimensionIcons = [''Data'' \<mapsto> DataIcon, ''Period'' \<mapsto> PeriodIcon, ''OrgUnit'' \<mapsto> OrgUnitIcon]"

definition getDimensionIcon :: "string \<Rightarrow> icon" where
  "getDimensionIcon dimId = (case fixedDimensionIcons dimId of Some i \<Rightarrow> i | None \<Rightarrow> GenericDimension)"

text \<open>\<open>onDragStart\<close> logs the target id and puts it in the drag data under \<open>'text'\<close>.\<close>

datatype dnd_effect = ConsoleLog string string | SetData string string

definition dim_onDragStart :: "string \<Rightarrow> dnd_effect list" where
  "dim_onDragStart targetId = [ConsoleLog ''e.target.id'' targetId, SetData ''text'' targetId]"

subsection \<open>The item in its environment\<close>

record hover_world =
  hw_state :: hov_state
  pointer_inside :: bool
  hw_selected :: bool

datatype hover_event = PointerOver | PointerLeave | OptionsToggle | SetSelected bool

inductive hover_step :: "hover_world \<Rightarrow> hover_event \<Rightarrow> hover_world \<Rightarrow> bool" where
  over: "hover_step w PointerOver (w\<lparr>pointer_inside := True, hw_state := onMouseOver (hw_state w)\<rparr>)"
| leave: "pointer_inside w \<Longrightarrow>
    hover_step w PointerLeave (w\<lparr>pointer_inside := False, hw_state := onMouseExit (hw_state w)\<rparr>)"
| toggle: "renderOptionsOnHover (hw_selected w) (hw_state w) \<Longrightarrow>
    hover_step w OptionsToggle (w\<lparr>hw_state := toggleHoverListener (hw_state w)\<rparr>)"
| select: "hover_step w (SetSelected b) (w\<lparr>hw_selected := b\<rparr>)"

code_pred hover_step .

inductive hover_run :: "hover_world \<Rightarrow> hover_event list \<Rightarrow> hover_world \<Rightarrow> bool" where
  nil: "hover_run w [] w"
| cons: "hover_step w e w' \<Longrightarrow> hover_run w' es w'' \<Longrightarrow> hover_run w (e # es) w''"

code_pred hover_run .

definition initial_hover_world :: hover_world where
  "initial_hover_world = \<lparr>hw_state = initial_hov_state, pointer_inside = False, hw_selected = False\<rparr>"

subsection \<open>Properties\<close>

lemma hover_step_inv:
  assumes "hover_step w e w'"
    and "mouseOver (hw_state w) \<longrightarrow> pointer_inside w \<or> optionButtonClicked (hw_state w)"
  shows "mouseOver (hw_state w') \<longrightarrow> pointer_inside w' \<or> optionButtonClicked (hw_state w')"
  using assms
  by (induction rule: hover_step.induct)
     (auto simp: onMouseOver_def onMouseExit_def toggleHoverListener_def)

lemma hover_run_inv:
  assumes "hover_run w es w'"
    and "mouseOver (hw_state w) \<longrightarrow> pointer_inside w \<or> optionButtonClicked (hw_state w)"
  shows "mouseOver (hw_state w') \<longrightarrow> pointer_inside w' \<or> optionButtonClicked (hw_state w')"
  using assms by (induction rule: hover_run.induct) (auto dest: hover_step_inv)

text \<open>C31. In every run of the item from its initial state, the options button is shown
  only while the pointer is over the item or the options menu has been toggled
  open.\<close>
theorem options_shown_only_on_hover:
  assumes "hover_run initial_hover_world es w" "renderOptionsOnHover (hw_selected w) (hw_state w)"
  shows "pointer_inside w \<or> optionButtonClicked (hw_state w)"
  using hover_run_inv [OF assms(1)] assms(2)
  by (simp add: initial_hover_world_def initial_hov_state_def renderOptionsOnHover_def)

theorem options_shown_only_on_hover_witness:
  "pointer_inside (\<lparr>hw_state = \<lparr>mouseOver = True, optionButtonClicked = False\<rparr>,
      pointer_inside = True, hw_selected = False\<rparr>)"
proof -
  let ?w = "\<lparr>hw_state = \<lparr>mouseOver = True, optionButtonClicked = False\<rparr>,
      pointer_inside = True, hw_selected = False\<rparr>"
  have "hover_run initial_hover_world [PointerOver] ?w"
    by (auto intro!: hover_run.intros hover_step.intros
        simp: initial_hover_world_def initial_hov_state_def onMouseOver_def
        elim: hover_step.cases)
  then show ?thesis
    using options_shown_only_on_hover [of "[PointerOver]" ?w] by (simp add: renderOptionsOnHover_def)
qed


lemma hover_step_open_inv:
  "hover_step w e w' \<Longrightarrow> (optionButtonClicked (hw_state w) \<longrightarrow> mouseOver (hw_state w)) \<Longrightarrow>
    optionButtonClicked (hw_state w') \<longrightarrow> mouseOver (hw_state w')"
  by (induction rule: hover_step.induct)
     (auto simp: onMouseOver_def onMouseExit_def toggleHoverListener_def renderOptionsOnHover_def)

lemma hover_run_open_inv:
  "hover_run w es w' \<Longrightarrow> (optionButtonClicked (hw_state w) \<longrightarrow> mouseOver (hw_state w)) \<Longrightarrow>
    optionButtonClicked (hw_state w') \<longrightarrow> mouseOver (hw_state w')"
  by (induction rule: hover_run.induct) (auto dest: hover_step_open_inv)

lemma hover_run_open_persists:
  "hover_run w es w' \<Longrightarrow> OptionsToggle \<notin> set es \<Longrightarrow>
    optionButtonClicked (hw_state w) \<and> mouseOver (hw_state w) \<Longrightarrow>
    optionButtonClicked (hw_state w') \<and> mouseOver (hw_state w')"
proof (induction rule: hover_run.induct)
  case (cons w e w' es w'')
  from cons.hyps(1) cons.prems have "optionButtonClicked (hw_state w') \<and> mouseOver (hw_state w')"
    by (cases rule: hover_step.cases) (auto simp: onMouseOver_def onMouseExit_def)
  with cons show ?case by simp
qed simp

lemma open_run:
  "hover_run initial_hover_world [PointerOver, OptionsToggle]
     \<lparr>hw_state = \<lparr>mouseOver = True, optionButtonClicked = True\<rparr>, pointer_inside = True, hw_selected = False\<rparr>"
proof -
  let ?w1 = "\<lparr>hw_state = \<lparr>mouseOver = True, optionButtonClicked = False\<rparr>, pointer_inside = True, hw_selected = False\<rparr>"
  have "hover_step initial_hover_world PointerOver ?w1"
    using hover_step.over [of initial_hover_world]
    by (simp add: initial_hover_world_def initial_hov_state_def onMouseOver_def)
  moreover have "hover_step ?w1 OptionsToggle
    \<lparr>hw_state = \<lparr>mouseOver = True, optionButtonClicked = True\<rparr>, pointer_inside = True, hw_selected = False\<rparr>"
    using hover_step.toggle [of ?w1]
    by (simp add: renderOptionsOnHover_def toggleHoverListener_def onMouseExit_def)
  ultimately show ?thesis by (meson hover_run.intros)
qed

text \<open>C32. Once the options menu of the item has been opened, it stays open and the
  item stays hovered until the menu is toggled again: whatever the pointer does and
  however \<open>isSelected\<close> changes meanwhile, the options button is shown whenever the
  dimension is not selected, also with the pointer outside the item (leaving is
  ignored while \<open>optionButtonClicked\<close> is set, and the button cannot be toggled
  while the selected item does not render it).\<close>
theorem options_stuck_after_select_from_menu:
  assumes "hover_run initial_hover_world es0 w" "optionButtonClicked (hw_state w)"
    and "hover_run w es w'" "OptionsToggle \<notin> set es"
  shows "optionButtonClicked (hw_state w') \<and> mouseOver (hw_state w') \<and>
    renderOptionsOnHover (hw_selected w') (hw_state w') = (\<not> hw_selected w')"
proof -
  have "mouseOver (hw_state w)"
    using hover_run_open_inv [OF assms(1)] assms(2)
    by (simp add: initial_hover_world_def initial_hov_state_def)
  with assms(2-4) show ?thesis
    using hover_run_open_persists by (simp add: renderOptionsOnHover_def)
qed

theorem options_stuck_after_select_from_menu_witness:
  "optionButtonClicked (hw_state \<lparr>hw_state = \<lparr>mouseOver = True, optionButtonClicked = True\<rparr>,
       pointer_inside = False, hw_selected = False\<rparr>) \<and>
   renderOptionsOnHover False \<lparr>mouseOver = True, optionButtonClicked = True\<rparr>"
proof -
  let ?w = "\<lparr>hw_state = \<lparr>mouseOver = True, optionButtonClicked = True\<rparr>, pointer_inside = True, hw_selected = False\<rparr>"
  let ?w' = "\<lparr>hw_state = \<lparr>mouseOver = True, optionButtonClicked = True\<rparr>, pointer_inside = False, hw_selected = False\<rparr>"
  have "hover_step ?w (SetSelected True) (?w\<lparr>hw_selected := True\<rparr>)" by (rule hover_step.select)
  moreover have "hover_step (?w\<lparr>hw_selected := True\<rparr>) PointerLeave (?w'\<lparr>hw_selected := True\<rparr>)"
    using hover_step.leave [of "?w\<lparr>hw_selected := True\<rparr>"] by (simp add: onMouseExit_def)
  moreover have "hover_step (?w'\<lparr>hw_selected := True\<rparr>) (SetSelected False) ?w'"
    using hover_step.select [of "?w'\<lparr>hw_selected := True\<rparr>" False] by simp
  ultimately have "hover_run ?w [SetSelected True, PointerLeave, SetSelected False] ?w'"
    by (meson hover_run.intros)
  then show ?thesis
    using options_stuck_after_select_from_menu [OF open_run, of "[SetSelected True, PointerLeave, SetSelected False]" ?w']
    by simp
qed

text \<open>The fixed-dimension icons are looked up under the keys Data, Period and
  OrgUnit, so the fixed dimension ids dx, pe and ou get the generic icon.\<close>
theorem fixed_dimensions_get_generic_icon:
  "getDimensionIcon DIMENSION_ID_DATA = GenericDimension \<and>
   getDimensionIcon DIMENSION_ID_PERIOD = GenericDimension \<and>
   getDimensionIcon DIMENSION_ID_ORGUNIT = GenericDimension \<and>
   getDimensionIcon ''Data'' = DataIcon"
  by (simp add: getDimensionIcon_def fixedDimensionIcons_def adapter_consts)


text \<open>C36. In every state a run of the item can reach where the options button is
  shown, one event of the user hides it: toggling the menu when it is open,
  leaving the item when it is closed.\<close>

theorem options_can_be_hidden:
  assumes "hover_run initial_hover_world es w" "renderOptionsOnHover (hw_selected w) (hw_state w)"
  shows "\<exists>w'. hover_step w (if optionButtonClicked (hw_state w) then OptionsToggle else PointerLeave) w' \<and>
    \<not> renderOptionsOnHover (hw_selected w') (hw_state w')"
proof (cases "optionButtonClicked (hw_state w)")
  case obc: True
  have "hover_step w OptionsToggle (w\<lparr>hw_state := toggleHoverListener (hw_state w)\<rparr>)"
    using assms(2) by (rule hover_step.toggle)
  with obc show ?thesis
    by (auto simp: renderOptionsOnHover_def toggleHoverListener_def onMouseExit_def)
next
  case obc: False
  with hover_run_inv [OF assms(1)] assms(2) have "pointer_inside w"
    by (simp add: initial_hover_world_def initial_hov_state_def renderOptionsOnHover_def)
  then have "hover_step w PointerLeave (w\<lparr>pointer_inside := False, hw_state := onMouseExit (hw_state w)\<rparr>)"
    by (rule hover_step.leave)
  with obc show ?thesis by (auto simp: renderOptionsOnHover_def onMouseExit_def)
qed

theorem options_can_be_hidden_witness:
  "\<exists>w'. hover_step \<lparr>hw_state = \<lparr>mouseOver = True, optionButtonClicked = True\<rparr>, pointer_inside = True,
       hw_selected = False\<rparr> OptionsToggle w' \<and> \<not> renderOptionsOnHover (hw_selected w') (hw_state w')"
  using options_can_be_hidden [OF open_run] by (simp add: renderOptionsOnHover_def)

end
