(* ===== verification/FontStylesTest.thy ===== *)
theory FontStylesTest
  imports AxisAdapter
begin

text \<open>
  The end-to-end test \<^verbatim>\<open>src/cypress/integration/options/fontStyles.cy.js\<close>. The
  file does not run the app itself: loading it builds a tree of \<open>describe\<close> and
  \<open>it\<close> blocks, each \<open>it\<close> a list of commands of the Cypress helpers (\<open>elements/\<close>,
  \<open>utils/\<close>, not in the sources), whose arguments are computed from random draws
  (\<open>generateRandomBool\<close>, \<open>generateRandomNumber\<close>, \<open>getRandomArrayItem\<close>) and from
  the default chart configurations of \<^verbatim>\<open>utils/config.js\<close>. Here the tree is a value
  of \<open>cy_node\<close>, the commands are the constructors of \<open>cy_step\<close>, the draws of one
  block are a \<open>cy_draw\<close> and the default configurations a \<open>cy_config\<close>; the expected
  configurations are the JSON objects the test writes with object spread.
\<close>

record cy_config =
  CONFIG_DEFAULT_SUBTITLE :: jsval
  CONFIG_DEFAULT_TITLE :: jsval
  CONFIG_DEFAULT_LEGEND :: jsval
  CONFIG_DEFAULT_TARGET_LINE :: jsval
  CONFIG_DEFAULT_BASE_LINE :: jsval
  CONFIG_DEFAULT_VERTICAL_AXIS_TITLE :: jsval
  CONFIG_DEFAULT_HORIZONTAL_AXIS_TITLE :: jsval
  CONFIG_DEFAULT_AXIS_LABELS :: jsval

text \<open>The random draws of one block, in the order the block makes them: the text
  alignment choice, bold, italic, and the plot line value.\<close>

record cy_draw =
  d_align :: bool
  d_bold :: bool
  d_italic :: bool
  d_value :: int

datatype options_tab = OPTIONS_TAB_STYLE | OPTIONS_TAB_DATA | OPTIONS_TAB_AXES

datatype cy_step =
    GoToStartPage
  | OpenDimension string
  | SelectDataElements "string list"
  | ClickDimensionModalUpdateButton
  | ExpectVisualizationToBeVisible string
  | ExpectChartTitleToBeVisible
  | ExpectChartSubtitleToBeVisible
  | OpenOptionsModal options_tab
  | SetCustomSubtitle string
  | ChangeFontSizeOption string string
  | ChangeTextAlignOption string string
  | ClickBoldButton string
  | ClickItalicButton string
  | ChangeColor string string
  | ClickOptionsModalUpdateButton
  | CheckTargetLineCheckbox
  | SetTargetLineLabel string
  | SetTargetLineValue int
  | CheckBaseLineCheckbox
  | SetBaseLineLabel string
  | SetBaseLineValue int
  | SwitchAxesTabTo string
  | SetAxisTitleTextModeTo string
  | SetAxisTitleText string string
  | CyLog string
  | ExpectWindowConfigTitleToBeValue jsval
  | ExpectWindowConfigSubtitleToBeValue jsval
  | ExpectWindowConfigLegendToBeValue jsval
  | ExpectWindowConfigAxisPlotLinesToBeValue string int int jsval
  | ExpectWindowConfigAxisTitleToBeValue string int jsval
  | ExpectWindowConfigAxisLabelsToBeValue string int jsval

datatype cy_node = It string "cy_step list" | Describe string "cy_node list"

definition VIS_TYPE_COLUMN :: string where "VIS_TYPE_COLUMN = ''COLUMN''"

definition TITLE_PREFIX :: string where "TITLE_PREFIX = ''option-chart-title''"
definition SUBTITLE_PREFIX :: string where "SUBTITLE_PREFIX = ''option-chart-subtitle''"
definition SERIES_KEY_PREFIX :: string where "SERIES_KEY_PREFIX = ''option-series-key''"
definition TARGET_LINE_PREFIX :: string where "TARGET_LINE_PREFIX = ''option-target-line-label''"
definition BASE_LINE_PREFIX :: string where "BASE_LINE_PREFIX = ''option-base-line-label''"
definition VERTICAL_AXIS_TITLE_PREFIX :: string where "VERTICAL_AXIS_TITLE_PREFIX = ''RANGE_0-axis-title''"
definition HORIZONTAL_AXIS_TITLE_PREFIX :: string where
  "HORIZONTAL_AXIS_TITLE_PREFIX = ''DOMAIN_0-axis-title''"
definition VERTICAL_AXIS_LABELS_PREFIX :: string where
  "VERTICAL_AXIS_LABELS_PREFIX = ''option-axis-label-RANGE_0''"
definition HORIZONTAL_AXIS_LABELS_PREFIX :: string where
  "HORIZONTAL_AXIS_LABELS_PREFIX = ''option-axis-label-DOMAIN_0''"

text \<open>\<open>{ input: useBold, output: useBold ? 'bold' : 'normal' }\<close> for the drawn
  \<open>useBold\<close>; likewise for italic.\<close>

definition randomizeBoldOption :: "bool \<Rightarrow> bool \<times> string" where
  "randomizeBoldOption useBold = (useBold, if useBold then ''bold'' else ''normal'')"

definition randomizeItalicOption :: "bool \<Rightarrow> bool \<times> string" where
  "randomizeItalicOption useItalic = (useItalic, if useItalic then ''italic'' else ''normal'')"

text \<open>\<open>{...base, k1: v1, \<dots>}\<close>: the own properties of \<open>base\<close>, then each key
  written in turn.\<close>

definition obj_with :: "jsval \<Rightarrow> (string \<times> jsval) list \<Rightarrow> jsval" where
  "obj_with base kvs = JObj (foldl (\<lambda>acc (k, v). alist_set k v acc) (obj_spread base) kvs)"

text \<open>\<open>setFontStyleOptions\<close>: one \<open>it\<close> per option that is given and truthy, in the
  order size, alignment, bold, italic, color. The axis-label blocks give no
  alignment (\<open>None\<close>, \<open>undefined\<close>).\<close>

definition setFontStyleOptions ::
  "string \<Rightarrow> string option \<Rightarrow> bool \<Rightarrow> bool \<Rightarrow> string \<Rightarrow> string \<Rightarrow> cy_node list" where
  "setFontStyleOptions fontSize textAlign bold italic color prefix =
     (if fontSize \<noteq> [] then [It (''changes the font size to '' @ fontSize)
        [ChangeFontSizeOption prefix fontSize]] else []) @
     (case textAlign of Some ta \<Rightarrow> if ta \<noteq> [] then [It (''changes the text align to '' @ ta)
        [ChangeTextAlignOption prefix ta]] else [] | None \<Rightarrow> []) @
     (if bold then [It ''changes font to bold'' [ClickBoldButton prefix]] else []) @
     (if italic then [It ''changes font to italic'' [ClickItalicButton prefix]] else []) @
     (if color \<noteq> [] then [It (''changes color to '' @ color) [ChangeColor prefix color]] else [])"

text \<open>The title of the final \<open>it\<close> of a block; the axis-label blocks omit the
  alignment.\<close>

definition config_test_name :: "string \<Rightarrow> string option \<Rightarrow> bool \<Rightarrow> bool \<Rightarrow> string \<Rightarrow> string" where
  "config_test_name fontSize textAlign bold italic color =
     ''config has font size \"'' @ fontSize @ ''\", '' @
     (case textAlign of Some ta \<Rightarrow> ''text align '' @ ta @ '', '' | None \<Rightarrow> []) @
     ''bold '' @ js_to_string (JBool bold) @ '', italic '' @ js_to_string (JBool italic) @
     '', color '' @ color"

definition modal_update_test :: cy_node where
  "modal_update_test = It ''clicks the modal update button'' [ClickOptionsModalUpdateButton]"

subsection \<open>The blocks\<close>

definition title_block :: "cy_config \<Rightarrow> cy_draw \<Rightarrow> cy_node" where
  "title_block C r =
     (let fs = (''Small'', ''13px'');
          ta = (if d_align r then (''Left'', ''left'') else (''Right'', ''right''));
          bo = randomizeBoldOption (d_bold r); it = randomizeItalicOption (d_italic r);
          color = ''#fafa00''; prefix = TITLE_PREFIX
      in Describe ''title'' (
        [It ''has default value'' [ExpectChartTitleToBeVisible,
           ExpectWindowConfigTitleToBeValue (CONFIG_DEFAULT_TITLE C)],
         It ''opens Options -> Style'' [OpenOptionsModal OPTIONS_TAB_STYLE]] @
        setFontStyleOptions (fst fs) (Some (fst ta)) (fst bo) (fst it) color prefix @
        [modal_update_test,
         It (config_test_name (snd fs) (Some (snd ta)) (fst bo) (fst it) color)
           [ExpectChartTitleToBeVisible,
            ExpectWindowConfigTitleToBeValue (obj_with (CONFIG_DEFAULT_TITLE C)
              [(''align'', JStr (snd ta)),
               (''style'', obj_with (get_prop (CONFIG_DEFAULT_TITLE C) ''style'')
                  [(''fontSize'', JStr (snd fs)), (''fontWeight'', JStr (snd bo)),
                   (''fontStyle'', JStr (snd it)), (''color'', JStr color)])])]]))"

definition subtitle_block :: "cy_config \<Rightarrow> cy_draw \<Rightarrow> cy_node" where
  "subtitle_block C r =
     (let fs = (''Regular'', ''18px'');
          ta = (if d_align r then (''Left'', ''left'') else (''Right'', ''right''));
          bo = randomizeBoldOption (d_bold r); it = randomizeItalicOption (d_italic r);
          color = ''#fa00fa''; prefix = SUBTITLE_PREFIX; text = ''S''
      in Describe ''subtitle'' (
        [It ''has default value'' [ExpectChartSubtitleToBeVisible,
           ExpectWindowConfigSubtitleToBeValue (CONFIG_DEFAULT_SUBTITLE C)],
         It ''opens Options -> Style'' [OpenOptionsModal OPTIONS_TAB_STYLE],
         It ''sets a custom subtitle'' [SetCustomSubtitle text]] @
        setFontStyleOptions (fst fs) (Some (fst ta)) (fst bo) (fst it) color prefix @
        [modal_update_test,
         It (config_test_name (snd fs) (Some (snd ta)) (fst bo) (fst it) color)
           [ExpectChartSubtitleToBeVisible,
            ExpectWindowConfigSubtitleToBeValue (obj_with (CONFIG_DEFAULT_SUBTITLE C)
              [(''align'', JStr (snd ta)), (''text'', JStr text),
               (''style'', obj_with (get_prop (CONFIG_DEFAULT_SUBTITLE C) ''style'')
                  [(''fontSize'', JStr (snd fs)), (''fontWeight'', JStr (snd bo)),
                   (''fontStyle'', JStr (snd it)), (''color'', JStr color)])])]]))"

text \<open>The target and base lines: the alignment choice also fixes the label's
  \<open>x\<close> offset (0 centred, -10 right).\<close>

definition plot_line_block ::
  "string \<Rightarrow> string \<times> string \<Rightarrow> string \<Rightarrow> string \<Rightarrow> string \<Rightarrow> (int \<Rightarrow> cy_step) \<Rightarrow>
   (string \<Rightarrow> cy_step) \<Rightarrow> cy_step \<Rightarrow> int \<Rightarrow> jsval \<Rightarrow> cy_draw \<Rightarrow> cy_node" where
  "plot_line_block name fs color label prefix setValue setLabel check lineIndex base r =
     (let ta = (if d_align r then (''Center'', ''center'', 0::int) else (''Right'', ''right'', -10));
          bo = randomizeBoldOption (d_bold r); it = randomizeItalicOption (d_italic r);
          value = d_value r
      in Describe name (
        [It ''opens Options -> Data'' [OpenOptionsModal OPTIONS_TAB_DATA],
         It (''sets '' @ name) (CyLog (''Test value: '' @ string_of_int value) #
           [check, setLabel label, setValue value])] @
        setFontStyleOptions (fst fs) (Some (fst ta)) (fst bo) (fst it) color prefix @
        [modal_update_test,
         It (config_test_name (snd fs) (Some (fst (snd ta))) (fst bo) (fst it) color)
           [ExpectVisualizationToBeVisible VIS_TYPE_COLUMN,
            ExpectWindowConfigAxisPlotLinesToBeValue ''yAxis'' 0 lineIndex (obj_with base
              [(''value'', JNum value), (''color'', JStr color),
               (''label'', obj_with (get_prop base ''label'')
                  [(''x'', JNum (snd (snd ta))), (''text'', JStr label), (''align'', JStr (fst (snd ta))),
                   (''style'', obj_with (get_prop (get_prop base ''label'') ''style'')
                      [(''fontSize'', JStr (snd fs)), (''fontWeight'', JStr (snd bo)),
                       (''fontStyle'', JStr (snd it)), (''color'', JStr color)])])])]]))"

definition target_line_block :: "cy_config \<Rightarrow> cy_draw \<Rightarrow> cy_node" where
  "target_line_block C r =
     plot_line_block ''target line'' (''Small'', ''11px'') ''#00fafa'' ''TL'' TARGET_LINE_PREFIX
       SetTargetLineValue SetTargetLineLabel CheckTargetLineCheckbox 0 (CONFIG_DEFAULT_TARGET_LINE C) r"

definition base_line_block :: "cy_config \<Rightarrow> cy_draw \<Rightarrow> cy_node" where
  "base_line_block C r =
     plot_line_block ''base line'' (''Large'', ''18px'') ''#99fa99'' ''BL'' BASE_LINE_PREFIX
       SetBaseLineValue SetBaseLineLabel CheckBaseLineCheckbox 1 (CONFIG_DEFAULT_BASE_LINE C) r"

definition series_key_block :: "cy_config \<Rightarrow> cy_draw \<Rightarrow> cy_node" where
  "series_key_block C r =
     (let fs = (''Extra Large'', ''24px'');
          ta = (if d_align r then (''Left'', ''left'') else (''Right'', ''right''));
          bo = randomizeBoldOption (d_bold r); it = randomizeItalicOption (d_italic r);
          color = ''#9090fa''; prefix = SERIES_KEY_PREFIX
      in Describe ''series key'' (
        [It ''opens Options -> Style'' [OpenOptionsModal OPTIONS_TAB_STYLE]] @
        setFontStyleOptions (fst fs) (Some (fst ta)) (fst bo) (fst it) color prefix @
        [modal_update_test,
         It (config_test_name (snd fs) (Some (snd ta)) (fst bo) (fst it) color)
           [ExpectVisualizationToBeVisible VIS_TYPE_COLUMN,
            ExpectWindowConfigLegendToBeValue (obj_with (CONFIG_DEFAULT_LEGEND C)
              [(''align'', JStr (snd ta)),
               (''itemStyle'', obj_with (get_prop (CONFIG_DEFAULT_LEGEND C) ''itemStyle'')
                  [(''fontSize'', JStr (snd fs)), (''fontWeight'', JStr (snd bo)),
                   (''fontStyle'', JStr (snd it)), (''color'', JStr color)])])]]))"

text \<open>The two axis-label blocks; the horizontal one also switches the axes tab.\<close>

definition axis_labels_block ::
  "string \<Rightarrow> string \<times> string \<Rightarrow> string \<Rightarrow> string \<Rightarrow> cy_step list \<Rightarrow> string \<Rightarrow> jsval \<Rightarrow> cy_draw \<Rightarrow> cy_node" where
  "axis_labels_block name fs color prefix openSteps axisType base r =
     (let bo = randomizeBoldOption (d_bold r); it = randomizeItalicOption (d_italic r)
      in Describe name (
        [It ''opens Options -> Axes'' (OpenOptionsModal OPTIONS_TAB_AXES # openSteps)] @
        setFontStyleOptions (fst fs) None (fst bo) (fst it) color prefix @
        [modal_update_test,
         It (config_test_name (snd fs) None (fst bo) (fst it) color)
           [ExpectVisualizationToBeVisible VIS_TYPE_COLUMN,
            ExpectWindowConfigAxisLabelsToBeValue axisType 0 (obj_with base
              [(''style'', obj_with (get_prop base ''style'')
                  [(''fontSize'', JStr (snd fs)), (''fontWeight'', JStr (snd bo)),
                   (''fontStyle'', JStr (snd it)), (''color'', JStr color)])])]]))"

definition vertical_axis_labels_block :: "cy_config \<Rightarrow> cy_draw \<Rightarrow> cy_node" where
  "vertical_axis_labels_block C r =
     axis_labels_block ''vertical axis labels'' (''Regular'', ''13px'') ''#0909fa''
       VERTICAL_AXIS_LABELS_PREFIX [] ''yAxis'' (CONFIG_DEFAULT_AXIS_LABELS C) r"

definition horizontal_axis_labels_block :: "cy_config \<Rightarrow> cy_draw \<Rightarrow> cy_node" where
  "horizontal_axis_labels_block C r =
     axis_labels_block ''horizontal axis labels'' (''Large'', ''18px'') ''#fa0909''
       HORIZONTAL_AXIS_LABELS_PREFIX [SwitchAxesTabTo ''Horizontal (x) axis''] ''xAxis''
       (CONFIG_DEFAULT_AXIS_LABELS C) r"

text \<open>The two axis-title blocks: Start and End align the title \<open>low\<close> and
  \<open>high\<close>.\<close>

definition axis_title_block ::
  "string \<Rightarrow> string \<times> string \<Rightarrow> string \<Rightarrow> string \<Rightarrow> string \<Rightarrow> string \<Rightarrow> cy_step list \<Rightarrow> string \<Rightarrow>
   jsval \<Rightarrow> cy_draw \<Rightarrow> cy_node" where
  "axis_title_block name fs color title axis prefix switchSteps axisType base r =
     (let ta = (if d_align r then (''Start'', ''low'') else (''End'', ''high''));
          bo = randomizeBoldOption (d_bold r); it = randomizeItalicOption (d_italic r)
      in Describe name (
        [It ''opens Options -> Axes'' [OpenOptionsModal OPTIONS_TAB_AXES],
         It (''sets '' @ name @ '' to \"'' @ title @ ''\"'')
           (switchSteps @ [SetAxisTitleTextModeTo ''Custom'', SetAxisTitleText axis title])] @
        setFontStyleOptions (fst fs) (Some (fst ta)) (fst bo) (fst it) color prefix @
        [modal_update_test,
         It (config_test_name (snd fs) (Some (snd ta)) (fst bo) (fst it) color)
           [ExpectVisualizationToBeVisible VIS_TYPE_COLUMN,
            ExpectWindowConfigAxisTitleToBeValue axisType 0 (obj_with base
              [(''text'', JStr title), (''align'', JStr (snd ta)),
               (''style'', obj_with (get_prop base ''style'')
                  [(''fontSize'', JStr (snd fs)), (''fontWeight'', JStr (snd bo)),
                   (''fontStyle'', JStr (snd it)), (''color'', JStr color)])])]]))"

definition horizontal_axis_title_block :: "cy_config \<Rightarrow> cy_draw \<Rightarrow> cy_node" where
  "horizontal_axis_title_block C r =
     axis_title_block ''horizontal axis title'' (''Extra Small'', ''9px'') ''#0f9a09'' ''HT'' ''DOMAIN_0''
       HORIZONTAL_AXIS_TITLE_PREFIX [SwitchAxesTabTo ''Horizontal (x) axis''] ''xAxis''
       (CONFIG_DEFAULT_HORIZONTAL_AXIS_TITLE C) r"

definition vertical_axis_title_block :: "cy_config \<Rightarrow> cy_draw \<Rightarrow> cy_node" where
  "vertical_axis_title_block C r =
     axis_title_block ''vertical axis title'' (''Large'', ''18px'') ''#a090f9'' ''VT'' ''RANGE_0''
       VERTICAL_AXIS_TITLE_PREFIX [] ''yAxis'' (CONFIG_DEFAULT_VERTICAL_AXIS_TITLE C) r"

subsection \<open>The suite\<close>

record cy_random =
  TEST_DATA_ELEMENT_NAME :: string
  r_title :: cy_draw
  r_subtitle :: cy_draw
  r_target_line :: cy_draw
  r_base_line :: cy_draw
  r_series_key :: cy_draw
  r_vertical_axis_labels :: cy_draw
  r_horizontal_axis_labels :: cy_draw
  r_horizontal_axis_title :: cy_draw
  r_vertical_axis_title :: cy_draw

definition font_style_blocks :: "cy_config \<Rightarrow> cy_random \<Rightarrow> (string \<times> cy_node) list" where
  "font_style_blocks C R =
     [(TITLE_PREFIX, title_block C (r_title R)),
      (SUBTITLE_PREFIX, subtitle_block C (r_subtitle R)),
      (TARGET_LINE_PREFIX, target_line_block C (r_target_line R)),
      (BASE_LINE_PREFIX, base_line_block C (r_base_line R)),
      (SERIES_KEY_PREFIX, series_key_block C (r_series_key R)),
      (VERTICAL_AXIS_LABELS_PREFIX, vertical_axis_labels_block C (r_vertical_axis_labels R)),
      (HORIZONTAL_AXIS_LABELS_PREFIX, horizontal_axis_labels_block C (r_horizontal_axis_labels R)),
      (HORIZONTAL_AXIS_TITLE_PREFIX, horizontal_axis_title_block C (r_horizontal_axis_title R)),
      (VERTICAL_AXIS_TITLE_PREFIX, vertical_axis_title_block C (r_vertical_axis_title R))]"

definition font_styles_suite :: "cy_config \<Rightarrow> cy_random \<Rightarrow> cy_node" where
  "font_styles_suite C R =
     Describe ''Options - Font styles''
       (It ''navigates to the start page and adds a data item''
          [GoToStartPage, OpenDimension DIMENSION_ID_DATA, SelectDataElements [TEST_DATA_ELEMENT_NAME R],
           ClickDimensionModalUpdateButton, ExpectVisualizationToBeVisible VIS_TYPE_COLUMN] #
        map snd (font_style_blocks C R))"

text \<open>The commands in the order Cypress runs them, and the style object an
  expectation checks.\<close>

fun steps_of :: "cy_node \<Rightarrow> cy_step list" where
  "steps_of (It name ss) = ss"
| "steps_of (Describe name ns) = concat (map steps_of ns)"

fun expected_style :: "cy_step \<Rightarrow> jsval option" where
  "expected_style (ExpectWindowConfigTitleToBeValue v) = Some (get_prop v ''style'')"
| "expected_style (ExpectWindowConfigSubtitleToBeValue v) = Some (get_prop v ''style'')"
| "expected_style (ExpectWindowConfigLegendToBeValue v) = Some (get_prop v ''itemStyle'')"
| "expected_style (ExpectWindowConfigAxisPlotLinesToBeValue t i l v) =
     Some (get_prop (get_prop v ''label'') ''style'')"
| "expected_style (ExpectWindowConfigAxisTitleToBeValue t i v) = Some (get_prop v ''style'')"
| "expected_style (ExpectWindowConfigAxisLabelsToBeValue t i v) = Some (get_prop v ''style'')"
| "expected_style _ = None"

definition is_expectation :: "cy_step \<Rightarrow> bool" where
  "is_expectation s = (expected_style s \<noteq> None)"

definition final_style :: "cy_node \<Rightarrow> jsval" where
  "final_style B = (case filter is_expectation (steps_of B) of
       [] \<Rightarrow> JUndef | ss \<Rightarrow> the (expected_style (last ss)))"


definition sample_cy_config :: cy_config where
  "sample_cy_config = \<lparr>CONFIG_DEFAULT_SUBTITLE = JObj [], CONFIG_DEFAULT_TITLE = JObj [],
     CONFIG_DEFAULT_LEGEND = JObj [], CONFIG_DEFAULT_TARGET_LINE = JObj [], CONFIG_DEFAULT_BASE_LINE = JObj [],
     CONFIG_DEFAULT_VERTICAL_AXIS_TITLE = JObj [], CONFIG_DEFAULT_HORIZONTAL_AXIS_TITLE = JObj [],
     CONFIG_DEFAULT_AXIS_LABELS = JObj []\<rparr>"

definition sample_draw :: cy_draw where
  "sample_draw = \<lparr>d_align = True, d_bold = True, d_italic = False, d_value = 42\<rparr>"

definition sample_cy_random :: cy_random where
  "sample_cy_random = \<lparr>TEST_DATA_ELEMENT_NAME = ''ANC 1st visit'', r_title = sample_draw,
     r_subtitle = sample_draw, r_target_line = sample_draw, r_base_line = sample_draw,
     r_series_key = sample_draw, r_vertical_axis_labels = sample_draw,
     r_horizontal_axis_labels = sample_draw, r_horizontal_axis_title = sample_draw,
     r_vertical_axis_title = sample_draw\<rparr>"

subsection \<open>Properties\<close>

lemma map_of_foldl_alist_set:
  "map_of (foldl (\<lambda>acc (k, v). alist_set k v acc) acc kvs) = map_of acc ++ map_of (rev kvs)"
  by (induction kvs arbitrary: acc) (auto simp: map_add_upd_left map_add_assoc)

lemma get_prop_obj_with [simp]:
  "get_prop (obj_with b kvs) k =
     (case map_of (rev kvs) k of Some v \<Rightarrow> v | None \<Rightarrow> get_prop (JObj (obj_spread b)) k)"
  by (simp add: obj_with_def map_of_foldl_alist_set map_add_def split: option.split)

lemma setFontStyleOptions_steps:
  "(\<exists>x\<in>set (setFontStyleOptions fs ta b i c p). ClickBoldButton q \<in> set (steps_of x)) \<longleftrightarrow> b \<and> q = p"
  "(\<exists>x\<in>set (setFontStyleOptions fs ta b i c p). ClickItalicButton q \<in> set (steps_of x)) \<longleftrightarrow> i \<and> q = p"
  "filter is_expectation (concat (map steps_of (setFontStyleOptions fs ta b i c p))) = []"
  by (auto simp: setFontStyleOptions_def is_expectation_def split: option.split)

lemma title_block_style:
  "ClickBoldButton q \<in> set (steps_of (title_block C r)) \<longleftrightarrow> d_bold r \<and> q = TITLE_PREFIX"
  "ClickItalicButton q \<in> set (steps_of (title_block C r)) \<longleftrightarrow> d_italic r \<and> q = TITLE_PREFIX"
  "get_prop (final_style (title_block C r)) ''fontWeight'' = JStr (if d_bold r then ''bold'' else ''normal'')"
  "get_prop (final_style (title_block C r)) ''fontStyle'' = JStr (if d_italic r then ''italic'' else ''normal'')"
  by (simp_all add: title_block_def Let_def final_style_def is_expectation_def setFontStyleOptions_steps modal_update_test_def
      randomizeBoldOption_def randomizeItalicOption_def)

lemma subtitle_block_style:
  "ClickBoldButton q \<in> set (steps_of (subtitle_block C r)) \<longleftrightarrow> d_bold r \<and> q = SUBTITLE_PREFIX"
  "ClickItalicButton q \<in> set (steps_of (subtitle_block C r)) \<longleftrightarrow> d_italic r \<and> q = SUBTITLE_PREFIX"
  "get_prop (final_style (subtitle_block C r)) ''fontWeight'' = JStr (if d_bold r then ''bold'' else ''normal'')"
  "get_prop (final_style (subtitle_block C r)) ''fontStyle'' = JStr (if d_italic r then ''italic'' else ''normal'')"
  by (simp_all add: subtitle_block_def Let_def final_style_def is_expectation_def setFontStyleOptions_steps modal_update_test_def
      randomizeBoldOption_def randomizeItalicOption_def)

lemma target_line_block_style:
  "ClickBoldButton q \<in> set (steps_of (target_line_block C r)) \<longleftrightarrow> d_bold r \<and> q = TARGET_LINE_PREFIX"
  "ClickItalicButton q \<in> set (steps_of (target_line_block C r)) \<longleftrightarrow> d_italic r \<and> q = TARGET_LINE_PREFIX"
  "get_prop (final_style (target_line_block C r)) ''fontWeight'' = JStr (if d_bold r then ''bold'' else ''normal'')"
  "get_prop (final_style (target_line_block C r)) ''fontStyle'' = JStr (if d_italic r then ''italic'' else ''normal'')"
  by (simp_all add: target_line_block_def plot_line_block_def Let_def final_style_def is_expectation_def setFontStyleOptions_steps modal_update_test_def
      randomizeBoldOption_def randomizeItalicOption_def)

lemma base_line_block_style:
  "ClickBoldButton q \<in> set (steps_of (base_line_block C r)) \<longleftrightarrow> d_bold r \<and> q = BASE_LINE_PREFIX"
  "ClickItalicButton q \<in> set (steps_of (base_line_block C r)) \<longleftrightarrow> d_italic r \<and> q = BASE_LINE_PREFIX"
  "get_prop (final_style (base_line_block C r)) ''fontWeight'' = JStr (if d_bold r then ''bold'' else ''normal'')"
  "get_prop (final_style (base_line_block C r)) ''fontStyle'' = JStr (if d_italic r then ''italic'' else ''normal'')"
  by (simp_all add: base_line_block_def plot_line_block_def Let_def final_style_def is_expectation_def setFontStyleOptions_steps modal_update_test_def
      randomizeBoldOption_def randomizeItalicOption_def)

lemma series_key_block_style:
  "ClickBoldButton q \<in> set (steps_of (series_key_block C r)) \<longleftrightarrow> d_bold r \<and> q = SERIES_KEY_PREFIX"
  "ClickItalicButton q \<in> set (steps_of (series_key_block C r)) \<longleftrightarrow> d_italic r \<and> q = SERIES_KEY_PREFIX"
  "get_prop (final_style (series_key_block C r)) ''fontWeight'' = JStr (if d_bold r then ''bold'' else ''normal'')"
  "get_prop (final_style (series_key_block C r)) ''fontStyle'' = JStr (if d_italic r then ''italic'' else ''normal'')"
  by (simp_all add: series_key_block_def Let_def final_style_def is_expectation_def setFontStyleOptions_steps modal_update_test_def
      randomizeBoldOption_def randomizeItalicOption_def)

lemma vertical_axis_labels_block_style:
  "ClickBoldButton q \<in> set (steps_of (vertical_axis_labels_block C r)) \<longleftrightarrow> d_bold r \<and> q = VERTICAL_AXIS_LABELS_PREFIX"
  "ClickItalicButton q \<in> set (steps_of (vertical_axis_labels_block C r)) \<longleftrightarrow> d_italic r \<and> q = VERTICAL_AXIS_LABELS_PREFIX"
  "get_prop (final_style (vertical_axis_labels_block C r)) ''fontWeight'' = JStr (if d_bold r then ''bold'' else ''normal'')"
  "get_prop (final_style (vertical_axis_labels_block C r)) ''fontStyle'' = JStr (if d_italic r then ''italic'' else ''normal'')"
  by (simp_all add: vertical_axis_labels_block_def axis_labels_block_def Let_def final_style_def is_expectation_def setFontStyleOptions_steps modal_update_test_def
      randomizeBoldOption_def randomizeItalicOption_def)

lemma horizontal_axis_labels_block_style:
  "ClickBoldButton q \<in> set (steps_of (horizontal_axis_labels_block C r)) \<longleftrightarrow> d_bold r \<and> q = HORIZONTAL_AXIS_LABELS_PREFIX"
  "ClickItalicButton q \<in> set (steps_of (horizontal_axis_labels_block C r)) \<longleftrightarrow> d_italic r \<and> q = HORIZONTAL_AXIS_LABELS_PREFIX"
  "get_prop (final_style (horizontal_axis_labels_block C r)) ''fontWeight'' = JStr (if d_bold r then ''bold'' else ''normal'')"
  "get_prop (final_style (horizontal_axis_labels_block C r)) ''fontStyle'' = JStr (if d_italic r then ''italic'' else ''normal'')"
  by (simp_all add: horizontal_axis_labels_block_def axis_labels_block_def Let_def final_style_def is_expectation_def setFontStyleOptions_steps modal_update_test_def
      randomizeBoldOption_def randomizeItalicOption_def)

lemma horizontal_axis_title_block_style:
  "ClickBoldButton q \<in> set (steps_of (horizontal_axis_title_block C r)) \<longleftrightarrow> d_bold r \<and> q = HORIZONTAL_AXIS_TITLE_PREFIX"
  "ClickItalicButton q \<in> set (steps_of (horizontal_axis_title_block C r)) \<longleftrightarrow> d_italic r \<and> q = HORIZONTAL_AXIS_TITLE_PREFIX"
  "get_prop (final_style (horizontal_axis_title_block C r)) ''fontWeight'' = JStr (if d_bold r then ''bold'' else ''normal'')"
  "get_prop (final_style (horizontal_axis_title_block C r)) ''fontStyle'' = JStr (if d_italic r then ''italic'' else ''normal'')"
  by (simp_all add: horizontal_axis_title_block_def axis_title_block_def Let_def final_style_def is_expectation_def setFontStyleOptions_steps modal_update_test_def
      randomizeBoldOption_def randomizeItalicOption_def)

lemma vertical_axis_title_block_style:
  "ClickBoldButton q \<in> set (steps_of (vertical_axis_title_block C r)) \<longleftrightarrow> d_bold r \<and> q = VERTICAL_AXIS_TITLE_PREFIX"
  "ClickItalicButton q \<in> set (steps_of (vertical_axis_title_block C r)) \<longleftrightarrow> d_italic r \<and> q = VERTICAL_AXIS_TITLE_PREFIX"
  "get_prop (final_style (vertical_axis_title_block C r)) ''fontWeight'' = JStr (if d_bold r then ''bold'' else ''normal'')"
  "get_prop (final_style (vertical_axis_title_block C r)) ''fontStyle'' = JStr (if d_italic r then ''italic'' else ''normal'')"
  by (simp_all add: vertical_axis_title_block_def axis_title_block_def Let_def final_style_def is_expectation_def setFontStyleOptions_steps modal_update_test_def
      randomizeBoldOption_def randomizeItalicOption_def)

lemmas block_style = title_block_style subtitle_block_style target_line_block_style
  base_line_block_style series_key_block_style vertical_axis_labels_block_style
  horizontal_axis_labels_block_style horizontal_axis_title_block_style vertical_axis_title_block_style

text \<open>C38. The font-style test is consistent with itself: in each of its nine
  blocks, for every outcome of the random draws and whatever the default
  configurations are, it clicks the block's bold button exactly when the
  configuration it finally expects has fontWeight bold, and its italic button
  exactly when that configuration has fontStyle italic.\<close>

theorem font_style_clicks_match_expectations:
  "\<forall>(prefix, B) \<in> set (font_style_blocks C R).
     (ClickBoldButton prefix \<in> set (steps_of B) \<longleftrightarrow>
        get_prop (final_style B) ''fontWeight'' = JStr ''bold'') \<and>
     (ClickItalicButton prefix \<in> set (steps_of B) \<longleftrightarrow>
        get_prop (final_style B) ''fontStyle'' = JStr ''italic'')"
  by (simp add: font_style_blocks_def block_style)

theorem font_style_clicks_match_expectations_witness:
  "ClickBoldButton TITLE_PREFIX \<in> set (steps_of (title_block sample_cy_config sample_draw)) \<and>
   get_prop (final_style (title_block sample_cy_config sample_draw)) ''fontWeight'' = JStr ''bold''"
proof -
  have "ClickBoldButton TITLE_PREFIX \<in> set (steps_of (title_block sample_cy_config sample_draw))"
    by (simp add: title_block_style sample_draw_def)
  then show ?thesis
    using font_style_clicks_match_expectations [of sample_cy_config sample_cy_random]
    by (simp add: font_style_blocks_def sample_cy_random_def)
qed

end
