(* ===== verification/Spec2Isabelle.thy ===== *)
theory Spec2Isabelle
  imports LayoutValidation AxisAdapter Store Thunks MenuBar SelectedItems DimensionItem
    FontStylesTest
begin

text \<open>
  A verification development of the data visualizer app. It models the parts of the
  program that carry its logic, as HOL functions over JavaScript values, and proves
  what they do.

  \<^bold>\<open>Parts of the program and how they interact.\<close> The editor keeps a Redux store
  (\<^verbatim>\<open>src/packages/app/src/reducers/\<close>). The action thunks of
  \<^verbatim>\<open>src/src/actions/index.js\<close> fetch, rename, save and delete visualizations
  through the API wrappers, adapt the axes of a fetched visualization with
  \<open>adaptAxisItems\<close>, and dispatch actions to the store. Before a chart is drawn the
  current layout is checked by \<open>validateLayout\<close> of
  \<^verbatim>\<open>src/packages/app/src/modules/layoutValidation.js\<close>.

  \<^bold>\<open>Theories.\<close>
  \<^item> \<^theory_text>\<open>Prelude\<close>: the exception monad on sums (\<open>ebind\<close>, \<open>emap\<close>) and the
    state-and-exception monad (\<open>sbind\<close>, \<open>stry\<close>, \<dots>) in which effects before a
    throw persist, as in JavaScript; association-list update \<open>alist_set\<close> (the
    semantics of a property write and of \<open>{...o, k: v}\<close>).
  \<^item> \<^theory_text>\<open>JsValue\<close>: JavaScript values (\<open>jsval\<close>), \<open>typeof\<close>, truthiness, property
    read with and without optional chaining (\<open>js_get\<close> throws \<open>TypeError\<close> on
    \<open>null\<close>/\<open>undefined\<close>, \<open>js_get_opt\<close> does not), array and object spread, strict-mode
    property write.
  \<^item> \<^theory_text>\<open>Layout\<close>: the typed layout of the spec (records \<open>item\<close>, \<open>dimension\<close>,
    \<open>layout\<close>) and its JSON image \<open>js_of_layout\<close>, the abstraction function.
  \<^item> \<^theory_text>\<open>LayoutValidation\<close>: every function of \<open>layoutValidation.js\<close>
    (\<open>isItemValid\<close> \<dots> \<open>validateLayout\<close>) over untyped values, and the typed rules
    \<open>validate_spec\<close>. Lemmas: refinement of the spec by the code (C1), the order of
    the checks, the first-dimension rule, absence of \<open>TypeError\<close> on arrays and its
    presence when \<open>filters\<close> is missing.
  \<^item> \<^theory_text>\<open>AxisAdapter\<close>: \<open>adaptAxisItems\<close> and its callback. Lemmas: idempotence,
    the \<open>null\<close> items of the fixed dimensions, other properties kept, the
    \<open>TypeError\<close> on a \<open>null\<close> entry.
  \<^item> \<^theory_text>\<open>Store\<close>: the store as a record of its eleven slices, the actions as a
    datatype, \<open>rootReducer\<close> as \<open>combineReducers\<close> (\<^verbatim>\<open>reducers/index.js\<close>), the
    user reducer and \<open>fromD2ToUserObj\<close> (\<^verbatim>\<open>reducers/user.js\<close>) over the
    untyped d2 user object, the selector \<open>sGetSeriesSetupItems\<close>. Lemmas: a
    \<open>RECEIVED_USER\<close> dispatch either replaces the user slice or, on a d2 user
    without settings or without an authorities \<open>Set\<close>, fails as a whole; the series
    setup names after \<open>ADD_METADATA\<close>. The reducers whose files are not in the sources
    (metadata, visualization, current, ui, loader, snackbar) are written from the
    spec and the metadata reducer's test.
  \<^item> \<^theory_text>\<open>Thunks\<close>: the thunks over a \<open>world\<close> of store, object heap, history and a
    log of API calls. The visualization and current slices hold references
    (\<open>vslot\<close>) into the heap, so the reference equality \<open>visualization === current\<close>
    that decides whether the editor is dirty is modelled. An \<open>async\<close> thunk is split
    at its \<open>await\<close> into \<open>_start\<close> and \<open>_resume\<close>; \<open>run_steps\<close> runs any interleaving
    of such steps, as the event loop may. Lemmas: rename keeps reference equality,
    load success, not-found and uncaught-callback paths, save-as, the two save
    failure paths, the unguarded read of \<open>current.name\<close> by delete after a
    not-found load, and the last-response-wins behaviour of overlapping loads.
  \<^item> \<^theory_text>\<open>MenuBar\<close>: the file-menu handlers of
    \<^verbatim>\<open>src/src/components/MenuBar/MenuBar.js\<close> (\<open>onOpen\<close>, \<open>onNew\<close>, the callbacks
    that dispatch the rename, save, save-as and delete thunks, and \<open>onError\<close> of
    \<open>mapDispatchToProps\<close>) over the world of \<^theory_text>\<open>Thunks\<close>, and the condition
    under which \<open>onSave\<close> is offered. \<open>getVisualizationState\<close> is written from the
    spec (reference comparison of visualization and current). Lemmas: Save is
    offered exactly for a dirty or unsaved working copy and a rename never changes
    that; opening and new navigation replace or push the history entry; an error
    of the file menu becomes a snackbar message (E4030 or its own message), and a
    \<open>null\<close> error throws.
  \<^item> \<^theory_text>\<open>SelectedItems\<close>: the selected-items list of the dimension dialogs
    (\<^verbatim>\<open>components/Dimensions/Dialogs/SelectedItems.js\<close>): its state record, every
    handler (\<open>onDragEnd\<close>, \<open>onDragStart\<close>, the deselect handlers, \<open>toggleHighlight\<close>
    with \<open>toggler\<close> as a parameter, \<open>isGhosting\<close>) and \<open>Array.splice\<close>/\<open>indexOf\<close> at
    integer indices. The parent dialog, not in the sources, is modelled as applying
    the callbacks to its item list; \<open>sel_run\<close> runs a session of user events.
    Lemmas: closed forms of the single and multi-item moves, that a drop reorders by
    a permutation, moves a selection as one block and a single item to its
    destination, the corruption by a stale highlighted id, the skipped adjustment at
    index 1, the bounds of the indices of a multi-item move, and the invariant of a
    session.
  \<^item> \<^theory_text>\<open>DimensionItem\<close>: the dimension list entry
    (\<^verbatim>\<open>components/Dimensions/DimensionItem.js\<close>): its hover state, the handlers
    \<open>onMouseOver\<close>, \<open>onMouseExit\<close>, \<open>toggleHoverListener\<close> (with the \<open>setState\<close>
    callback run on the updated state), what it renders from the state, and the
    inductive step relation \<open>hover_step\<close> of the item with the pointer and the
    \<open>isSelected\<close> prop. Lemmas: by rule induction, the options button is shown only
    on hover or with its menu toggled open; once the menu is open it stays open,
    and the button shown with the pointer outside, until it is toggled again,
    whatever else happens; from every reachable state where it is shown, toggling
    (menu open) or leaving (menu closed) hides it; the icon lookup keys. The
    \<open>SetSelected\<close> event is enabled in every state, since the parent may change
    \<open>isSelected\<close> at any time (a drag to an axis, a dialog).
  \<^item> \<^theory_text>\<open>FontStylesTest\<close>: the Cypress test
    \<^verbatim>\<open>cypress/integration/options/fontStyles.cy.js\<close> as the tree of \<open>describe\<close>
    and \<open>it\<close> blocks it builds when loaded, as a function of its random draws and of
    the default chart configurations (both parameters, their modules are not in the
    sources). Lemma: in every block the clicks agree with the configuration the test
    expects, for every draw.
  \<^item> This theory: the property that spans the adapter, the load thunk and the
    validator (C22).

  \<^bold>\<open>Bounds and fuel.\<close> Every function is total and structurally recursive (or a
  fold over a list of steps); no fuel or bound is needed, and every theorem holds
  for inputs of any size. The event-driven parts with choice (the hover state of
  DimensionItem) are inductive step relations, and their runs are finite event
  lists. Integers are mathematical (\<open>int\<close>): the code compares
  lengths and status codes only, never relies on overflow.

  \<^bold>\<open>Not modelled.\<close> The JSX trees the components render are not modelled, beyond the
  decisions taken from state (which buttons are shown, ghosting, icons). HideLegend only
  passes constant props to \<open>CheckboxBaseOption\<close>, whose logic is not in the
  sources. What the Cypress helpers do in the browser is not modelled, only the commands the test issues.
  The external libraries (API wrappers, \<open>history\<close>, \<open>i18n\<close>, \<open>@dhis2/analytics\<close>,
  react-beautiful-dnd, the modules \<open>toggler\<close>, \<open>visualization\<close> and \<open>error\<close>) are
  not in the sources: their constants and the few functions the claims need are
  definitions written from the spec, the others are parameters (the record \<open>env\<close>,
  \<open>toggler\<close>, the error-variant function) or entries of an effect log. Translated
  message texts are represented by their labels or English texts.
\<close>

definition items_nonempty :: "layout \<Rightarrow> bool" where
  "items_nonempty L = (\<forall>d\<in>set (lcolumns L @ lrows L @ lfilters L). dim_items d \<noteq> [])"

lemma adaptAxisItem_js_of_dimension:
  "dim_items d \<noteq> [] \<Longrightarrow> adaptAxisItem (js_of_dimension d) = Inr (js_of_dimension d)"
  by (simp add: adaptAxisItem_def js_of_dimension_def js_get_opt_def)

lemma emap_adaptAxisItem_js_of:
  "\<forall>d\<in>set ds. dim_items d \<noteq> [] \<Longrightarrow> emap adaptAxisItem (map js_of_dimension ds) = Inr (map js_of_dimension ds)"
  by (induction ds) (simp_all add: adaptAxisItem_js_of_dimension)

lemma adaptAxisItems_js_of_axis:
  "\<forall>d\<in>set ds. dim_items d \<noteq> [] \<Longrightarrow> adaptAxisItems (js_of_axis ds) = Inr (js_of_axis ds)"
  by (simp add: adaptAxisItems_def js_of_axis_def emap_adaptAxisItem_js_of)

lemma js_set_js_of_layout:
  "js_set (js_of_layout L) ''columns'' (js_of_axis (lcolumns L)) = Inr (js_of_layout L)"
  "js_set (js_of_layout L) ''rows'' (js_of_axis (lrows L)) = Inr (js_of_layout L)"
  "js_set (js_of_layout L) ''filters'' (js_of_axis (lfilters L)) = Inr (js_of_layout L)"
  by (simp_all add: js_of_layout_def split: option.split)

lemma adaptVisualizationAxes_js_of_layout:
  "items_nonempty L \<Longrightarrow> adaptVisualizationAxes (js_of_layout L) = Inr (js_of_layout L)"
  by (simp add: items_nonempty_def adaptVisualizationAxes_def adaptAxisProp_def
      adaptAxisItems_js_of_axis js_set_js_of_layout)

text \<open>C22. End to end: when the backend returns the JSON image of a typed layout
  whose dimensions all carry items, the load publishes it unchanged by the axis
  adapter, and validating the published visualization gives exactly the spec's
  verdict on the typed layout.\<close>

theorem load_then_validate:
  assumes "\<not> nullish response"
    and "convertOuLevelsToUids E ouLevels (get_prop response ''visualization'') = js_of_layout L"
    and "items_nonempty L"
    and "tDoLoadVisualization_resume E ouLevels (Resolved response) w = (r, w')"
  shows "r = Inr () \<and> s_current (w_store w') = s_visualization (w_store w') \<and>
    validateLayout (deref w' (s_visualization (w_store w'))) =
      (case validate_spec L of None \<Rightarrow> Inr () | Some m \<Rightarrow> Inl (Error m))"
proof -
  have "adaptVisualizationAxes (convertOuLevelsToUids E ouLevels (get_prop response ''visualization'')) =
      Inr (js_of_layout L)"
    using assms(2,3) by (simp add: adaptVisualizationAxes_js_of_layout)
  from load_resume_resolved [OF assms(1) this, of w] assms(4)
  show ?thesis by (auto simp: deref_def validateLayout_js_of_layout)
qed
theorem load_then_validate_witness:
  "validateLayout (deref (snd (tDoLoadVisualization_resume sample_env JNull
     (Resolved (JObj [(''visualization'', js_of_layout sample_layout)])) initial_world))
     (s_visualization (w_store (snd (tDoLoadVisualization_resume sample_env JNull
     (Resolved (JObj [(''visualization'', js_of_layout sample_layout)])) initial_world))))) = Inr ()"
proof -
  have "validate_spec sample_layout = None"
    by (simp add: validate_spec_def sample_layout_def axis_ok_def period_ok_def dim_dx_def dim_pe_def)
  moreover have "items_nonempty sample_layout"
    by (simp add: items_nonempty_def sample_layout_def dim_dx_def dim_pe_def)
  ultimately show ?thesis
    using load_then_validate [of "JObj [(''visualization'', js_of_layout sample_layout)]" sample_env JNull
      sample_layout initial_world, OF _ _ _ surjective_pairing]
    by (simp add: sample_env_def)
qed
end
